theory Spec2Isabelle
  imports Main "HOL-Library.AList"
begin

section \<open>Data model of the controller's streaming RPC server\<close>

text \<open>
  The development embeds \<^verbatim>\<open>controller-grpc/controller.go\<close>. Collaborators that live
  in other packages (the store's repositories, \<^verbatim>\<open>json.Unmarshal\<close>, the \<^verbatim>\<open>utils\<close>
  converters, the label-filter matcher) are parameters of the functions that call them.
  A value received from a channel is an element of a list of received values; Go's
  \<^verbatim>\<open>int\<close> and \<^verbatim>\<open>int64\<close> are \<^typ>\<open>int\<close>, with the 64-bit wrap-around written
  out at the one place where the handler does arithmetic on them.
\<close>

datatype EventType =
    EventTypeApp
  | EventTypeAppDeletion
  | EventTypeAppRelease
  | EventTypeRelease
  | EventTypeScaleRequest
  | EventTypeDeployment
  | EventTypeOther string

datatype EventOp = EventOpCreate | EventOpUpdate | EventOpOther string

text \<open>
  \<^verbatim>\<open>ct.EventType\<close> and \<^verbatim>\<open>ct.EventOp\<close> are string types whose constants are
  declared outside this file; each constant the handlers name is a constructor, and
  \<open>EventTypeDeployment\<close> is the one whose string is \<^verbatim>\<open>"deployment"\<close>.
\<close>

record Event =
  ev_ID :: int
  ev_AppID :: string
  ev_ObjectType :: EventType
  ev_ObjectID :: string
  ev_Op :: EventOp
  ev_Data :: string
  ev_CreatedAt :: int

text \<open>
  Go errors. \<^verbatim>\<open>errors.New\<close> and \<^verbatim>\<open>fmt.Errorf\<close> build an error that carries a
  message and no RPC status code; a status error carries a code. A run-time panic ends
  the handler and is a value of the same type.
\<close>

datatype Code = Unknown | InvalidArgument | NotFound | FailedPrecondition
  | DeadlineExceeded | Internal | Cancelled

datatype error =
    PlainError string
  | StatusError Code string
  | Panic string

type_synonym labels = "(string \<times> string) list"

datatype ScaleRequestState =
    ScaleRequestStatePending
  | ScaleRequestStateCancelled
  | ScaleRequestStateComplete
  | ScaleRequestStateOther string

record ct_ScaleRequest =
  csr_ID :: string
  csr_AppID :: string
  csr_ReleaseID :: string
  csr_State :: ScaleRequestState
  csr_NewProcesses :: "(string \<times> int) list option"
  csr_NewTags :: "(string \<times> labels) list option"

datatype pb_ScaleRequestState = SCALE_PENDING | SCALE_CANCELLED | SCALE_COMPLETE

record pb_ScaleRequest =
  sr_Name :: string
  sr_State :: pb_ScaleRequestState

record pb_Release =
  rel_Name :: string
  rel_Labels :: labels

record PageToken =
  pt_BeforeID :: "string option"
  pt_Size :: int

text \<open>A value taken from a channel: an event, or the observation that it is closed.\<close>

datatype recv = Received Event | Closed

text \<open>The outcome of one \<^verbatim>\<open>select\<close> over the event channel and the timeout channel.\<close>

datatype select_outcome = SelectRecv recv | SelectTimeout

section \<open>Formatting helpers\<close>

text \<open>\<^verbatim>\<open>fmt.Sprintf("%d", n)\<close> for an \<^verbatim>\<open>int64\<close>.\<close>

fun fmt_nat :: "nat \<Rightarrow> string" where
  "fmt_nat n =
     (if n < 10 then [char_of (48 + n)]
      else fmt_nat (n div 10) @ [char_of (48 + n mod 10)])"

definition fmt_d :: "int \<Rightarrow> string" where
  "fmt_d i = (if i < 0 then CHR ''-'' # fmt_nat (nat (- i)) else fmt_nat (nat i))"

text \<open>Addition on Go's 64-bit \<^verbatim>\<open>int\<close>: two's complement wrap-around.\<close>

definition go_int_add :: "int \<Rightarrow> int \<Rightarrow> int" where
  "go_int_add a b = (a + b + 2 ^ 63) mod 2 ^ 64 - 2 ^ 63"

section \<open>StreamScales\<close>

text \<open>
  \<^verbatim>\<open>unmarshalScaleRequest\<close>: \<^verbatim>\<open>json.Unmarshal\<close> of the event payload, then
  \<^verbatim>\<open>utils.ConvertScaleRequest\<close>.
\<close>

definition unmarshalScaleRequest ::
  "(string \<Rightarrow> error + ct_ScaleRequest) \<Rightarrow> (ct_ScaleRequest \<Rightarrow> pb_ScaleRequest)
     \<Rightarrow> Event \<Rightarrow> error + pb_ScaleRequest" where
  "unmarshalScaleRequest jsonUnmarshal ConvertScaleRequest event =
     (case jsonUnmarshal (ev_Data event) of
        Inl err \<Rightarrow> Inl err
      | Inr ctReq \<Rightarrow> Inr (ConvertScaleRequest ctReq))"

text \<open>
  \<^verbatim>\<open>prependScaleRequest\<close>: the new request first, then every old entry whose name
  differs from it. The result is the new value of \<^verbatim>\<open>scaleRequests\<close>, or the parse
  error with the list untouched.
\<close>

definition prependScaleRequest ::
  "(string \<Rightarrow> error + ct_ScaleRequest) \<Rightarrow> (ct_ScaleRequest \<Rightarrow> pb_ScaleRequest)
     \<Rightarrow> Event \<Rightarrow> pb_ScaleRequest list \<Rightarrow> error + pb_ScaleRequest list" where
  "prependScaleRequest jsonUnmarshal ConvertScaleRequest event scaleRequests =
     (case unmarshalScaleRequest jsonUnmarshal ConvertScaleRequest event of
        Inl err \<Rightarrow> Inl err
      | Inr req \<Rightarrow>
          Inr (req # filter (\<lambda>sr. sr_Name sr \<noteq> sr_Name req) scaleRequests))"

text \<open>
  The handler's variables \<^verbatim>\<open>currID\<close> and \<^verbatim>\<open>scaleRequests\<close>, and the timer
  of the goroutine behind \<^verbatim>\<open>sendResponseWithDelay\<close>: stopped when made, armed for
  10 ms by every call, and sending the whole list when it expires.
\<close>

record StreamScales_state =
  ss_currID :: int
  ss_scaleRequests :: "pb_ScaleRequest list"
  ss_timerArmed :: bool

text \<open>One pass of the snapshot loop (\<^verbatim>\<open>for i := len(list) - 1; i >= 0; i--\<close>).\<close>

definition StreamScales_listed ::
  "(string \<Rightarrow> error + ct_ScaleRequest) \<Rightarrow> (ct_ScaleRequest \<Rightarrow> pb_ScaleRequest)
     \<Rightarrow> StreamScales_state \<Rightarrow> Event \<Rightarrow> StreamScales_state" where
  "StreamScales_listed jsonUnmarshal ConvertScaleRequest st event =
     (let st1 = st\<lparr>ss_currID := ev_ID event\<rparr>
      in case prependScaleRequest jsonUnmarshal ConvertScaleRequest event
                (ss_scaleRequests st1) of
           Inl err \<Rightarrow> st1
         | Inr srs \<Rightarrow> st1\<lparr>ss_scaleRequests := srs\<rparr>)"

text \<open>
  The snapshot phase: \<^verbatim>\<open>currID\<close> starts at zero, the listed events are walked from
  the last index down to the first.
\<close>

definition StreamScales_snapshot ::
  "(string \<Rightarrow> error + ct_ScaleRequest) \<Rightarrow> (ct_ScaleRequest \<Rightarrow> pb_ScaleRequest)
     \<Rightarrow> Event list \<Rightarrow> StreamScales_state" where
  "StreamScales_snapshot jsonUnmarshal ConvertScaleRequest list =
     foldl (StreamScales_listed jsonUnmarshal ConvertScaleRequest)
       \<lparr>ss_currID = 0, ss_scaleRequests = [], ss_timerArmed = False\<rparr> (rev list)"

text \<open>The body of the live loop after an event has been received.\<close>

definition StreamScales_event ::
  "(string \<Rightarrow> error + ct_ScaleRequest) \<Rightarrow> (ct_ScaleRequest \<Rightarrow> pb_ScaleRequest)
     \<Rightarrow> StreamScales_state \<Rightarrow> Event \<Rightarrow> StreamScales_state" where
  "StreamScales_event jsonUnmarshal ConvertScaleRequest st event =
     (if ev_ID event \<le> ss_currID st then st
      else
        let st1 = st\<lparr>ss_currID := ev_ID event\<rparr>
        in case prependScaleRequest jsonUnmarshal ConvertScaleRequest event
                  (ss_scaleRequests st1) of
             Inl err \<Rightarrow> st1
           | Inr srs \<Rightarrow> st1\<lparr>ss_scaleRequests := srs\<rparr>)"

text \<open>\<^verbatim>\<open>sendResponseWithDelay()\<close>, the first statement of every iteration.\<close>

definition sendResponseWithDelay :: "StreamScales_state \<Rightarrow> StreamScales_state" where
  "sendResponseWithDelay st = st\<lparr>ss_timerArmed := True\<rparr>"

text \<open>
  What reaches the live phase: an event on the subscription's channel, or the expiry of
  the timer (which can only happen while it is armed).
\<close>

datatype scales_input = ScalesEvent Event | TimerFires

text \<open>
  The live loop standing at its receive, on what has reached it so far: the state, and
  the lists sent by the timer. After an event the body runs and the next iteration calls
  \<^verbatim>\<open>sendResponseWithDelay\<close> before it receives again.
\<close>

fun StreamScales_live ::
  "(string \<Rightarrow> error + ct_ScaleRequest) \<Rightarrow> (ct_ScaleRequest \<Rightarrow> pb_ScaleRequest)
     \<Rightarrow> StreamScales_state \<Rightarrow> scales_input list
     \<Rightarrow> StreamScales_state \<times> pb_ScaleRequest list list" where
  "StreamScales_live jsonUnmarshal ConvertScaleRequest st [] = (st, [])"
| "StreamScales_live jsonUnmarshal ConvertScaleRequest st (TimerFires # inputs) =
     (if ss_timerArmed st
      then
        (case StreamScales_live jsonUnmarshal ConvertScaleRequest
                (st\<lparr>ss_timerArmed := False\<rparr>) inputs of
           (st2, sent) \<Rightarrow> (st2, ss_scaleRequests st # sent))
      else StreamScales_live jsonUnmarshal ConvertScaleRequest st inputs)"
| "StreamScales_live jsonUnmarshal ConvertScaleRequest st (ScalesEvent event # inputs) =
     StreamScales_live jsonUnmarshal ConvertScaleRequest
       (sendResponseWithDelay (StreamScales_event jsonUnmarshal ConvertScaleRequest st event))
       inputs"

text \<open>
  \<^verbatim>\<open>StreamScales\<close>: the subscription, the listing, the response sent straight after
  the snapshot, then the live loop, entered through its first
  \<^verbatim>\<open>sendResponseWithDelay\<close>. The result is the error, or every list sent so far.
\<close>

definition StreamScales ::
  "(string \<Rightarrow> error + ct_ScaleRequest) \<Rightarrow> (ct_ScaleRequest \<Rightarrow> pb_ScaleRequest)
     \<Rightarrow> (string list \<Rightarrow> EventType list \<Rightarrow> string \<Rightarrow> error option)
     \<Rightarrow> (string list \<Rightarrow> EventType list \<Rightarrow> string \<Rightarrow> int option \<Rightarrow> int option \<Rightarrow> int
          \<Rightarrow> error + Event list)
     \<Rightarrow> string list \<Rightarrow> scales_input list \<Rightarrow> error + pb_ScaleRequest list list" where
  "StreamScales jsonUnmarshal ConvertScaleRequest subscribeErr ListEvents appIDs inputs =
     (case subscribeErr appIDs [EventTypeScaleRequest] [] of
        Some err \<Rightarrow> Inl err
      | None \<Rightarrow>
          (case ListEvents appIDs [EventTypeScaleRequest] [] None None 0 of
             Inl err \<Rightarrow> Inl err
           | Inr list \<Rightarrow>
               let st = StreamScales_snapshot jsonUnmarshal ConvertScaleRequest list
               in Inr (ss_scaleRequests st
                        # snd (StreamScales_live jsonUnmarshal ConvertScaleRequest
                                 (sendResponseWithDelay st) inputs))))"

section \<open>StreamReleases\<close>

record 'f StreamReleasesRequest =
  srr_PageSize :: int
  srr_PageToken :: string
  srr_NameFilters :: "string list"
  srr_LabelFilters :: 'f
  srr_StreamUpdates :: bool
  srr_StreamCreates :: bool

record StreamReleasesResponse =
  rr_Releases :: "pb_Release list"
  rr_NextPageToken :: string
  rr_PageComplete :: bool

text \<open>\<^verbatim>\<open>unmarshalRelease\<close>: the payload parsed and converted.\<close>

definition unmarshalRelease ::
  "(string \<Rightarrow> error + 'r) \<Rightarrow> ('r \<Rightarrow> pb_Release) \<Rightarrow> Event \<Rightarrow> error + pb_Release" where
  "unmarshalRelease jsonUnmarshal ConvertRelease event =
     (case jsonUnmarshal (ev_Data event) of
        Inl err \<Rightarrow> Inl err
      | Inr ctRelease \<Rightarrow> Inr (ConvertRelease ctRelease))"

text \<open>
  \<^verbatim>\<open>maybeAcceptRelease\<close>. The two Go maps used as sets are the lists of their keys;
  the result is the error, or the accepted release, or \<open>None\<close> when not accepted.
\<close>

definition maybeAcceptRelease ::
  "(string \<Rightarrow> error + 'r) \<Rightarrow> ('r \<Rightarrow> pb_Release) \<Rightarrow> (labels \<Rightarrow> 'f \<Rightarrow> bool)
     \<Rightarrow> string list \<Rightarrow> string list \<Rightarrow> 'f \<Rightarrow> Event \<Rightarrow> error + pb_Release option" where
  "maybeAcceptRelease jsonUnmarshal ConvertRelease MatchLabelFilters appIDs releaseIDs
       labelFilters event =
     (if releaseIDs \<noteq> [] \<and> ev_ObjectID event \<notin> set releaseIDs
          \<and> (if appIDs \<noteq> [] then ev_AppID event \<notin> set appIDs else True)
      then Inr None
      else
        case unmarshalRelease jsonUnmarshal ConvertRelease event of
          Inl err \<Rightarrow> Inl err
        | Inr r \<Rightarrow>
            if \<not> MatchLabelFilters (rel_Labels r) labelFilters then Inr None
            else Inr (Some r))"

text \<open>
  \<^verbatim>\<open>maybePrependRelease\<close>: an accepted release goes to the head and the older entries
  of the same name are left out; the result is the new value of \<^verbatim>\<open>releases\<close>.
\<close>

definition maybePrependRelease ::
  "(string \<Rightarrow> error + 'r) \<Rightarrow> ('r \<Rightarrow> pb_Release) \<Rightarrow> (labels \<Rightarrow> 'f \<Rightarrow> bool)
     \<Rightarrow> string list \<Rightarrow> string list \<Rightarrow> 'f \<Rightarrow> Event \<Rightarrow> pb_Release list
     \<Rightarrow> error + pb_Release list" where
  "maybePrependRelease jsonUnmarshal ConvertRelease MatchLabelFilters appIDs releaseIDs
       labelFilters event releases =
     (case maybeAcceptRelease jsonUnmarshal ConvertRelease MatchLabelFilters appIDs
             releaseIDs labelFilters event of
        Inl err \<Rightarrow> Inl err
      | Inr None \<Rightarrow> Inr releases
      | Inr (Some r) \<Rightarrow>
          Inr (r # filter (\<lambda>sr. rel_Name sr \<noteq> rel_Name r) releases))"

record StreamReleases_state =
  rs_currID :: int
  rs_releases :: "pb_Release list"
  rs_nextPageToken :: "PageToken option"

text \<open>The effective page size: the request's when positive, else the token's.\<close>

definition StreamReleases_pageSize :: "int \<Rightarrow> PageToken \<Rightarrow> int" where
  "StreamReleases_pageSize reqPageSize pageToken =
     (if reqPageSize > 0 then reqPageSize else pt_Size pageToken)"

text \<open>The row count handed to \<^verbatim>\<open>ListEvents\<close>.\<close>

definition StreamReleases_count :: "int \<Rightarrow> int" where
  "StreamReleases_count pageSize =
     (if pageSize > 0 then go_int_add pageSize 1 else pageSize)"

text \<open>
  The window kept from the listed rows and the next-page token. Taking
  \<^verbatim>\<open>list[0]\<close> of an empty slice panics.
\<close>

definition StreamReleases_window ::
  "int \<Rightarrow> Event list \<Rightarrow> error + (Event list \<times> PageToken option)" where
  "StreamReleases_window pageSize list =
     (if (pageSize = 0 \<or> int (length list) = go_int_add pageSize 1) \<and> length list > 0
      then
        (case butlast list of
           [] \<Rightarrow> Inl (Panic ''index out of range'')
         | event # rest \<Rightarrow>
             Inr (event # rest,
                  Some \<lparr>pt_BeforeID = Some (fmt_d (ev_ID event)), pt_Size = pageSize\<rparr>))
      else Inr (list, None))"

text \<open>One pass of the snapshot loop over the kept window, last index first.\<close>

definition StreamReleases_listed ::
  "(string \<Rightarrow> error + 'r) \<Rightarrow> ('r \<Rightarrow> pb_Release) \<Rightarrow> (labels \<Rightarrow> 'f \<Rightarrow> bool)
     \<Rightarrow> string list \<Rightarrow> string list \<Rightarrow> 'f \<Rightarrow> StreamReleases_state \<Rightarrow> Event
     \<Rightarrow> StreamReleases_state" where
  "StreamReleases_listed jsonUnmarshal ConvertRelease MatchLabelFilters appIDs releaseIDs
       labelFilters st event =
     (let st1 = st\<lparr>rs_currID := ev_ID event\<rparr>
      in case maybePrependRelease jsonUnmarshal ConvertRelease MatchLabelFilters appIDs
                releaseIDs labelFilters event (rs_releases st1) of
           Inl err \<Rightarrow> st1
         | Inr rels \<Rightarrow> st1\<lparr>rs_releases := rels\<rparr>)"

text \<open>
  The snapshot phase from the parsed page token on: the count, the query, the window,
  the walk over it, and the page-complete response. \<^verbatim>\<open>beforeID\<close> is the value of
  \<^verbatim>\<open>pageToken.BeforeIDInt64()\<close>; \<^verbatim>\<open>ListEvents\<close> is the store's query with its
  app ids, object types, object id, before id, since id and count.
\<close>

definition StreamReleases_snapshot ::
  "(string \<Rightarrow> error + 'r) \<Rightarrow> ('r \<Rightarrow> pb_Release) \<Rightarrow> (labels \<Rightarrow> 'f \<Rightarrow> bool)
     \<Rightarrow> (PageToken option \<Rightarrow> string)
     \<Rightarrow> (string list \<Rightarrow> EventType list \<Rightarrow> string \<Rightarrow> int option \<Rightarrow> int option \<Rightarrow> int
          \<Rightarrow> error + Event list)
     \<Rightarrow> string list \<Rightarrow> string list \<Rightarrow> string list \<Rightarrow> 'f \<Rightarrow> int option \<Rightarrow> int
     \<Rightarrow> error + (StreamReleases_state \<times> StreamReleasesResponse)" where
  "StreamReleases_snapshot jsonUnmarshal ConvertRelease MatchLabelFilters PageTokenString
       ListEvents eventAppIDs appIDs releaseIDs labelFilters beforeID pageSize =
     (case ListEvents eventAppIDs [EventTypeRelease] [] beforeID None
             (StreamReleases_count pageSize) of
        Inl err \<Rightarrow> Inl err
      | Inr list \<Rightarrow>
          let currID = (case beforeID of None \<Rightarrow> 0 | Some b \<Rightarrow> b)
          in case StreamReleases_window pageSize list of
               Inl err \<Rightarrow> Inl err
             | Inr (window, nextPageToken) \<Rightarrow>
                 let st = foldl (StreamReleases_listed jsonUnmarshal ConvertRelease
                                   MatchLabelFilters appIDs releaseIDs labelFilters)
                            \<lparr>rs_currID = currID, rs_releases = [],
                             rs_nextPageToken = nextPageToken\<rparr>
                            (rev window)
                 in Inr (st, \<lparr>rr_Releases = rs_releases st,
                              rr_NextPageToken = PageTokenString (rs_nextPageToken st),
                              rr_PageComplete = True\<rparr>))"

text \<open>
  The body of the live loop after an event has been received: the new state and the
  responses sent for this event.
\<close>

definition StreamReleases_event ::
  "(string \<Rightarrow> error + 'r) \<Rightarrow> ('r \<Rightarrow> pb_Release) \<Rightarrow> (labels \<Rightarrow> 'f \<Rightarrow> bool)
     \<Rightarrow> string list \<Rightarrow> string list \<Rightarrow> 'f \<Rightarrow> StreamReleases_state \<Rightarrow> Event
     \<Rightarrow> StreamReleases_state \<times> StreamReleasesResponse list" where
  "StreamReleases_event jsonUnmarshal ConvertRelease MatchLabelFilters appIDs releaseIDs
       labelFilters st event =
     (if ev_ID event \<le> rs_currID st then (st, [])
      else
        let st1 = st\<lparr>rs_currID := ev_ID event\<rparr>
        in case maybeAcceptRelease jsonUnmarshal ConvertRelease MatchLabelFilters appIDs
                  releaseIDs labelFilters event of
             Inl err \<Rightarrow> (st1, [])
           | Inr None \<Rightarrow> (st1, [])
           | Inr (Some release) \<Rightarrow>
               (st1, [\<lparr>rr_Releases = [release], rr_NextPageToken = [],
                       rr_PageComplete = False\<rparr>]))"

text \<open>The live loop on the events received so far, with everything it has sent.\<close>

fun StreamReleases_live ::
  "(string \<Rightarrow> error + 'r) \<Rightarrow> ('r \<Rightarrow> pb_Release) \<Rightarrow> (labels \<Rightarrow> 'f \<Rightarrow> bool)
     \<Rightarrow> string list \<Rightarrow> string list \<Rightarrow> 'f \<Rightarrow> StreamReleases_state \<Rightarrow> Event list
     \<Rightarrow> StreamReleases_state \<times> StreamReleasesResponse list" where
  "StreamReleases_live jsonUnmarshal ConvertRelease MatchLabelFilters appIDs releaseIDs
       labelFilters st [] = (st, [])"
| "StreamReleases_live jsonUnmarshal ConvertRelease MatchLabelFilters appIDs releaseIDs
       labelFilters st (event # events) =
     (case StreamReleases_event jsonUnmarshal ConvertRelease MatchLabelFilters appIDs
             releaseIDs labelFilters st event of
        (st1, sent) \<Rightarrow>
          (case StreamReleases_live jsonUnmarshal ConvertRelease MatchLabelFilters appIDs
                  releaseIDs labelFilters st1 events of
             (st2, sent2) \<Rightarrow> (st2, sent @ sent2)))"

text \<open>
  \<^verbatim>\<open>StreamReleases\<close>: the page token and size, the two id sets parsed from the name
  filters, the subscription, the snapshot with its response, and, unless the call is
  unary, the live loop. The result is the error, or every response sent so far.
\<close>

definition StreamReleases ::
  "(string \<Rightarrow> error + PageToken) \<Rightarrow> (PageToken \<Rightarrow> int option)
     \<Rightarrow> (string list \<Rightarrow> string list) \<Rightarrow> (string list \<Rightarrow> string list)
     \<Rightarrow> (string list \<Rightarrow> EventType list \<Rightarrow> string \<Rightarrow> error option)
     \<Rightarrow> (string \<Rightarrow> error + 'r) \<Rightarrow> ('r \<Rightarrow> pb_Release) \<Rightarrow> (labels \<Rightarrow> 'f \<Rightarrow> bool)
     \<Rightarrow> (PageToken option \<Rightarrow> string)
     \<Rightarrow> (string list \<Rightarrow> EventType list \<Rightarrow> string \<Rightarrow> int option \<Rightarrow> int option \<Rightarrow> int
          \<Rightarrow> error + Event list)
     \<Rightarrow> 'f StreamReleasesRequest \<Rightarrow> Event list \<Rightarrow> error + StreamReleasesResponse list" where
  "StreamReleases ParsePageToken BeforeIDInt64 ParseAppIDsFromNameFilters
       ParseReleaseIDsFromNameFilters subscribeErr jsonUnmarshal ConvertRelease
       MatchLabelFilters PageTokenString ListEvents req events =
     (let unary = \<not> (srr_StreamUpdates req \<or> srr_StreamCreates req)
      in case ParsePageToken (srr_PageToken req) of
           Inl err \<Rightarrow> Inl err
         | Inr parsed \<Rightarrow>
             let pageSize = StreamReleases_pageSize (srr_PageSize req) parsed;
                 pageToken = (if srr_PageSize req > 0
                              then parsed\<lparr>pt_Size := srr_PageSize req\<rparr> else parsed);
                 appIDs = ParseAppIDsFromNameFilters (srr_NameFilters req);
                 releaseIDs = ParseReleaseIDsFromNameFilters (srr_NameFilters req);
                 eventAppIDs = (if length releaseIDs > 0 then [] else appIDs)
             in case subscribeErr eventAppIDs [EventTypeRelease] [] of
                  Some err \<Rightarrow> Inl err
                | None \<Rightarrow>
                    (case StreamReleases_snapshot jsonUnmarshal ConvertRelease
                            MatchLabelFilters PageTokenString ListEvents eventAppIDs appIDs
                            releaseIDs (srr_LabelFilters req) (BeforeIDInt64 pageToken)
                            pageSize of
                       Inl err \<Rightarrow> Inl err
                     | Inr (st, response) \<Rightarrow>
                         if unary then Inr [response]
                         else Inr (response
                                    # snd (StreamReleases_live jsonUnmarshal ConvertRelease
                                             MatchLabelFilters appIDs releaseIDs
                                             (srr_LabelFilters req) st events))))"

section \<open>listApps and StreamApps\<close>

record ct_App =
  ca_ID :: string
  ca_Name :: string
  ca_Meta :: labels

record pb_App =
  app_Name :: string
  app_DisplayName :: string
  app_Labels :: labels

record 'f StreamAppsRequest =
  sar_PageSize :: int
  sar_PageToken :: string
  sar_NameFilters :: "string list"
  sar_LabelFilters :: 'f
  sar_StreamUpdates :: bool
  sar_StreamCreates :: bool

record StreamAppsResponse =
  ar_Apps :: "pb_App list"
  ar_NextPageToken :: string
  ar_PageComplete :: bool

text \<open>
  The filter loop of \<^verbatim>\<open>listApps\<close> over the store's page, with its accumulators
  \<^verbatim>\<open>apps\<close> and \<^verbatim>\<open>n\<close> and its \<^verbatim>\<open>break\<close> at a full page. \<^verbatim>\<open>appIDs\<close> is nil
  exactly when it is empty.
\<close>

fun listApps_loop ::
  "(ct_App \<Rightarrow> pb_App) \<Rightarrow> (labels \<Rightarrow> 'f \<Rightarrow> bool) \<Rightarrow> string list \<Rightarrow> 'f \<Rightarrow> int
     \<Rightarrow> ct_App list \<Rightarrow> pb_App list \<Rightarrow> int \<Rightarrow> pb_App list \<times> int" where
  "listApps_loop ConvertApp MatchLabelFilters appIDs labelFilters pageSize [] apps n =
     (apps, n)"
| "listApps_loop ConvertApp MatchLabelFilters appIDs labelFilters pageSize (a # ctApps)
       apps n =
     (if appIDs \<noteq> [] \<and> \<not> list_ex (\<lambda>appID. ca_ID a = appID \<or> ca_Name a = appID) appIDs
      then listApps_loop ConvertApp MatchLabelFilters appIDs labelFilters pageSize ctApps
             apps n
      else if \<not> MatchLabelFilters (ca_Meta a) labelFilters
      then listApps_loop ConvertApp MatchLabelFilters appIDs labelFilters pageSize ctApps
             apps n
      else if n + 1 = pageSize then (apps @ [ConvertApp a], n + 1)
      else listApps_loop ConvertApp MatchLabelFilters appIDs labelFilters pageSize ctApps
             (apps @ [ConvertApp a]) (n + 1))"

text \<open>
  \<^verbatim>\<open>listApps\<close>. The store may report a further page for ever, so the recursion
  carries fuel: \<open>None\<close> is a call that has not returned within it. A returned
  call gives the error, or the apps with the next-page token.

  \<^verbatim>\<open>make([]*protobuf.App, 0, pageSize)\<close> panics when the capacity is negative or
  beyond what the runtime can allocate; \<open>capLimit\<close> is the largest capacity for which
  it returns. A panic is not a returned error: one raised in the recursive call unwinds
  through the caller.
\<close>

fun listApps ::
  "nat \<Rightarrow> int \<Rightarrow> (string \<Rightarrow> error + PageToken) \<Rightarrow> (PageToken option \<Rightarrow> string)
     \<Rightarrow> (PageToken \<Rightarrow> error + (ct_App list \<times> PageToken option))
     \<Rightarrow> (string list \<Rightarrow> string list) \<Rightarrow> (ct_App \<Rightarrow> pb_App) \<Rightarrow> (labels \<Rightarrow> 'f \<Rightarrow> bool)
     \<Rightarrow> 'f StreamAppsRequest \<Rightarrow> (error + (pb_App list \<times> PageToken option)) option" where
  "listApps 0 capLimit ParsePageToken PageTokenString ListPage ParseAppIDsFromNameFilters
       ConvertApp MatchLabelFilters req = None"
| "listApps (Suc fuel) capLimit ParsePageToken PageTokenString ListPage
       ParseAppIDsFromNameFilters ConvertApp MatchLabelFilters req =
     (case ParsePageToken (sar_PageToken req) of
        Inl err \<Rightarrow> Some (Inl err)
      | Inr parsed \<Rightarrow>
          let pageToken = (if sar_PageSize req > 0
                           then parsed\<lparr>pt_Size := sar_PageSize req\<rparr> else parsed);
              pageSize0 = (if sar_PageSize req > 0
                           then sar_PageSize req else pt_Size parsed)
          in case ListPage pageToken of
               Inl err \<Rightarrow> Some (Inl err)
             | Inr (ctApps, nextPageToken) \<Rightarrow>
                 let pageSize = (if pageSize0 = 0 then int (length ctApps) else pageSize0);
                     appIDs = ParseAppIDsFromNameFilters (sar_NameFilters req)
                 in if pageSize < 0 \<or> capLimit < pageSize
                    then Some (Inl (Panic ''makeslice: cap out of range''))
                    else
                      let filtered = listApps_loop ConvertApp MatchLabelFilters appIDs
                                       (sar_LabelFilters req) pageSize ctApps [] 0;
                          apps = fst filtered;
                          n = snd filtered
                      in if n < pageSize \<and> nextPageToken \<noteq> None
                         then
                           (case listApps fuel capLimit ParsePageToken PageTokenString
                                   ListPage ParseAppIDsFromNameFilters ConvertApp
                                   MatchLabelFilters
                                   (req\<lparr>sar_PageToken :=
                                          PageTokenString nextPageToken\<rparr>) of
                              None \<Rightarrow> None
                            | Some (Inl err) \<Rightarrow>
                                (case err of
                                   Panic msg \<Rightarrow> Some (Inl (Panic msg))
                                 | _ \<Rightarrow> Some (Inr (apps, nextPageToken)))
                            | Some (Inr (nextApps, npt)) \<Rightarrow>
                                Some (Inr (nextApps @ apps, npt)))
                         else Some (Inr (apps, nextPageToken)))"

text \<open>
  The body of the live loop of \<^verbatim>\<open>StreamApps\<close> after an event has been received:
  the responses sent for it. The loop keeps no variable between iterations.
\<close>

definition StreamApps_event ::
  "(string \<Rightarrow> error + ct_App) \<Rightarrow> (ct_App \<Rightarrow> pb_App) \<Rightarrow> (labels \<Rightarrow> 'f \<Rightarrow> bool)
     \<Rightarrow> 'f StreamAppsRequest \<Rightarrow> Event \<Rightarrow> StreamAppsResponse list" where
  "StreamApps_event jsonUnmarshal ConvertApp MatchLabelFilters req event =
     (case ev_ObjectType event of
        EventTypeApp \<Rightarrow>
          (case jsonUnmarshal (ev_Data event) of
             Inl err \<Rightarrow> []
           | Inr ctApp \<Rightarrow>
               let app = ConvertApp ctApp;
                   shouldSend = ((sar_StreamCreates req \<and> ev_Op event = EventOpCreate)
                                 \<or> (sar_StreamUpdates req \<and> ev_Op event = EventOpUpdate));
                   shouldSend = (if \<not> MatchLabelFilters (app_Labels app)
                                        (sar_LabelFilters req)
                                 then False else shouldSend)
               in if shouldSend
                  then [\<lparr>ar_Apps = [app], ar_NextPageToken = [], ar_PageComplete = False\<rparr>]
                  else [])
      | EventTypeAppDeletion \<Rightarrow> []
      | EventTypeAppRelease \<Rightarrow> []
      | _ \<Rightarrow> [])"

definition StreamApps_live ::
  "(string \<Rightarrow> error + ct_App) \<Rightarrow> (ct_App \<Rightarrow> pb_App) \<Rightarrow> (labels \<Rightarrow> 'f \<Rightarrow> bool)
     \<Rightarrow> 'f StreamAppsRequest \<Rightarrow> Event list \<Rightarrow> StreamAppsResponse list" where
  "StreamApps_live jsonUnmarshal ConvertApp MatchLabelFilters req events =
     concat (map (StreamApps_event jsonUnmarshal ConvertApp MatchLabelFilters req) events)"

section \<open>StreamDeployments\<close>

record ct_DeploymentEvent =
  de_Status :: string
  de_JobType :: string
  de_JobState :: string
  de_Error :: string

record ct_ExpandedDeployment =
  ced_ID :: string
  ced_AppID :: string
  ced_Status :: string

record pb_ExpandedDeployment =
  ped_Name :: string
  ped_Type :: nat
  ped_Status :: string

text \<open>
  The body of the live loop of \<^verbatim>\<open>StreamDeployments\<close> after an event has been
  received: the lists of deployments sent for it. \<^verbatim>\<open>json.Unmarshal\<close> fills a
  pointer: on the payload \<^verbatim>\<open>null\<close> it succeeds and leaves the pointer nil
  (\<open>None\<close>), and reading \<^verbatim>\<open>deploymentEvent.Status\<close> through it panics.
\<close>

definition StreamDeployments_event ::
  "(string \<Rightarrow> error + ct_DeploymentEvent option)
     \<Rightarrow> (string \<Rightarrow> error + ct_ExpandedDeployment)
     \<Rightarrow> (ct_ExpandedDeployment \<Rightarrow> pb_ExpandedDeployment) \<Rightarrow> (nat \<Rightarrow> bool)
     \<Rightarrow> Event \<Rightarrow> error + pb_ExpandedDeployment list list" where
  "StreamDeployments_event jsonUnmarshal GetExpanded ConvertExpandedDeployment typeMatch
       ctEvent =
     (case jsonUnmarshal (ev_Data ctEvent) of
        Inl err \<Rightarrow> Inr []
      | Inr deploymentEvent \<Rightarrow>
          (case GetExpanded (ev_ObjectID ctEvent) of
             Inl err \<Rightarrow> Inr []
           | Inr ctd \<Rightarrow>
               (case deploymentEvent of
                  None \<Rightarrow> Inl (Panic ''nil pointer dereference'')
                | Some de \<Rightarrow>
                    let d = ConvertExpandedDeployment (ctd\<lparr>ced_Status := de_Status de\<rparr>)
                    in if \<not> typeMatch (ped_Type d) then Inr [] else Inr [[d]])))"

text \<open>
  The live loop on the events received so far: everything it has sent, and the panic
  that ended it, if one did.
\<close>

fun StreamDeployments_live ::
  "(string \<Rightarrow> error + ct_DeploymentEvent option)
     \<Rightarrow> (string \<Rightarrow> error + ct_ExpandedDeployment)
     \<Rightarrow> (ct_ExpandedDeployment \<Rightarrow> pb_ExpandedDeployment) \<Rightarrow> (nat \<Rightarrow> bool)
     \<Rightarrow> Event list \<Rightarrow> pb_ExpandedDeployment list list \<times> error option" where
  "StreamDeployments_live jsonUnmarshal GetExpanded ConvertExpandedDeployment typeMatch [] =
     ([], None)"
| "StreamDeployments_live jsonUnmarshal GetExpanded ConvertExpandedDeployment typeMatch
       (ctEvent # events) =
     (case StreamDeployments_event jsonUnmarshal GetExpanded ConvertExpandedDeployment
             typeMatch ctEvent of
        Inl err \<Rightarrow> ([], Some err)
      | Inr sent \<Rightarrow>
          (case StreamDeployments_live jsonUnmarshal GetExpanded ConvertExpandedDeployment
                  typeMatch events of
             (sent2, r) \<Rightarrow> (sent @ sent2, r)))"

section \<open>A handler's progress\<close>

text \<open>
  A handler that has consumed every value received so far is either still waiting on
  its channel or has returned.
\<close>

datatype 'a progress = Waiting | Returned 'a

section \<open>StreamFormations\<close>

record pb_Formation =
  fm_Parent :: string
  fm_State :: pb_ScaleRequestState
  fm_ScaleRequest :: string

record ct_ExpandedFormation =
  cef_PendingScaleRequest :: "ct_ScaleRequest option"

text \<open>
  \<^verbatim>\<open>refreshFormation\<close>: two reads of the formation repository, the state derived
  from the pending scale request, the query for the latest scale-request id, and the
  store into \<^verbatim>\<open>formations[appID]\<close>. The map is an association list; the result is
  its new value.
\<close>

definition refreshFormation ::
  "(string \<Rightarrow> string \<Rightarrow> error + 'cf) \<Rightarrow> (string \<Rightarrow> string \<Rightarrow> error + ct_ExpandedFormation)
     \<Rightarrow> ('cf \<Rightarrow> pb_Formation) \<Rightarrow> (string \<Rightarrow> string \<Rightarrow> error + string)
     \<Rightarrow> (error \<Rightarrow> error)
     \<Rightarrow> string \<Rightarrow> string \<Rightarrow> (string \<times> pb_Formation) list
     \<Rightarrow> error + (string \<times> pb_Formation) list" where
  "refreshFormation Get GetExpanded ConvertFormation QueryScaleRequestID scaleReqError
       appID releaseID formations =
     (case Get appID releaseID of
        Inl err \<Rightarrow> Inl err
      | Inr ctFormation \<Rightarrow>
          (case GetExpanded appID releaseID of
             Inl err \<Rightarrow> Inl err
           | Inr ctEFormation \<Rightarrow>
               let formation = (ConvertFormation ctFormation)\<lparr>fm_State := SCALE_COMPLETE\<rparr>;
                   formation =
                     (case cef_PendingScaleRequest ctEFormation of
                        None \<Rightarrow> formation
                      | Some pending \<Rightarrow>
                          (case csr_State pending of
                             ScaleRequestStatePending \<Rightarrow>
                               formation\<lparr>fm_State := SCALE_PENDING\<rparr>
                           | ScaleRequestStateCancelled \<Rightarrow>
                               formation\<lparr>fm_State := SCALE_CANCELLED\<rparr>
                           | _ \<Rightarrow> formation))
               in case QueryScaleRequestID appID releaseID of
                    Inl err \<Rightarrow> Inl (scaleReqError err)
                  | Inr scaleReqID \<Rightarrow>
                      Inr (AList.update appID
                             (formation\<lparr>fm_ScaleRequest :=
                                ''apps/'' @ appID @ ''/releases/'' @ releaseID
                                  @ ''/scale/'' @ scaleReqID\<rparr>)
                             formations)))"

text \<open>
  What the event loop does to the outside: a call of \<^verbatim>\<open>refreshFormation\<close> with its
  two arguments, or a response sent on the stream.
\<close>

datatype sf_action =
    is_RefreshFormation: RefreshFormation string string
  | SendFormations "pb_Formation list"

record StreamFormations_state =
  sf_releaseIDs :: "(string \<times> string) list"
  sf_formations :: "(string \<times> pb_Formation) list"

text \<open>\<^verbatim>\<open>sendResponse\<close>: nothing is sent while the map is empty.\<close>

definition StreamFormations_sendResponse ::
  "(string \<times> pb_Formation) list \<Rightarrow> sf_action list" where
  "StreamFormations_sendResponse formations =
     (if length formations > 0 then [SendFormations (map snd formations)] else [])"

text \<open>
  The first half of the loop body, up to the receive. \<^verbatim>\<open>appID\<close> and
  \<^verbatim>\<open>releaseID\<close> are declared here, inside the body, with their zero values.
\<close>

definition StreamFormations_refresh ::
  "(string \<Rightarrow> string \<Rightarrow> (string \<times> pb_Formation) list
       \<Rightarrow> error + (string \<times> pb_Formation) list)
     \<Rightarrow> (error \<Rightarrow> string \<Rightarrow> string \<Rightarrow> error) \<Rightarrow> StreamFormations_state
     \<Rightarrow> sf_action list \<times> (error + StreamFormations_state)" where
  "StreamFormations_refresh refresh refreshError st =
     (let appID = [];
          releaseID = []
      in case refresh appID releaseID (sf_formations st) of
           Inl err \<Rightarrow>
             ([RefreshFormation appID releaseID], Inl (refreshError err appID releaseID))
         | Inr formations \<Rightarrow>
             (RefreshFormation appID releaseID # StreamFormations_sendResponse formations,
              Inr (st\<lparr>sf_formations := formations\<rparr>)))"

text \<open>
  The second half of the loop body, after an event has been received. The values
  assigned to the body's \<^verbatim>\<open>appID\<close> and \<^verbatim>\<open>releaseID\<close> end with the iteration;
  only the \<^verbatim>\<open>releaseIDs\<close> map outlives it. A missing key reads as the empty string.
\<close>

definition StreamFormations_received ::
  "StreamFormations_state \<Rightarrow> Event \<Rightarrow> StreamFormations_state" where
  "StreamFormations_received st event =
     (let appID = ev_AppID event;
          releaseIDs = (if ev_ObjectType event = EventTypeAppRelease
                        then AList.update appID (ev_ObjectID event) (sf_releaseIDs st)
                        else sf_releaseIDs st);
          releaseID = (case map_of releaseIDs appID of None \<Rightarrow> [] | Some r \<Rightarrow> r)
      in st\<lparr>sf_releaseIDs := releaseIDs\<rparr>)"

text \<open>
  The event loop on the values received so far: its actions in order, and whether the
  handler waits or has returned: with the refresh error, or, once the channel has closed,
  with \<open>subErr\<close>, the value the handler's last lines make of the subscription's error
  cell.
\<close>

fun StreamFormations_loop ::
  "(string \<Rightarrow> string \<Rightarrow> (string \<times> pb_Formation) list
       \<Rightarrow> error + (string \<times> pb_Formation) list)
     \<Rightarrow> (error \<Rightarrow> string \<Rightarrow> string \<Rightarrow> error) \<Rightarrow> error option
     \<Rightarrow> StreamFormations_state \<Rightarrow> recv list
     \<Rightarrow> sf_action list \<times> error option progress" where
  "StreamFormations_loop refresh refreshError subErr st [] =
     (case StreamFormations_refresh refresh refreshError st of
        (acts, Inl err) \<Rightarrow> (acts, Returned (Some err))
      | (acts, Inr st1) \<Rightarrow> (acts, Waiting))"
| "StreamFormations_loop refresh refreshError subErr st (Closed # inputs) =
     (case StreamFormations_refresh refresh refreshError st of
        (acts, Inl err) \<Rightarrow> (acts, Returned (Some err))
      | (acts, Inr st1) \<Rightarrow> (acts, Returned subErr))"
| "StreamFormations_loop refresh refreshError subErr st (Received event # inputs) =
     (case StreamFormations_refresh refresh refreshError st of
        (acts, Inl err) \<Rightarrow> (acts, Returned (Some err))
      | (acts, Inr st1) \<Rightarrow>
          (case StreamFormations_loop refresh refreshError subErr
                  (StreamFormations_received st1 event) inputs of
             (acts2, r) \<Rightarrow> (acts @ acts2, r)))"

section \<open>createScale\<close>

record DeploymentProcessTags =
  dpt_Tags :: labels

record CreateScaleRequest =
  csq_Parent :: string
  csq_Processes :: "(string \<times> int) list"
  csq_Tags :: "(string \<times> DeploymentProcessTags) list"

text \<open>A subscription as a handler sees it when its loop ends: the error cell.\<close>

record Subscription =
  sub_Err :: "error option"

definition parseDeploymentTags ::
  "(string \<times> DeploymentProcessTags) list \<Rightarrow> (string \<times> labels) list" where
  "parseDeploymentTags from = map (\<lambda>(k, v). (k, dpt_Tags v)) from"

definition parseDeploymentProcesses :: "(string \<times> int) list \<Rightarrow> (string \<times> int) list" where
  "parseDeploymentProcesses from = map (\<lambda>(k, v). (k, v)) from"

text \<open>How the wait loop of \<^verbatim>\<open>createScale\<close> ends.\<close>

datatype wait_end = BreakOuter | ReturnError error

text \<open>
  The wait loop on the outcomes of its successive \<^verbatim>\<open>select\<close>s. \<open>None\<close> is a loop
  still blocked after the last outcome given.
\<close>

fun createScale_wait ::
  "(string \<Rightarrow> error + ct_ScaleRequest) \<Rightarrow> string \<Rightarrow> string \<Rightarrow> select_outcome list
     \<Rightarrow> wait_end option" where
  "createScale_wait jsonUnmarshal timeoutSeconds scaleReqID [] = None"
| "createScale_wait jsonUnmarshal timeoutSeconds scaleReqID (SelectTimeout # outcomes) =
     Some (ReturnError (PlainError
       (''timed out waiting for scale to complete (waited '' @ timeoutSeconds
          @ '' seconds)'')))"
| "createScale_wait jsonUnmarshal timeoutSeconds scaleReqID (SelectRecv Closed # outcomes) =
     Some BreakOuter"
| "createScale_wait jsonUnmarshal timeoutSeconds scaleReqID
       (SelectRecv (Received event) # outcomes) =
     (case ev_ObjectType event of
        EventTypeScaleRequest \<Rightarrow>
          (case jsonUnmarshal (ev_Data event) of
             Inl err \<Rightarrow> createScale_wait jsonUnmarshal timeoutSeconds scaleReqID outcomes
           | Inr req \<Rightarrow>
               if csr_ID req \<noteq> scaleReqID
               then createScale_wait jsonUnmarshal timeoutSeconds scaleReqID outcomes
               else
                 (case csr_State req of
                    ScaleRequestStateCancelled \<Rightarrow>
                      Some (ReturnError (PlainError ''scale request cancelled''))
                  | ScaleRequestStateComplete \<Rightarrow> Some BreakOuter
                  | _ \<Rightarrow> createScale_wait jsonUnmarshal timeoutSeconds scaleReqID outcomes))
      | _ \<Rightarrow> createScale_wait jsonUnmarshal timeoutSeconds scaleReqID outcomes)"

text \<open>
  \<^verbatim>\<open>createScale\<close>. \<^verbatim>\<open>timeoutSeconds\<close> is the text of
  \<^verbatim>\<open>ct.DefaultScaleTimeout.Seconds()\<close> under \<^verbatim>\<open>%.f\<close>; \<^verbatim>\<open>AddScaleRequest\<close>
  returns the record it was given as the store has filled it in; \<^verbatim>\<open>ConvertError\<close> is
  \<^verbatim>\<open>utils.ConvertError(err, err.Error())\<close>. Both maps built by the two parse helpers
  are non-nil, so both optional fields are set.
\<close>

definition createScale ::
  "(string \<Rightarrow> string \<Rightarrow> string)
     \<Rightarrow> (string list \<Rightarrow> EventType list \<Rightarrow> string \<Rightarrow> error + Subscription)
     \<Rightarrow> (ct_ScaleRequest \<Rightarrow> error + ct_ScaleRequest)
     \<Rightarrow> (string \<Rightarrow> error + ct_ScaleRequest) \<Rightarrow> (ct_ScaleRequest \<Rightarrow> pb_ScaleRequest)
     \<Rightarrow> (error \<Rightarrow> error) \<Rightarrow> string
     \<Rightarrow> CreateScaleRequest \<Rightarrow> select_outcome list \<Rightarrow> (error + pb_ScaleRequest) option" where
  "createScale ParseIDFromName subscribeEvents AddScaleRequest jsonUnmarshal
       ConvertScaleRequest ConvertError timeoutSeconds req outcomes =
     (let appID = ParseIDFromName (csq_Parent req) ''apps'';
          releaseID = ParseIDFromName (csq_Parent req) ''releases'';
          processes = parseDeploymentProcesses (csq_Processes req);
          tags = parseDeploymentTags (csq_Tags req)
      in case subscribeEvents [appID] [EventTypeScaleRequest] [] of
           Inl err \<Rightarrow> Some (Inl err)
         | Inr sub \<Rightarrow>
             (case AddScaleRequest
                     \<lparr>csr_ID = [], csr_AppID = appID, csr_ReleaseID = releaseID,
                      csr_State = ScaleRequestStatePending,
                      csr_NewProcesses = Some processes, csr_NewTags = Some tags\<rparr> of
                Inl err \<Rightarrow> Some (Inl err)
              | Inr scaleReq \<Rightarrow>
                  (case createScale_wait jsonUnmarshal timeoutSeconds (csr_ID scaleReq)
                          outcomes of
                     None \<Rightarrow> None
                   | Some (ReturnError err) \<Rightarrow> Some (Inl err)
                   | Some BreakOuter \<Rightarrow>
                       (case sub_Err sub of
                          Some err \<Rightarrow> Some (Inl (ConvertError err))
                        | None \<Rightarrow> Some (Inr (ConvertScaleRequest scaleReq))))))"

section \<open>CreateDeployment\<close>

record ct_Deployment =
  dep_ID :: string
  dep_AppID :: string
  dep_NewReleaseID :: string
  dep_Status :: string

record CreateDeploymentRequest =
  cdr_Parent :: string
  cdr_Release :: string
  cdr_ScaleRequest :: "CreateScaleRequest option"

record ('d, 'j, 't) pb_DeploymentEvent =
  pde_Deployment :: 'd
  pde_JobType :: string
  pde_JobState :: 'j
  pde_Error :: string
  pde_CreateTime :: 't

text \<open>
  What the handler does to the outside: a call of the internal \<^verbatim>\<open>createScale\<close> with
  its request, or a deployment event sent on the stream.
\<close>

datatype ('d, 'j, 't) cd_action =
    CallCreateScale CreateScaleRequest
  | SendDeploymentEvent "('d, 'j, 't) pb_DeploymentEvent"

text \<open>
  The \<^verbatim>\<open>if d.Status == "complete"\<close> block before the send. The call's two results
  are bound to nothing.
\<close>

definition CreateDeployment_scale ::
  "(CreateScaleRequest \<Rightarrow> error + pb_ScaleRequest) \<Rightarrow> CreateDeploymentRequest
     \<Rightarrow> ct_Deployment \<Rightarrow> ('d, 'j, 't) cd_action list" where
  "CreateDeployment_scale createScaleCall req d =
     (if dep_Status d = ''complete''
      then
        (case cdr_ScaleRequest req of
           None \<Rightarrow> []
         | Some sr \<Rightarrow>
             let scaleCall =
                   \<lparr>csq_Parent = ''apps/'' @ dep_AppID d @ ''/releases/'' @ dep_NewReleaseID d,
                    csq_Processes = csq_Processes sr, csq_Tags = csq_Tags sr\<rparr>;
                 discarded = createScaleCall scaleCall
             in [CallCreateScale scaleCall])
      else [])"

text \<open>
  The event loop on the values received so far: its actions in order, and whether the
  handler waits or has returned. \<^verbatim>\<open>Errorf\<close> is \<^verbatim>\<open>fmt.Errorf\<close> applied to the
  event's error text as its format. \<^verbatim>\<open>json.Unmarshal\<close> fills the pointer
  \<^verbatim>\<open>de\<close>: on the payload \<^verbatim>\<open>null\<close> it succeeds and leaves it nil (\<open>None\<close>);
  the handler then still reads the record and runs the scale block, and panics when it
  reads \<^verbatim>\<open>de.JobType\<close> to build the event it would send.
\<close>

fun CreateDeployment_loop ::
  "(CreateScaleRequest \<Rightarrow> error + pb_ScaleRequest)
     \<Rightarrow> (string \<Rightarrow> error + ct_DeploymentEvent option)
     \<Rightarrow> (string \<Rightarrow> error + ct_Deployment)
     \<Rightarrow> (ct_Deployment \<Rightarrow> 'd) \<Rightarrow> (string \<Rightarrow> 'j) \<Rightarrow> (int \<Rightarrow> 't) \<Rightarrow> (string \<Rightarrow> error)
     \<Rightarrow> error option \<Rightarrow> CreateDeploymentRequest \<Rightarrow> recv list
     \<Rightarrow> ('d, 'j, 't) cd_action list \<times> error option progress" where
  "CreateDeployment_loop createScaleCall jsonUnmarshal Get ConvertDeployment ConvertJobState
       TimestampProto Errorf subErr req [] = ([], Waiting)"
| "CreateDeployment_loop createScaleCall jsonUnmarshal Get ConvertDeployment ConvertJobState
       TimestampProto Errorf subErr req (Closed # inputs) = ([], Returned subErr)"
| "CreateDeployment_loop createScaleCall jsonUnmarshal Get ConvertDeployment ConvertJobState
       TimestampProto Errorf subErr req (Received ctEvent # inputs) =
     (if ev_ObjectType ctEvent \<noteq> EventTypeDeployment
      then CreateDeployment_loop createScaleCall jsonUnmarshal Get ConvertDeployment
             ConvertJobState TimestampProto Errorf subErr req inputs
      else
        case jsonUnmarshal (ev_Data ctEvent) of
          Inl err \<Rightarrow>
            CreateDeployment_loop createScaleCall jsonUnmarshal Get ConvertDeployment
              ConvertJobState TimestampProto Errorf subErr req inputs
        | Inr parsed \<Rightarrow>
            (case Get (ev_ObjectID ctEvent) of
               Inl err \<Rightarrow>
                 CreateDeployment_loop createScaleCall jsonUnmarshal Get ConvertDeployment
                   ConvertJobState TimestampProto Errorf subErr req inputs
             | Inr d \<Rightarrow>
                 (case parsed of
                    None \<Rightarrow>
                      (CreateDeployment_scale createScaleCall req d,
                       Returned (Some (Panic ''nil pointer dereference'')))
                  | Some de \<Rightarrow>
                      let acts = CreateDeployment_scale createScaleCall req d
                            @ [SendDeploymentEvent
                                 \<lparr>pde_Deployment = ConvertDeployment d,
                                  pde_JobType = de_JobType de,
                                  pde_JobState = ConvertJobState (de_JobState de),
                                  pde_Error = de_Error de,
                                  pde_CreateTime = TimestampProto (ev_CreatedAt ctEvent)\<rparr>]
                      in if dep_Status d = ''failed''
                         then (acts, Returned (Some (Errorf (de_Error de))))
                         else if dep_Status d = ''complete''
                         then (acts, Returned subErr)
                         else
                           (case CreateDeployment_loop createScaleCall jsonUnmarshal Get
                                   ConvertDeployment ConvertJobState TimestampProto Errorf
                                   subErr req inputs of
                              (acts2, r) \<Rightarrow> (acts @ acts2, r)))))"

text \<open>\<^verbatim>\<open>CreateDeployment\<close>: the insert, the subscription, then the loop.\<close>

definition CreateDeployment ::
  "(string \<Rightarrow> string \<Rightarrow> string) \<Rightarrow> (string \<Rightarrow> string \<Rightarrow> error + ct_Deployment)
     \<Rightarrow> (string list \<Rightarrow> EventType list \<Rightarrow> string \<Rightarrow> error + Subscription)
     \<Rightarrow> (CreateScaleRequest \<Rightarrow> error + pb_ScaleRequest)
     \<Rightarrow> (string \<Rightarrow> error + ct_DeploymentEvent option)
     \<Rightarrow> (string \<Rightarrow> error + ct_Deployment)
     \<Rightarrow> (ct_Deployment \<Rightarrow> 'd) \<Rightarrow> (string \<Rightarrow> 'j) \<Rightarrow> (int \<Rightarrow> 't) \<Rightarrow> (string \<Rightarrow> error)
     \<Rightarrow> CreateDeploymentRequest \<Rightarrow> recv list
     \<Rightarrow> ('d, 'j, 't) cd_action list \<times> error option progress" where
  "CreateDeployment ParseIDFromName Add subscribeEvents createScaleCall jsonUnmarshal Get
       ConvertDeployment ConvertJobState TimestampProto Errorf req inputs =
     (let appID = ParseIDFromName (cdr_Parent req) ''apps''
      in case Add appID (ParseIDFromName (cdr_Release req) ''releases'') of
           Inl err \<Rightarrow> ([], Returned (Some err))
         | Inr d \<Rightarrow>
             (case subscribeEvents [appID] [EventTypeDeployment] (dep_ID d) of
                Inl err \<Rightarrow> ([], Returned (Some err))
              | Inr sub \<Rightarrow>
                  CreateDeployment_loop createScaleCall jsonUnmarshal Get ConvertDeployment
                    ConvertJobState TimestampProto Errorf (sub_Err sub) req inputs))"

section \<open>subscribeEvents, its forwarders, and Close\<close>

text \<open>
  The goroutines of one subscription and the channels between them, as a machine whose
  steps a scheduler picks. A forwarder stands at its receive, stands at its send on the
  merged channel holding an event, or has left its loop.
\<close>

text \<open>
  Modelled from the spec: \<^verbatim>\<open>data.EventSubscriber\<close> and the listener that feeds it
  are declared outside this file. A subscriber is the queue of its bounded channel, whether
  that channel is closed, and its error cell; its \<^verbatim>\<open>Close\<close> closes the channel; the
  listener delivers matching events to it and may close a slow subscriber after setting
  its error cell.
\<close>

record EventSubscriber =
  es_Events :: "Event list"
  es_closed :: bool
  es_Err :: "error option"

datatype forwarder = AtReceive | AtSend Event | Exited

record EventListener =
  el_Events_closed :: bool
  el_Err :: "error option"
  el_subs :: "EventSubscriber list"
  el_forwarders :: "forwarder list"
  el_handed :: "Event list"

text \<open>The loop over \<^verbatim>\<open>appIDs\<close> that opens the subscribers; the first failure returns.\<close>

fun subscribeEvents_subs ::
  "(string \<Rightarrow> EventType list \<Rightarrow> string \<Rightarrow> error + EventSubscriber) \<Rightarrow> EventType list
     \<Rightarrow> string \<Rightarrow> string list \<Rightarrow> error + EventSubscriber list" where
  "subscribeEvents_subs Subscribe objectTypes objectID [] = Inr []"
| "subscribeEvents_subs Subscribe objectTypes objectID (appID # appIDs) =
     (case Subscribe appID objectTypes objectID of
        Inl err \<Rightarrow> Inl err
      | Inr sub \<Rightarrow>
          (case subscribeEvents_subs Subscribe objectTypes objectID appIDs of
             Inl err \<Rightarrow> Inl err
           | Inr subs \<Rightarrow> Inr (sub # subs)))"

text \<open>
  \<^verbatim>\<open>subscribeEvents\<close>: \<^verbatim>\<open>startErr\<close> is the error of
  \<^verbatim>\<open>maybeStartEventListener\<close>. The merged channel is made open, one forwarder is
  started per subscriber, and nothing has been handed to the handler yet.
\<close>

definition subscribeEvents ::
  "error option \<Rightarrow> (string \<Rightarrow> EventType list \<Rightarrow> string \<Rightarrow> error + EventSubscriber)
     \<Rightarrow> string list \<Rightarrow> EventType list \<Rightarrow> string \<Rightarrow> error + EventListener" where
  "subscribeEvents startErr Subscribe appIDs objectTypes objectID =
     (case startErr of
        Some err \<Rightarrow> Inl err
      | None \<Rightarrow>
          (case subscribeEvents_subs Subscribe objectTypes objectID
                  (if length appIDs = 0 then [[]] else appIDs) of
             Inl err \<Rightarrow> Inl err
           | Inr subs \<Rightarrow>
               Inr \<lparr>el_Events_closed = False, el_Err = None, el_subs = subs,
                    el_forwarders = map (\<lambda>sub. AtReceive) subs, el_handed = []\<rparr>))"

text \<open>
  \<^verbatim>\<open>EventListener.Close\<close>: every subscriber is closed in turn, and the first error
  found in a subscriber's cell is kept (\<^verbatim>\<open>errOnce\<close>).
\<close>

definition EventListener_Close :: "EventListener \<Rightarrow> EventListener" where
  "EventListener_Close e =
     e\<lparr>el_subs := map (\<lambda>sub. sub\<lparr>es_closed := True\<rparr>) (el_subs e),
       el_Err := (case el_Err e of
                    Some err \<Rightarrow> Some err
                  | None \<Rightarrow>
                      (case filter (\<lambda>sub. es_Err sub \<noteq> None) (el_subs e) of
                         [] \<Rightarrow> None
                       | sub # rest \<Rightarrow> es_Err sub))\<rparr>"

text \<open>
  One step of a forwarder's loop: at its receive it takes the head of the queue, or
  leaves when the queue is empty and the channel closed, or stays blocked; at its send it
  stays blocked until the handler receives.
\<close>

definition forwarder_step :: "EventSubscriber \<Rightarrow> forwarder \<Rightarrow> EventSubscriber \<times> forwarder" where
  "forwarder_step sub f =
     (case f of
        AtReceive \<Rightarrow>
          (case es_Events sub of
             ctEvent # queue \<Rightarrow> (sub\<lparr>es_Events := queue\<rparr>, AtSend ctEvent)
           | [] \<Rightarrow> if es_closed sub then (sub, Exited) else (sub, AtReceive))
      | AtSend ctEvent \<Rightarrow> (sub, AtSend ctEvent)
      | Exited \<Rightarrow> (sub, Exited))"

text \<open>
  The scheduler's choices: the listener delivers an event to a subscriber's channel, the
  listener closes a subscriber after setting its error cell, a forwarder takes a step, the
  handler receives from the merged channel what a forwarder is sending, or somebody calls
  \<^verbatim>\<open>Close\<close> on the subscription.
\<close>

datatype sched =
    Deliver nat Event
  | Drop nat error
  | Forward nat
  | HandlerReceive nat
  | CallClose

fun sched_step :: "EventListener \<Rightarrow> sched \<Rightarrow> EventListener" where
  "sched_step e (Deliver i ctEvent) =
     (if i < length (el_subs e) \<and> \<not> es_closed (el_subs e ! i)
      then e\<lparr>el_subs := (el_subs e)
               [i := (el_subs e ! i)\<lparr>es_Events := es_Events (el_subs e ! i) @ [ctEvent]\<rparr>]\<rparr>
      else e)"
| "sched_step e (Drop i err) =
     (if i < length (el_subs e) \<and> \<not> es_closed (el_subs e ! i)
      then e\<lparr>el_subs := (el_subs e)
               [i := (el_subs e ! i)\<lparr>es_closed := True, es_Err := Some err\<rparr>]\<rparr>
      else e)"
| "sched_step e (Forward i) =
     (if i < length (el_subs e) \<and> i < length (el_forwarders e)
      then
        (case forwarder_step (el_subs e ! i) (el_forwarders e ! i) of
           (sub, f) \<Rightarrow> e\<lparr>el_subs := (el_subs e)[i := sub],
                         el_forwarders := (el_forwarders e)[i := f]\<rparr>)
      else e)"
| "sched_step e (HandlerReceive i) =
     (if i < length (el_forwarders e)
      then
        (case el_forwarders e ! i of
           AtSend ctEvent \<Rightarrow>
             e\<lparr>el_forwarders := (el_forwarders e)[i := AtReceive],
               el_handed := el_handed e @ [ctEvent]\<rparr>
         | _ \<Rightarrow> e)
      else e)"
| "sched_step e CallClose = EventListener_Close e"

definition sched_run :: "EventListener \<Rightarrow> sched list \<Rightarrow> EventListener" where
  "sched_run e steps = foldl sched_step e steps"

section \<open>Example collaborators\<close>

text \<open>
  Small stand-ins for the collaborators, used to run the handlers on concrete inputs. A
  scale-request payload is a state letter (\<open>c\<close> complete, \<open>x\<close> cancelled, anything
  else pending) followed by the request's id; an app or release payload is its id; a
  deployment payload is its status, and the deployment store answers with a record of the
  status named by the object id (complete for the object id \<open>null\<close>); the empty
  payload does not parse. The event store keeps its rows newest first.
\<close>

definition ex_jsonScaleRequest :: "string \<Rightarrow> error + ct_ScaleRequest" where
  "ex_jsonScaleRequest payload =
     (case payload of
        [] \<Rightarrow> Inl (PlainError ''unexpected end of JSON input'')
      | c # ident \<Rightarrow>
          Inr \<lparr>csr_ID = ident, csr_AppID = ''a1'', csr_ReleaseID = ''r1'',
               csr_State = (if c = CHR ''c'' then ScaleRequestStateComplete
                            else if c = CHR ''x'' then ScaleRequestStateCancelled
                            else ScaleRequestStatePending),
               csr_NewProcesses = None, csr_NewTags = None\<rparr>)"

definition ex_ConvertScaleRequest :: "ct_ScaleRequest \<Rightarrow> pb_ScaleRequest" where
  "ex_ConvertScaleRequest r =
     \<lparr>sr_Name = ''apps/'' @ csr_AppID r @ ''/releases/'' @ csr_ReleaseID r @ ''/scale/''
                  @ csr_ID r,
      sr_State = (case csr_State r of
                    ScaleRequestStateComplete \<Rightarrow> SCALE_COMPLETE
                  | ScaleRequestStateCancelled \<Rightarrow> SCALE_CANCELLED
                  | _ \<Rightarrow> SCALE_PENDING)\<rparr>"

definition ex_jsonRelease :: "string \<Rightarrow> error + string" where
  "ex_jsonRelease payload =
     (if payload = [] then Inl (PlainError ''unexpected end of JSON input'')
      else Inr payload)"

definition ex_ConvertRelease :: "string \<Rightarrow> pb_Release" where
  "ex_ConvertRelease ident = \<lparr>rel_Name = ''apps/a1/releases/'' @ ident, rel_Labels = []\<rparr>"

definition ex_jsonApp :: "string \<Rightarrow> error + ct_App" where
  "ex_jsonApp payload =
     (if payload = [] then Inl (PlainError ''unexpected end of JSON input'')
      else Inr \<lparr>ca_ID = payload, ca_Name = payload, ca_Meta = []\<rparr>)"

definition ex_ConvertApp :: "ct_App \<Rightarrow> pb_App" where
  "ex_ConvertApp a =
     \<lparr>app_Name = ''apps/'' @ ca_ID a, app_DisplayName = ca_Name a, app_Labels = ca_Meta a\<rparr>"

definition ex_MatchLabelFilters :: "labels \<Rightarrow> unit \<Rightarrow> bool" where
  "ex_MatchLabelFilters l f = True"

definition ex_PageTokenString :: "PageToken option \<Rightarrow> string" where
  "ex_PageTokenString t =
     (case t of
        None \<Rightarrow> []
      | Some pt \<Rightarrow> (case pt_BeforeID pt of None \<Rightarrow> [] | Some b \<Rightarrow> b) @ '':''
                     @ fmt_d (pt_Size pt))"

definition ex_event :: "int \<Rightarrow> EventType \<Rightarrow> string \<Rightarrow> Event" where
  "ex_event i t payload =
     \<lparr>ev_ID = i, ev_AppID = ''a1'', ev_ObjectType = t, ev_ObjectID = payload,
      ev_Op = EventOpCreate, ev_Data = payload, ev_CreatedAt = 0\<rparr>"

definition ex_ListEvents ::
  "Event list \<Rightarrow> string list \<Rightarrow> EventType list \<Rightarrow> string \<Rightarrow> int option \<Rightarrow> int option \<Rightarrow> int
     \<Rightarrow> error + Event list" where
  "ex_ListEvents rows appIDs objectTypes objectID beforeID sinceID count =
     (let found = filter (\<lambda>e. ev_ObjectType e \<in> set objectTypes
                               \<and> (case beforeID of None \<Rightarrow> True | Some b \<Rightarrow> ev_ID e < b))
                    rows
      in Inr (if count > 0 then take (nat count) found else found))"

definition ex_StreamAppsRequest :: "unit StreamAppsRequest" where
  "ex_StreamAppsRequest =
     \<lparr>sar_PageSize = 2, sar_PageToken = [], sar_NameFilters = [], sar_LabelFilters = (),
      sar_StreamUpdates = True, sar_StreamCreates = True\<rparr>"

definition ex_scale_rows :: "Event list" where
  "ex_scale_rows =
     [ex_event 5 EventTypeScaleRequest ''ps2'', ex_event 3 EventTypeScaleRequest ''ps1'']"

definition ex_release_rows :: "Event list" where
  "ex_release_rows =
     [ex_event 6 EventTypeRelease ''r3'', ex_event 4 EventTypeRelease ''r2'',
      ex_event 2 EventTypeRelease ''r1'']"

definition ex_jsonDeploymentEvent :: "string \<Rightarrow> error + ct_DeploymentEvent option" where
  "ex_jsonDeploymentEvent payload =
     (if payload = [] then Inl (PlainError ''unexpected end of JSON input'')
      else if payload = ''null'' then Inr None
      else Inr (Some \<lparr>de_Status = payload, de_JobType = ''web'', de_JobState = ''up'',
                      de_Error = (if payload = ''failed'' then ''boom'' else [])\<rparr>))"

definition ex_GetExpanded :: "string \<Rightarrow> error + ct_ExpandedDeployment" where
  "ex_GetExpanded ident = Inr \<lparr>ced_ID = ident, ced_AppID = ''a1'', ced_Status = ''pending''\<rparr>"

definition ex_ConvertExpandedDeployment :: "ct_ExpandedDeployment \<Rightarrow> pb_ExpandedDeployment" where
  "ex_ConvertExpandedDeployment d =
     \<lparr>ped_Name = ''apps/a1/deployments/'' @ ced_ID d, ped_Type = 0, ped_Status = ced_Status d\<rparr>"

definition ex_subscribeOK :: "string list \<Rightarrow> EventType list \<Rightarrow> string \<Rightarrow> error option" where
  "ex_subscribeOK appIDs objectTypes objectID = None"

definition ex_FormationGet :: "string \<Rightarrow> string \<Rightarrow> error + pb_Formation" where
  "ex_FormationGet appID releaseID =
     Inr \<lparr>fm_Parent = ''apps/'' @ appID @ ''/releases/'' @ releaseID,
          fm_State = SCALE_PENDING, fm_ScaleRequest = []\<rparr>"

definition ex_FormationGetExpanded :: "string \<Rightarrow> string \<Rightarrow> error + ct_ExpandedFormation" where
  "ex_FormationGetExpanded appID releaseID = Inr \<lparr>cef_PendingScaleRequest = None\<rparr>"

definition ex_QueryScaleRequestID :: "string \<Rightarrow> string \<Rightarrow> error + string" where
  "ex_QueryScaleRequestID appID releaseID = Inr ''s1''"

definition ex_refresh ::
  "string \<Rightarrow> string \<Rightarrow> (string \<times> pb_Formation) list \<Rightarrow> error + (string \<times> pb_Formation) list" where
  "ex_refresh =
     refreshFormation ex_FormationGet ex_FormationGetExpanded (\<lambda>f. f) ex_QueryScaleRequestID
       (\<lambda>err. PlainError ''Error fetching scale request id'')"

definition ex_refreshError :: "error \<Rightarrow> string \<Rightarrow> string \<Rightarrow> error" where
  "ex_refreshError err appID releaseID =
     StatusError Internal ''Error fetching current app formation''"

definition ex_ParsePageToken :: "string \<Rightarrow> error + PageToken" where
  "ex_ParsePageToken tokenStr =
     (if tokenStr = [] then Inr \<lparr>pt_BeforeID = None, pt_Size = 0\<rparr>
      else if tokenStr = ''2:2'' then Inr \<lparr>pt_BeforeID = Some ''2'', pt_Size = 2\<rparr>
      else Inl (PlainError ''invalid page token''))"

definition ex_apps :: "ct_App list" where
  "ex_apps =
     [\<lparr>ca_ID = ''a4'', ca_Name = ''four'', ca_Meta = []\<rparr>,
      \<lparr>ca_ID = ''a3'', ca_Name = ''three'', ca_Meta = []\<rparr>,
      \<lparr>ca_ID = ''a2'', ca_Name = ''two'', ca_Meta = []\<rparr>,
      \<lparr>ca_ID = ''a1'', ca_Name = ''one'', ca_Meta = []\<rparr>]"

definition ex_ListPage :: "PageToken \<Rightarrow> error + (ct_App list \<times> PageToken option)" where
  "ex_ListPage pageToken =
     (case pt_BeforeID pageToken of
        None \<Rightarrow> Inr (take 2 ex_apps, Some \<lparr>pt_BeforeID = Some ''2'', pt_Size = 2\<rparr>)
      | Some b \<Rightarrow> Inr (drop 2 ex_apps, None))"

definition ex_ListPage_bad_token ::
  "PageToken \<Rightarrow> error + (ct_App list \<times> PageToken option)" where
  "ex_ListPage_bad_token pageToken =
     Inr (take 2 ex_apps, Some \<lparr>pt_BeforeID = Some ''x'', pt_Size = 2\<rparr>)"

definition ex_ParseAppIDsFromNameFilters :: "string list \<Rightarrow> string list" where
  "ex_ParseAppIDsFromNameFilters nameFilters = map (drop 5) nameFilters"

definition ex_listApps_request :: "unit StreamAppsRequest" where
  "ex_listApps_request =
     \<lparr>sar_PageSize = 2, sar_PageToken = [], sar_NameFilters = [''apps/a3'', ''apps/a2''],
      sar_LabelFilters = (), sar_StreamUpdates = False, sar_StreamCreates = False\<rparr>"

definition ex_ParseIDFromName :: "string \<Rightarrow> string \<Rightarrow> string" where
  "ex_ParseIDFromName name keyword =
     (if keyword = ''apps'' then take 2 (drop 5 name) else drop 17 name)"

definition ex_subscribe :: "string list \<Rightarrow> EventType list \<Rightarrow> string \<Rightarrow> error + Subscription" where
  "ex_subscribe appIDs objectTypes objectID = Inr \<lparr>sub_Err = None\<rparr>"

definition ex_AddScaleRequest :: "ct_ScaleRequest \<Rightarrow> error + ct_ScaleRequest" where
  "ex_AddScaleRequest scaleReq = Inr (scaleReq\<lparr>csr_ID := ''s1''\<rparr>)"

definition ex_AddScaleRequest_fails :: "ct_ScaleRequest \<Rightarrow> error + ct_ScaleRequest" where
  "ex_AddScaleRequest_fails scaleReq = Inl (PlainError ''insert failed'')"

definition ex_CreateScaleRequest :: CreateScaleRequest where
  "ex_CreateScaleRequest =
     \<lparr>csq_Parent = ''apps/a1/releases/r1'', csq_Processes = [(''web'', 3)], csq_Tags = []\<rparr>"

definition ex_DeploymentAdd :: "string \<Rightarrow> string \<Rightarrow> error + ct_Deployment" where
  "ex_DeploymentAdd appID releaseID =
     Inr \<lparr>dep_ID = ''d1'', dep_AppID = appID, dep_NewReleaseID = releaseID,
          dep_Status = ''pending''\<rparr>"

definition ex_DeploymentGet :: "string \<Rightarrow> error + ct_Deployment" where
  "ex_DeploymentGet ident =
     Inr \<lparr>dep_ID = ''d1'', dep_AppID = ''a1'', dep_NewReleaseID = ''r2'',
          dep_Status = (if ident = ''null'' then ''complete'' else ident)\<rparr>"

definition ex_createScale_ok :: "CreateScaleRequest \<Rightarrow> error + pb_ScaleRequest" where
  "ex_createScale_ok r = Inr \<lparr>sr_Name = csq_Parent r @ ''/scale/s1'', sr_State = SCALE_PENDING\<rparr>"

definition ex_createScale_fails :: "CreateScaleRequest \<Rightarrow> error + pb_ScaleRequest" where
  "ex_createScale_fails r = Inl (PlainError ''scale request cancelled'')"

definition ex_CreateDeploymentRequest :: CreateDeploymentRequest where
  "ex_CreateDeploymentRequest =
     \<lparr>cdr_Parent = ''apps/a1'', cdr_Release = ''apps/a1/releases/r2'',
      cdr_ScaleRequest = Some \<lparr>csq_Parent = [], csq_Processes = [(''web'', 2)], csq_Tags = []\<rparr>\<rparr>"

definition ex_Subscribe :: "string \<Rightarrow> EventType list \<Rightarrow> string \<Rightarrow> error + EventSubscriber" where
  "ex_Subscribe appID objectTypes objectID =
     Inr \<lparr>es_Events = [], es_closed = False, es_Err = None\<rparr>"

section \<open>Shared lemmas\<close>

lemma prependScaleRequest_Inr:
  "prependScaleRequest ju conv event srs = Inr srs' \<Longrightarrow>
     \<exists>req. unmarshalScaleRequest ju conv event = Inr req
        \<and> srs' = req # filter (\<lambda>sr. sr_Name sr \<noteq> sr_Name req) srs"
  by (auto simp: prependScaleRequest_def split: sum.splits)

lemma maybePrependRelease_accepted:
  "maybeAcceptRelease ju conv m appIDs releaseIDs lf event = Inr (Some r) \<Longrightarrow>
     maybePrependRelease ju conv m appIDs releaseIDs lf event rels
       = Inr (r # filter (\<lambda>sr. rel_Name sr \<noteq> rel_Name r) rels)"
  by (simp add: maybePrependRelease_def)

lemma dedup_index:
  assumes "i < length (x # filter (\<lambda>y. f y \<noteq> f x) xs)"
  shows "(f ((x # filter (\<lambda>y. f y \<noteq> f x) xs) ! i) = f x) = (i = 0)"
proof (cases i)
  case 0 then show ?thesis by simp
next
  case (Suc j)
  with assms have "j < length (filter (\<lambda>y. f y \<noteq> f x) xs)" by simp
  then have "filter (\<lambda>y. f y \<noteq> f x) xs ! j \<in> set (filter (\<lambda>y. f y \<noteq> f x) xs)"
    by (rule nth_mem)
  then have "f (filter (\<lambda>y. f y \<noteq> f x) xs ! j) \<noteq> f x" by simp
  with Suc show ?thesis by simp
qed

lemma StreamScales_listed_currID:
  "ss_currID (StreamScales_listed ju conv st ev) = ev_ID ev"
  by (simp add: StreamScales_listed_def Let_def split: sum.splits)

lemma StreamScales_listed_fold_currID:
  "ss_currID (foldl (StreamScales_listed ju conv) st xs)
     = (if xs = [] then ss_currID st else ev_ID (last xs))"
  by (induction xs arbitrary: st) (auto simp: StreamScales_listed_currID)

lemma StreamScales_snapshot_currID:
  "list \<noteq> [] \<Longrightarrow> ss_currID (StreamScales_snapshot ju conv list) = ev_ID (hd list)"
  by (simp add: StreamScales_snapshot_def StreamScales_listed_fold_currID last_rev)

lemma StreamScales_event_currID_mono:
  "ss_currID st \<le> ss_currID (StreamScales_event ju conv st ev)"
  by (simp add: StreamScales_event_def Let_def split: sum.splits)

lemma StreamScales_live_currID_mono:
  "ss_currID st \<le> ss_currID (fst (StreamScales_live ju conv st ins))"
proof (induction ju conv st ins rule: StreamScales_live.induct)
  case (1 ju conv st)
  then show ?case by simp
next
  case (2 ju conv st inputs)
  then show ?case by (auto split: prod.splits)
next
  case (3 ju conv st event inputs)
  have "ss_currID st \<le> ss_currID (StreamScales_event ju conv st event)"
    by (rule StreamScales_event_currID_mono)
  also have "\<dots> = ss_currID (sendResponseWithDelay (StreamScales_event ju conv st event))"
    by (simp add: sendResponseWithDelay_def)
  also have "\<dots> \<le> ss_currID (fst (StreamScales_live ju conv
                 (sendResponseWithDelay (StreamScales_event ju conv st event)) inputs))"
    by (rule 3)
  finally show ?case by simp
qed

lemma sorted_desc_hd:
  "sorted_wrt (\<lambda>a b. ev_ID b \<le> ev_ID a) list \<Longrightarrow> e \<in> set list \<Longrightarrow> ev_ID e \<le> ev_ID (hd list)"
  by (cases list) auto

lemma StreamReleases_listed_currID:
  "rs_currID (StreamReleases_listed ju conv m appIDs releaseIDs lf st ev) = ev_ID ev"
  by (simp add: StreamReleases_listed_def Let_def split: sum.splits)

lemma StreamReleases_listed_fold_currID:
  "rs_currID (foldl (StreamReleases_listed ju conv m appIDs releaseIDs lf) st xs)
     = (if xs = [] then rs_currID st else ev_ID (last xs))"
  by (induction xs arbitrary: st) (auto simp: StreamReleases_listed_currID)

lemma StreamReleases_window_hd:
  "StreamReleases_window pageSize list = Inr (w, tok) \<Longrightarrow> list \<noteq> [] \<Longrightarrow>
     w \<noteq> [] \<and> hd w = hd list"
  by (cases list) (auto simp: StreamReleases_window_def split: if_splits list.splits)

lemma StreamReleases_snapshot_currID:
  assumes "ListEvents eventAppIDs [EventTypeRelease] [] beforeID None
             (StreamReleases_count pageSize) = Inr list"
    and "StreamReleases_snapshot ju conv m pts ListEvents eventAppIDs appIDs releaseIDs lf
           beforeID pageSize = Inr (st, response)"
    and "list \<noteq> []"
  shows "rs_currID st = ev_ID (hd list)"
proof -
  from assms(1,2) obtain w tok where
    w: "StreamReleases_window pageSize list = Inr (w, tok)" and
    st: "st = foldl (StreamReleases_listed ju conv m appIDs releaseIDs lf)
                \<lparr>rs_currID = (case beforeID of None \<Rightarrow> 0 | Some b \<Rightarrow> b), rs_releases = [],
                 rs_nextPageToken = tok\<rparr> (rev w)"
    by (auto simp: StreamReleases_snapshot_def Let_def split: sum.splits)
  from StreamReleases_window_hd [OF w assms(3)] have "w \<noteq> []" "hd w = hd list" by simp_all
  then show ?thesis
    by (simp add: st StreamReleases_listed_fold_currID last_rev)
qed

lemma StreamReleases_event_currID_mono:
  "rs_currID st \<le> rs_currID (fst (StreamReleases_event ju conv m appIDs releaseIDs lf st ev))"
  by (simp add: StreamReleases_event_def Let_def split: sum.splits option.splits)

lemma StreamReleases_live_currID_mono:
  "rs_currID st \<le> rs_currID (fst (StreamReleases_live ju conv m appIDs releaseIDs lf st evs))"
proof (induction evs arbitrary: st)
  case Nil
  then show ?case by simp
next
  case (Cons ev evs)
  have "rs_currID st
          \<le> rs_currID (fst (StreamReleases_event ju conv m appIDs releaseIDs lf st ev))"
    by (rule StreamReleases_event_currID_mono)
  also have "\<dots> \<le> rs_currID (fst (StreamReleases_live ju conv m appIDs releaseIDs lf
                (fst (StreamReleases_event ju conv m appIDs releaseIDs lf st ev)) evs))"
    by (rule Cons.IH)
  finally show ?case by (simp add: case_prod_beta)
qed

section \<open>The wait loop of createScale\<close>

text \<open>
  The loop ends at the first \<^verbatim>\<open>select\<close> outcome that ends it; every outcome before
  that one is a received event that is not a cancelled or complete scale request of the
  inserted id.
\<close>

lemma createScale_wait_Cons:
  "createScale_wait ju secs ident (x # outcomes)
     = (case createScale_wait ju secs ident [x] of
          None \<Rightarrow> createScale_wait ju secs ident outcomes
        | Some w \<Rightarrow> Some w)"
proof (cases x)
  case (SelectRecv r)
  show ?thesis
  proof (cases r)
    case (Received event)
    with SelectRecv show ?thesis
      by (simp split: EventType.splits sum.splits ScaleRequestState.splits)
  next
    case Closed
    with SelectRecv show ?thesis by simp
  qed
next
  case SelectTimeout
  then show ?thesis by simp
qed

lemma createScale_wait_first_end:
  "createScale_wait ju secs ident outcomes = Some w
     \<longleftrightarrow> (\<exists>pre x rest. outcomes = pre @ x # rest
            \<and> (\<forall>p \<in> set pre. createScale_wait ju secs ident [p] = None)
            \<and> createScale_wait ju secs ident [x] = Some w)"
proof (induction outcomes)
  case Nil
  then show ?case by simp
next
  case (Cons y outcomes)
  show ?case
  proof (cases "createScale_wait ju secs ident [y]")
    case None
    have "createScale_wait ju secs ident (y # outcomes) = Some w
            \<longleftrightarrow> createScale_wait ju secs ident outcomes = Some w"
      using None by (simp add: createScale_wait_Cons [of ju secs ident y outcomes])
    also have "\<dots> \<longleftrightarrow> (\<exists>pre x rest. outcomes = pre @ x # rest
            \<and> (\<forall>p \<in> set pre. createScale_wait ju secs ident [p] = None)
            \<and> createScale_wait ju secs ident [x] = Some w)"
      by (rule Cons.IH)
    also have "\<dots> \<longleftrightarrow> (\<exists>pre x rest. y # outcomes = pre @ x # rest
            \<and> (\<forall>p \<in> set pre. createScale_wait ju secs ident [p] = None)
            \<and> createScale_wait ju secs ident [x] = Some w)"
    proof
      assume "\<exists>pre x rest. outcomes = pre @ x # rest
            \<and> (\<forall>p \<in> set pre. createScale_wait ju secs ident [p] = None)
            \<and> createScale_wait ju secs ident [x] = Some w"
      then obtain pre x rest where "outcomes = pre @ x # rest"
        "\<forall>p \<in> set pre. createScale_wait ju secs ident [p] = None"
        "createScale_wait ju secs ident [x] = Some w" by blast
      with None have "y # outcomes = (y # pre) @ x # rest
            \<and> (\<forall>p \<in> set (y # pre). createScale_wait ju secs ident [p] = None)
            \<and> createScale_wait ju secs ident [x] = Some w" by simp
      then show "\<exists>pre x rest. y # outcomes = pre @ x # rest
            \<and> (\<forall>p \<in> set pre. createScale_wait ju secs ident [p] = None)
            \<and> createScale_wait ju secs ident [x] = Some w" by blast
    next
      assume "\<exists>pre x rest. y # outcomes = pre @ x # rest
            \<and> (\<forall>p \<in> set pre. createScale_wait ju secs ident [p] = None)
            \<and> createScale_wait ju secs ident [x] = Some w"
      then obtain pre x rest where d: "y # outcomes = pre @ x # rest"
        and s: "\<forall>p \<in> set pre. createScale_wait ju secs ident [p] = None"
        and e: "createScale_wait ju secs ident [x] = Some w" by blast
      show "\<exists>pre x rest. outcomes = pre @ x # rest
            \<and> (\<forall>p \<in> set pre. createScale_wait ju secs ident [p] = None)
            \<and> createScale_wait ju secs ident [x] = Some w"
      proof (cases pre)
        case Nil
        with d e None show ?thesis by simp
      next
        case (Cons p pre')
        with d s e have "outcomes = pre' @ x # rest
            \<and> (\<forall>p \<in> set pre'. createScale_wait ju secs ident [p] = None)
            \<and> createScale_wait ju secs ident [x] = Some w" by simp
        then show ?thesis by blast
      qed
    qed
    finally show ?thesis .
  next
    case (Some w')
    have l: "createScale_wait ju secs ident (y # outcomes) = Some w \<longleftrightarrow> w' = w"
      using Some by (simp add: createScale_wait_Cons [of ju secs ident y outcomes])
    have r: "(\<exists>pre x rest. y # outcomes = pre @ x # rest
            \<and> (\<forall>p \<in> set pre. createScale_wait ju secs ident [p] = None)
            \<and> createScale_wait ju secs ident [x] = Some w) \<longleftrightarrow> w' = w"
    proof
      assume "\<exists>pre x rest. y # outcomes = pre @ x # rest
            \<and> (\<forall>p \<in> set pre. createScale_wait ju secs ident [p] = None)
            \<and> createScale_wait ju secs ident [x] = Some w"
      then obtain pre x rest where d: "y # outcomes = pre @ x # rest"
        and s: "\<forall>p \<in> set pre. createScale_wait ju secs ident [p] = None"
        and e: "createScale_wait ju secs ident [x] = Some w" by blast
      show "w' = w"
      proof (cases pre)
        case Nil
        with d e Some show ?thesis by simp
      next
        case (Cons p pre')
        with d s Some show ?thesis by simp
      qed
    next
      assume "w' = w"
      with Some have "y # outcomes = [] @ y # outcomes
            \<and> (\<forall>p \<in> set []. createScale_wait ju secs ident [p] = None)
            \<and> createScale_wait ju secs ident [y] = Some w" by simp
      then show "\<exists>pre x rest. y # outcomes = pre @ x # rest
            \<and> (\<forall>p \<in> set pre. createScale_wait ju secs ident [p] = None)
            \<and> createScale_wait ju secs ident [x] = Some w" by blast
    qed
    from l r show ?thesis by simp
  qed
qed

lemma createScale_wait_continues:
  "createScale_wait ju secs ident [p] = None
     \<longleftrightarrow> (\<exists>event. p = SelectRecv (Received event)
            \<and> \<not> (ev_ObjectType event = EventTypeScaleRequest
                 \<and> (\<exists>r. ju (ev_Data event) = Inr r \<and> csr_ID r = ident
                        \<and> (csr_State r = ScaleRequestStateCancelled
                             \<or> csr_State r = ScaleRequestStateComplete))))"
proof (cases p)
  case (SelectRecv r)
  show ?thesis
  proof (cases r)
    case (Received event)
    with SelectRecv show ?thesis
      by (auto split: EventType.splits sum.splits ScaleRequestState.splits)
  next
    case Closed
    with SelectRecv show ?thesis by simp
  qed
next
  case SelectTimeout
  then show ?thesis by simp
qed

lemma createScale_wait_cancelled:
  "createScale_wait ju secs ident [x] = Some (ReturnError (PlainError ''scale request cancelled''))
     \<longleftrightarrow> (\<exists>event r. x = SelectRecv (Received event)
            \<and> ev_ObjectType event = EventTypeScaleRequest
            \<and> ju (ev_Data event) = Inr r \<and> csr_ID r = ident
            \<and> csr_State r = ScaleRequestStateCancelled)"
proof (cases x)
  case (SelectRecv r)
  show ?thesis
  proof (cases r)
    case (Received event)
    with SelectRecv show ?thesis
      by (auto split: EventType.splits sum.splits ScaleRequestState.splits)
  next
    case Closed
    with SelectRecv show ?thesis by simp
  qed
next
  case SelectTimeout
  then show ?thesis by simp
qed

lemma createScale_wait_complete:
  "createScale_wait ju secs ident [x] = Some BreakOuter
     \<longleftrightarrow> x = SelectRecv Closed
         \<or> (\<exists>event r. x = SelectRecv (Received event)
            \<and> ev_ObjectType event = EventTypeScaleRequest
            \<and> ju (ev_Data event) = Inr r \<and> csr_ID r = ident
            \<and> csr_State r = ScaleRequestStateComplete)"
proof (cases x)
  case (SelectRecv r)
  show ?thesis
  proof (cases r)
    case (Received event)
    with SelectRecv show ?thesis
      by (auto split: EventType.splits sum.splits ScaleRequestState.splits)
  next
    case Closed
    with SelectRecv show ?thesis by simp
  qed
next
  case SelectTimeout
  then show ?thesis by simp
qed

lemma createScale_wait_timed_out:
  "createScale_wait ju secs ident [x]
     = Some (ReturnError (PlainError
         (''timed out waiting for scale to complete (waited '' @ secs @ '' seconds)'')))
     \<longleftrightarrow> x = SelectTimeout"
proof (cases x)
  case (SelectRecv r)
  show ?thesis
  proof (cases r)
    case (Received event)
    with SelectRecv show ?thesis
      by (auto split: EventType.splits sum.splits ScaleRequestState.splits)
  next
    case Closed
    with SelectRecv show ?thesis by simp
  qed
next
  case SelectTimeout
  then show ?thesis by simp
qed

lemma createScale_after_setup:
  assumes "subscribe [pid (csq_Parent req) ''apps''] [EventTypeScaleRequest] [] = Inr sub"
    and "sub_Err sub = None"
    and "AddScaleRequest
           \<lparr>csr_ID = [], csr_AppID = pid (csq_Parent req) ''apps'',
            csr_ReleaseID = pid (csq_Parent req) ''releases'',
            csr_State = ScaleRequestStatePending,
            csr_NewProcesses = Some (parseDeploymentProcesses (csq_Processes req)),
            csr_NewTags = Some (parseDeploymentTags (csq_Tags req))\<rparr> = Inr scaleReq"
  shows "createScale pid subscribe AddScaleRequest ju conv cerr secs req outcomes
           = (case createScale_wait ju secs (csr_ID scaleReq) outcomes of
                None \<Rightarrow> None
              | Some (ReturnError err) \<Rightarrow> Some (Inl err)
              | Some BreakOuter \<Rightarrow> Some (Inr (conv scaleReq)))"
  using assms by (simp add: createScale_def Let_def split: option.splits wait_end.splits)

lemmas ex_createScale_defs =
  createScale_def ex_ParseIDFromName_def ex_subscribe_def ex_AddScaleRequest_def
  ex_AddScaleRequest_fails_def ex_jsonScaleRequest_def ex_ConvertScaleRequest_def
  ex_CreateScaleRequest_def ex_event_def parseDeploymentProcesses_def
  parseDeploymentTags_def Let_def

lemma ex_createScale_subscribed:
  "ex_subscribe [ex_ParseIDFromName (csq_Parent ex_CreateScaleRequest) ''apps'']
     [EventTypeScaleRequest] [] = Inr \<lparr>sub_Err = None\<rparr>"
  by (simp add: ex_subscribe_def)

lemma ex_createScale_inserted:
  "ex_AddScaleRequest
     \<lparr>csr_ID = [], csr_AppID = ex_ParseIDFromName (csq_Parent ex_CreateScaleRequest) ''apps'',
      csr_ReleaseID = ex_ParseIDFromName (csq_Parent ex_CreateScaleRequest) ''releases'',
      csr_State = ScaleRequestStatePending,
      csr_NewProcesses = Some (parseDeploymentProcesses (csq_Processes ex_CreateScaleRequest)),
      csr_NewTags = Some (parseDeploymentTags (csq_Tags ex_CreateScaleRequest))\<rparr>
   = Inr \<lparr>csr_ID = ''s1'', csr_AppID = ''a1'', csr_ReleaseID = ''r1'',
           csr_State = ScaleRequestStatePending, csr_NewProcesses = Some [(''web'', 3)],
           csr_NewTags = Some []\<rparr>"
  by (simp add: ex_AddScaleRequest_def ex_ParseIDFromName_def ex_CreateScaleRequest_def
        parseDeploymentProcesses_def parseDeploymentTags_def)

lemma ex_createScale_pending_skipped:
  "\<forall>p \<in> set [SelectRecv (Received (ex_event 3 EventTypeScaleRequest ''ps1''))].
      \<exists>e. p = SelectRecv (Received e)
         \<and> \<not> (ev_ObjectType e = EventTypeScaleRequest
              \<and> (\<exists>r. ex_jsonScaleRequest (ev_Data e) = Inr r
                     \<and> csr_ID r = csr_ID \<lparr>csr_ID = ''s1'', csr_AppID = ''a1'',
                                       csr_ReleaseID = ''r1'',
                                       csr_State = ScaleRequestStatePending,
                                       csr_NewProcesses = Some [(''web'', 3)],
                                       csr_NewTags = Some []\<rparr>
                     \<and> (csr_State r = ScaleRequestStateCancelled
                          \<or> csr_State r = ScaleRequestStateComplete)))"
  by (simp add: ex_jsonScaleRequest_def ex_event_def)

section \<open>C1: the seam between snapshot and live tail\<close>

text \<open>
  Claim C1, as amended. In \<^verbatim>\<open>StreamScales\<close> and \<^verbatim>\<open>StreamReleases\<close>, the two
  handlers that carry the \<^verbatim>\<open>currID\<close> guard, let the listed rows come newest first, as
  the store returns them. Then at any point of the live tail an event whose id is at most
  the id of some listed row is dropped by the loop body: in \<^verbatim>\<open>StreamScales\<close> it
  leaves \<^verbatim>\<open>currID\<close> and the list as they were, in \<^verbatim>\<open>StreamReleases\<close> it leaves the
  state as it was and sends nothing. (\<^verbatim>\<open>StreamScales\<close> still calls
  \<^verbatim>\<open>sendResponseWithDelay\<close> at the top of the next iteration, which re-sends the
  unchanged list; \<^verbatim>\<open>StreamApps\<close> is not covered.)
\<close>

theorem snapshot_ids_rejected_in_live_tail:
  assumes "sorted_wrt (\<lambda>a b. ev_ID b \<le> ev_ID a) list"
    and "e \<in> set list"
    and "ev_ID event \<le> ev_ID e"
  shows "(let st = fst (StreamScales_live js cs
                     (sendResponseWithDelay (StreamScales_snapshot js cs list)) inputs)
          in StreamScales_event js cs st event = st)
       \<and> (\<forall>st0 response.
            ListEvents eventAppIDs [EventTypeRelease] [] beforeID None
                (StreamReleases_count pageSize) = Inr list
              \<and> StreamReleases_snapshot jr cr m pts ListEvents eventAppIDs appIDs releaseIDs
                  lf beforeID pageSize = Inr (st0, response)
            \<longrightarrow> (let st = fst (StreamReleases_live jr cr m appIDs releaseIDs lf st0 events)
                 in StreamReleases_event jr cr m appIDs releaseIDs lf st event = (st, [])))"
proof -
  from assms(2) have ne: "list \<noteq> []" by auto
  have le: "ev_ID event \<le> ev_ID (hd list)"
    using sorted_desc_hd [OF assms(1,2)] assms(3) by simp
  let ?s0 = "sendResponseWithDelay (StreamScales_snapshot js cs list)"
  have "ss_currID ?s0 = ev_ID (hd list)"
    by (simp add: sendResponseWithDelay_def StreamScales_snapshot_currID [OF ne])
  with StreamScales_live_currID_mono [of ?s0 js cs inputs] le
  have "ev_ID event \<le> ss_currID (fst (StreamScales_live js cs ?s0 inputs))" by simp
  then have scales: "let st = fst (StreamScales_live js cs ?s0 inputs)
                     in StreamScales_event js cs st event = st"
    by (simp add: StreamScales_event_def Let_def)
  have releases: "\<forall>st0 response.
            ListEvents eventAppIDs [EventTypeRelease] [] beforeID None
                (StreamReleases_count pageSize) = Inr list
              \<and> StreamReleases_snapshot jr cr m pts ListEvents eventAppIDs appIDs releaseIDs
                  lf beforeID pageSize = Inr (st0, response)
            \<longrightarrow> (let st = fst (StreamReleases_live jr cr m appIDs releaseIDs lf st0 events)
                 in StreamReleases_event jr cr m appIDs releaseIDs lf st event = (st, []))"
  proof (intro allI impI)
    fix st0 response
    assume a: "ListEvents eventAppIDs [EventTypeRelease] [] beforeID None
                (StreamReleases_count pageSize) = Inr list
              \<and> StreamReleases_snapshot jr cr m pts ListEvents eventAppIDs appIDs releaseIDs
                  lf beforeID pageSize = Inr (st0, response)"
    then have a1: "ListEvents eventAppIDs [EventTypeRelease] [] beforeID None
                (StreamReleases_count pageSize) = Inr list"
      and a2: "StreamReleases_snapshot jr cr m pts ListEvents eventAppIDs appIDs releaseIDs
                  lf beforeID pageSize = Inr (st0, response)" by simp_all
    have "rs_currID st0 = ev_ID (hd list)"
      by (rule StreamReleases_snapshot_currID [OF a1 a2 ne])
    with StreamReleases_live_currID_mono [of st0 jr cr m appIDs releaseIDs lf events] le
    have "ev_ID event
            \<le> rs_currID (fst (StreamReleases_live jr cr m appIDs releaseIDs lf st0 events))"
      by simp
    then show "let st = fst (StreamReleases_live jr cr m appIDs releaseIDs lf st0 events)
               in StreamReleases_event jr cr m appIDs releaseIDs lf st event = (st, [])"
      by (simp add: StreamReleases_event_def Let_def)
  qed
  from scales releases show ?thesis by blast
qed

theorem snapshot_ids_rejected_in_live_tail_witness:
  "sorted_wrt (\<lambda>a b. ev_ID b \<le> ev_ID a) ex_scale_rows
   \<and> ex_event 5 EventTypeScaleRequest ''ps2'' \<in> set ex_scale_rows
   \<and> ev_ID (ex_event 4 EventTypeScaleRequest ''cs9'')
       \<le> ev_ID (ex_event 5 EventTypeScaleRequest ''ps2'')
   \<and> StreamScales_event ex_jsonScaleRequest ex_ConvertScaleRequest
        (fst (StreamScales_live ex_jsonScaleRequest ex_ConvertScaleRequest
               (sendResponseWithDelay
                  (StreamScales_snapshot ex_jsonScaleRequest ex_ConvertScaleRequest
                     ex_scale_rows))
               [ScalesEvent (ex_event 7 EventTypeScaleRequest ''cs2'')]))
        (ex_event 4 EventTypeScaleRequest ''cs9'')
       = fst (StreamScales_live ex_jsonScaleRequest ex_ConvertScaleRequest
               (sendResponseWithDelay
                  (StreamScales_snapshot ex_jsonScaleRequest ex_ConvertScaleRequest
                     ex_scale_rows))
               [ScalesEvent (ex_event 7 EventTypeScaleRequest ''cs2'')])
   \<and> sorted_wrt (\<lambda>a b. ev_ID b \<le> ev_ID a) ex_release_rows
   \<and> ex_event 4 EventTypeRelease ''r2'' \<in> set ex_release_rows
   \<and> ev_ID (ex_event 3 EventTypeRelease ''r9'') \<le> ev_ID (ex_event 4 EventTypeRelease ''r2'')
   \<and> ex_ListEvents ex_release_rows [] [EventTypeRelease] [] None None
        (StreamReleases_count 3) = Inr ex_release_rows
   \<and> (\<exists>st0 response.
         StreamReleases_snapshot ex_jsonRelease ex_ConvertRelease ex_MatchLabelFilters
           ex_PageTokenString (ex_ListEvents ex_release_rows) [] [] [] () None 3
           = Inr (st0, response)
         \<and> StreamReleases_event ex_jsonRelease ex_ConvertRelease ex_MatchLabelFilters [] [] ()
             (fst (StreamReleases_live ex_jsonRelease ex_ConvertRelease ex_MatchLabelFilters
                     [] [] () st0 [ex_event 8 EventTypeRelease ''r4'']))
             (ex_event 3 EventTypeRelease ''r9'')
            = (fst (StreamReleases_live ex_jsonRelease ex_ConvertRelease ex_MatchLabelFilters
                      [] [] () st0 [ex_event 8 EventTypeRelease ''r4'']), []))"
proof -
  have h1: "sorted_wrt (\<lambda>a b. ev_ID b \<le> ev_ID a) ex_scale_rows"
    by (simp add: ex_scale_rows_def ex_event_def)
  have h2: "ex_event 5 EventTypeScaleRequest ''ps2'' \<in> set ex_scale_rows"
    by (simp add: ex_scale_rows_def)
  have h3: "ev_ID (ex_event 4 EventTypeScaleRequest ''cs9'')
              \<le> ev_ID (ex_event 5 EventTypeScaleRequest ''ps2'')"
    by (simp add: ex_event_def)
  have scales: "StreamScales_event ex_jsonScaleRequest ex_ConvertScaleRequest
        (fst (StreamScales_live ex_jsonScaleRequest ex_ConvertScaleRequest
               (sendResponseWithDelay
                  (StreamScales_snapshot ex_jsonScaleRequest ex_ConvertScaleRequest
                     ex_scale_rows))
               [ScalesEvent (ex_event 7 EventTypeScaleRequest ''cs2'')]))
        (ex_event 4 EventTypeScaleRequest ''cs9'')
       = fst (StreamScales_live ex_jsonScaleRequest ex_ConvertScaleRequest
               (sendResponseWithDelay
                  (StreamScales_snapshot ex_jsonScaleRequest ex_ConvertScaleRequest
                     ex_scale_rows))
               [ScalesEvent (ex_event 7 EventTypeScaleRequest ''cs2'')])"
    using snapshot_ids_rejected_in_live_tail [where js = ex_jsonScaleRequest
         and cs = ex_ConvertScaleRequest
         and inputs = "[ScalesEvent (ex_event 7 EventTypeScaleRequest ''cs2'')]",
         OF h1 h2 h3, THEN conjunct1]
    by (simp only: Let_def)
  have g1: "sorted_wrt (\<lambda>a b. ev_ID b \<le> ev_ID a) ex_release_rows"
    by (simp add: ex_release_rows_def ex_event_def)
  have g2: "ex_event 4 EventTypeRelease ''r2'' \<in> set ex_release_rows"
    by (simp add: ex_release_rows_def)
  have g3: "ev_ID (ex_event 3 EventTypeRelease ''r9'')
              \<le> ev_ID (ex_event 4 EventTypeRelease ''r2'')"
    by (simp add: ex_event_def)
  have g4: "ex_ListEvents ex_release_rows [] [EventTypeRelease] [] None None
              (StreamReleases_count 3) = Inr ex_release_rows"
    by (simp add: ex_ListEvents_def ex_release_rows_def ex_event_def StreamReleases_count_def
          go_int_add_def)
  have "\<exists>st0 response.
          StreamReleases_snapshot ex_jsonRelease ex_ConvertRelease ex_MatchLabelFilters
            ex_PageTokenString (ex_ListEvents ex_release_rows) [] [] [] () None 3
            = Inr (st0, response)"
    unfolding StreamReleases_snapshot_def g4
    by (simp add: StreamReleases_window_def ex_release_rows_def go_int_add_def Let_def)
  then obtain st0 response where g5:
    "StreamReleases_snapshot ex_jsonRelease ex_ConvertRelease ex_MatchLabelFilters
       ex_PageTokenString (ex_ListEvents ex_release_rows) [] [] [] () None 3
       = Inr (st0, response)" by blast
  have "StreamReleases_event ex_jsonRelease ex_ConvertRelease ex_MatchLabelFilters [] [] ()
          (fst (StreamReleases_live ex_jsonRelease ex_ConvertRelease ex_MatchLabelFilters
                  [] [] () st0 [ex_event 8 EventTypeRelease ''r4'']))
          (ex_event 3 EventTypeRelease ''r9'')
         = (fst (StreamReleases_live ex_jsonRelease ex_ConvertRelease ex_MatchLabelFilters
                   [] [] () st0 [ex_event 8 EventTypeRelease ''r4'']), [])"
    using snapshot_ids_rejected_in_live_tail [where events = "[ex_event 8 EventTypeRelease ''r4'']",
            OF g1 g2 g3, THEN conjunct2, rule_format, OF conjI, OF g4 g5]
    by (simp only: Let_def)
  with g5 have releases: "\<exists>st0 response.
         StreamReleases_snapshot ex_jsonRelease ex_ConvertRelease ex_MatchLabelFilters
           ex_PageTokenString (ex_ListEvents ex_release_rows) [] [] [] () None 3
           = Inr (st0, response)
         \<and> StreamReleases_event ex_jsonRelease ex_ConvertRelease ex_MatchLabelFilters [] [] ()
             (fst (StreamReleases_live ex_jsonRelease ex_ConvertRelease ex_MatchLabelFilters
                     [] [] () st0 [ex_event 8 EventTypeRelease ''r4'']))
             (ex_event 3 EventTypeRelease ''r9'')
            = (fst (StreamReleases_live ex_jsonRelease ex_ConvertRelease ex_MatchLabelFilters
                      [] [] () st0 [ex_event 8 EventTypeRelease ''r4'']), [])"
    by blast
  from h1 h2 h3 scales g1 g2 g3 g4 releases show ?thesis by blast
qed

lemma StreamApps_event_ignores_id:
  "StreamApps_event ju conv m req (event\<lparr>ev_ID := i\<rparr>) = StreamApps_event ju conv m req event"
  by (simp add: StreamApps_event_def Let_def split: EventType.splits sum.splits)

text \<open>
  Claim C1 as stated also names \<^verbatim>\<open>StreamApps\<close>, and counts as accepted every event
  that causes a response. \<^verbatim>\<open>StreamApps\<close> lists apps, not events, so its snapshot
  observes no event id (the newest id of an empty observation is zero), and its live loop
  never reads an event's id: an event of id 0 is answered with a response. And in
  \<^verbatim>\<open>StreamScales\<close> an event that repeats the newest listed id, though dropped by the
  guard, is followed by the next iteration's \<^verbatim>\<open>sendResponseWithDelay()\<close>: with it
  the stream carries three responses where it would carry two.
\<close>

theorem StreamApps_no_id_guard_counterexample:
  "ev_ID (ex_event 0 EventTypeApp ''a1'') \<le> 0
   \<and> StreamApps_live ex_jsonApp ex_ConvertApp ex_MatchLabelFilters ex_StreamAppsRequest
        [ex_event 0 EventTypeApp ''a1'']
       = [\<lparr>ar_Apps = [\<lparr>app_Name = ''apps/a1'', app_DisplayName = ''a1'', app_Labels = []\<rparr>],
           ar_NextPageToken = [], ar_PageComplete = False\<rparr>]
   \<and> ex_event 5 EventTypeScaleRequest ''ps2'' \<in> set ex_scale_rows
   \<and> length (projr (StreamScales ex_jsonScaleRequest ex_ConvertScaleRequest ex_subscribeOK
                        (ex_ListEvents ex_scale_rows) [] [TimerFires, TimerFires])) = 2
   \<and> length (projr (StreamScales ex_jsonScaleRequest ex_ConvertScaleRequest ex_subscribeOK
                        (ex_ListEvents ex_scale_rows) []
                        [TimerFires, ScalesEvent (ex_event 5 EventTypeScaleRequest ''ps2''),
                         TimerFires])) = 3"
  by (simp add: StreamApps_live_def StreamApps_event_def ex_event_def ex_jsonApp_def
        ex_ConvertApp_def ex_MatchLabelFilters_def ex_StreamAppsRequest_def
        StreamScales_def StreamScales_snapshot_def StreamScales_listed_def
        StreamScales_event_def sendResponseWithDelay_def prependScaleRequest_def
        unmarshalScaleRequest_def ex_jsonScaleRequest_def ex_ConvertScaleRequest_def
        ex_subscribeOK_def ex_ListEvents_def ex_scale_rows_def Let_def)

section \<open>C2: what Close does to a subscription\<close>

lemma forwarder_step_closed:
  "es_closed (fst (forwarder_step sub f)) = es_closed sub"
  by (simp add: forwarder_step_def split: forwarder.splits list.splits)

lemma sched_step_Events_closed:
  "el_Events_closed (sched_step e a) = el_Events_closed e"
  by (cases a)
     (simp_all add: EventListener_Close_def split: prod.splits forwarder.splits)

lemma sched_run_Events_closed:
  "el_Events_closed (sched_run e steps) = el_Events_closed e"
  unfolding sched_run_def
  by (induction steps arbitrary: e) (simp_all add: sched_step_Events_closed)

lemma subscribeEvents_Events_open:
  "subscribeEvents startErr Subscribe appIDs objectTypes objectID = Inr e \<Longrightarrow>
     \<not> el_Events_closed e"
  by (auto simp: subscribeEvents_def split: option.splits sum.splits)

lemma EventListener_Close_closes:
  "list_all es_closed (el_subs (EventListener_Close e))"
  by (simp add: EventListener_Close_def list_all_iff)

lemma list_all_update:
  "list_all P xs \<Longrightarrow> P v \<Longrightarrow> list_all P (xs[i := v])"
  unfolding list_all_iff using set_update_subset_insert [of xs i v] by auto

lemma sched_step_stays_closed:
  assumes "list_all es_closed (el_subs e)"
  shows "list_all es_closed (el_subs (sched_step e a))"
proof (cases a)
  case (Deliver i ctEvent)
  with assms show ?thesis by (auto simp: list_all_length)
next
  case (Drop i err)
  with assms show ?thesis by (auto simp: list_all_length)
next
  case (Forward i)
  show ?thesis
  proof (cases "i < length (el_subs e) \<and> i < length (el_forwarders e)")
    case True
    then have "es_closed (el_subs e ! i)" using assms by (simp add: list_all_length)
    then have "es_closed (fst (forwarder_step (el_subs e ! i) (el_forwarders e ! i)))"
      by (simp add: forwarder_step_closed)
    with assms True Forward show ?thesis
      by (auto simp: list_all_update split: prod.splits)
  next
    case False
    with assms Forward show ?thesis by auto
  qed
next
  case (HandlerReceive i)
  with assms show ?thesis by (auto split: forwarder.splits)
next
  case CallClose
  then show ?thesis by (simp add: EventListener_Close_closes)
qed

lemma sched_run_stays_closed:
  "list_all es_closed (el_subs e) \<Longrightarrow> list_all es_closed (el_subs (sched_run e steps))"
  unfolding sched_run_def
  by (induction steps arbitrary: e) (simp_all add: sched_step_stays_closed)

text \<open>
  Claim C2 says that after \<^verbatim>\<open>Close()\<close> every underlying subscriber is closed, every
  forwarder leaves its loop, and the merged channel then closes, so that a handler blocked
  on it is released. On the code, from any subscription that \<^verbatim>\<open>subscribeEvents\<close>
  returns and under every schedule of the listener, the forwarders and the handler that
  contains a call of \<^verbatim>\<open>Close\<close>: every underlying subscriber is closed and stays
  closed, but the merged channel is still open. No statement of the program closes it.
\<close>

theorem Close_leaves_merged_channel_open:
  assumes "subscribeEvents startErr Subscribe appIDs objectTypes objectID = Inr e"
  shows "\<not> el_Events_closed (sched_run e (before @ CallClose # after))
       \<and> list_all es_closed (el_subs (sched_run e (before @ CallClose # after)))"
proof -
  have "\<not> el_Events_closed e" using assms by (rule subscribeEvents_Events_open)
  then have a: "\<not> el_Events_closed (sched_run e (before @ CallClose # after))"
    by (simp add: sched_run_Events_closed)
  have "sched_run e (before @ CallClose # after)
          = sched_run (EventListener_Close (sched_run e before)) after"
    by (simp add: sched_run_def)
  then have b: "list_all es_closed (el_subs (sched_run e (before @ CallClose # after)))"
    by (simp add: sched_run_stays_closed EventListener_Close_closes)
  from a b show ?thesis by simp
qed

text \<open>
  One subscriber for app \<open>a1\<close>. After \<^verbatim>\<open>Close\<close> a forwarder that stood at its
  receive has left its loop, and the merged channel is open all the same; a forwarder that
  stood at its send, holding an event nobody receives, still stands there.
\<close>

theorem Close_leaves_merged_channel_open_witness:
  "subscribeEvents None ex_Subscribe [''a1''] [EventTypeScaleRequest] []
     = Inr \<lparr>el_Events_closed = False, el_Err = None,
            el_subs = [\<lparr>es_Events = [], es_closed = False, es_Err = None\<rparr>],
            el_forwarders = [AtReceive], el_handed = []\<rparr>
   \<and> sched_run \<lparr>el_Events_closed = False, el_Err = None,
                el_subs = [\<lparr>es_Events = [], es_closed = False, es_Err = None\<rparr>],
                el_forwarders = [AtReceive], el_handed = []\<rparr>
        ([] @ CallClose # [Forward 0])
       = \<lparr>el_Events_closed = False, el_Err = None,
          el_subs = [\<lparr>es_Events = [], es_closed = True, es_Err = None\<rparr>],
          el_forwarders = [Exited], el_handed = []\<rparr>
   \<and> \<not> el_Events_closed
        (sched_run \<lparr>el_Events_closed = False, el_Err = None,
                    el_subs = [\<lparr>es_Events = [], es_closed = False, es_Err = None\<rparr>],
                    el_forwarders = [AtReceive], el_handed = []\<rparr>
           ([] @ CallClose # [Forward 0]))
   \<and> el_forwarders
        (sched_run \<lparr>el_Events_closed = False, el_Err = None,
                    el_subs = [\<lparr>es_Events = [], es_closed = False, es_Err = None\<rparr>],
                    el_forwarders = [AtReceive], el_handed = []\<rparr>
           ([Deliver 0 (ex_event 7 EventTypeScaleRequest ''ps1''), Forward 0]
              @ CallClose # [Forward 0, Forward 0]))
       = [AtSend (ex_event 7 EventTypeScaleRequest ''ps1'')]"
proof -
  let ?e = "\<lparr>el_Events_closed = False, el_Err = None,
             el_subs = [\<lparr>es_Events = [], es_closed = False, es_Err = None\<rparr>],
             el_forwarders = [AtReceive], el_handed = []\<rparr>"
  have h: "subscribeEvents None ex_Subscribe [''a1''] [EventTypeScaleRequest] [] = Inr ?e"
    by (simp add: subscribeEvents_def ex_Subscribe_def)
  have r1: "sched_run ?e ([] @ CallClose # [Forward 0])
       = \<lparr>el_Events_closed = False, el_Err = None,
          el_subs = [\<lparr>es_Events = [], es_closed = True, es_Err = None\<rparr>],
          el_forwarders = [Exited], el_handed = []\<rparr>"
    by (simp add: sched_run_def EventListener_Close_def forwarder_step_def)
  have r2: "el_forwarders
        (sched_run ?e
           ([Deliver 0 (ex_event 7 EventTypeScaleRequest ''ps1''), Forward 0]
              @ CallClose # [Forward 0, Forward 0]))
       = [AtSend (ex_event 7 EventTypeScaleRequest ''ps1'')]"
    by (simp add: sched_run_def EventListener_Close_def forwarder_step_def)
  from Close_leaves_merged_channel_open [where before = "[]" and after = "[Forward 0]",
         OF h, THEN conjunct1]
  have "\<not> el_Events_closed (sched_run ?e ([] @ CallClose # [Forward 0]))" .
  with h r1 r2 show ?thesis by blast
qed

section \<open>C3: what CreateScale returns after a complete event\<close>

text \<open>
  Claim C3, as amended. With the subscription open, its error cell nil and the scale
  request inserted, when the wait loop of \<^verbatim>\<open>createScale\<close> receives a scale-request
  event of the inserted id whose state is complete, \<^verbatim>\<open>createScale\<close> returns the
  conversion of the record as the insert left it. The event's payload is parsed into a
  variable of the loop and never copied into that record, so the returned state is the
  one of the inserted record, which the handler built as pending.
\<close>

theorem createScale_returns_inserted_request:
  assumes "subscribe [pid (csq_Parent req) ''apps''] [EventTypeScaleRequest] [] = Inr sub"
    and "sub_Err sub = None"
    and "AddScaleRequest
           \<lparr>csr_ID = [], csr_AppID = pid (csq_Parent req) ''apps'',
            csr_ReleaseID = pid (csq_Parent req) ''releases'',
            csr_State = ScaleRequestStatePending,
            csr_NewProcesses = Some (parseDeploymentProcesses (csq_Processes req)),
            csr_NewTags = Some (parseDeploymentTags (csq_Tags req))\<rparr> = Inr scaleReq"
    and "\<forall>p \<in> set pre. \<exists>e. p = SelectRecv (Received e)
            \<and> \<not> (ev_ObjectType e = EventTypeScaleRequest
                 \<and> (\<exists>r. ju (ev_Data e) = Inr r \<and> csr_ID r = csr_ID scaleReq
                        \<and> (csr_State r = ScaleRequestStateCancelled
                             \<or> csr_State r = ScaleRequestStateComplete)))"
    and "ev_ObjectType event = EventTypeScaleRequest"
    and "ju (ev_Data event) = Inr completed"
    and "csr_ID completed = csr_ID scaleReq"
    and "csr_State completed = ScaleRequestStateComplete"
  shows "createScale pid subscribe AddScaleRequest ju conv cerr secs req
           (pre @ SelectRecv (Received event) # rest)
         = Some (Inr (conv scaleReq))"
proof -
  have s: "\<forall>p \<in> set pre. createScale_wait ju secs (csr_ID scaleReq) [p] = None"
    using assms(4) by (simp add: createScale_wait_continues)
  have e: "createScale_wait ju secs (csr_ID scaleReq) [SelectRecv (Received event)]
             = Some BreakOuter"
    using assms(5-8) by (simp add: createScale_wait_complete)
  from s e have "\<exists>pre' x rest'.
      pre @ SelectRecv (Received event) # rest = pre' @ x # rest'
      \<and> (\<forall>p \<in> set pre'. createScale_wait ju secs (csr_ID scaleReq) [p] = None)
      \<and> createScale_wait ju secs (csr_ID scaleReq) [x] = Some BreakOuter"
    by blast
  then have "createScale_wait ju secs (csr_ID scaleReq)
               (pre @ SelectRecv (Received event) # rest) = Some BreakOuter"
    by (rule createScale_wait_first_end [THEN iffD2])
  then show ?thesis
    by (simp add: createScale_after_setup [where subscribe = subscribe and pid = pid
          and req = req and AddScaleRequest = AddScaleRequest, OF assms(1-3)])
qed

theorem createScale_returns_inserted_request_witness:
  "ex_subscribe [ex_ParseIDFromName (csq_Parent ex_CreateScaleRequest) ''apps'']
     [EventTypeScaleRequest] [] = Inr \<lparr>sub_Err = None\<rparr>
   \<and> ex_jsonScaleRequest (ev_Data (ex_event 4 EventTypeScaleRequest ''cs1''))
       = Inr \<lparr>csr_ID = ''s1'', csr_AppID = ''a1'', csr_ReleaseID = ''r1'',
               csr_State = ScaleRequestStateComplete, csr_NewProcesses = None,
               csr_NewTags = None\<rparr>
   \<and> createScale ex_ParseIDFromName ex_subscribe ex_AddScaleRequest ex_jsonScaleRequest
        ex_ConvertScaleRequest (\<lambda>err. err) ''600'' ex_CreateScaleRequest
        ([SelectRecv (Received (ex_event 3 EventTypeScaleRequest ''ps1''))]
           @ SelectRecv (Received (ex_event 4 EventTypeScaleRequest ''cs1'')) # [])
       = Some (Inr (ex_ConvertScaleRequest
                      \<lparr>csr_ID = ''s1'', csr_AppID = ''a1'', csr_ReleaseID = ''r1'',
                       csr_State = ScaleRequestStatePending,
                       csr_NewProcesses = Some [(''web'', 3)], csr_NewTags = Some []\<rparr>))"
proof -
  let ?done = "\<lparr>csr_ID = ''s1'', csr_AppID = ''a1'', csr_ReleaseID = ''r1'',
                csr_State = ScaleRequestStateComplete, csr_NewProcesses = None,
                csr_NewTags = None\<rparr>"
  have h2: "sub_Err \<lparr>sub_Err = None\<rparr> = None" by simp
  have h5: "ev_ObjectType (ex_event 4 EventTypeScaleRequest ''cs1'') = EventTypeScaleRequest"
    by (simp add: ex_event_def)
  have h6: "ex_jsonScaleRequest (ev_Data (ex_event 4 EventTypeScaleRequest ''cs1''))
              = Inr ?done"
    by (simp add: ex_jsonScaleRequest_def ex_event_def)
  have h7: "csr_ID ?done = csr_ID \<lparr>csr_ID = ''s1'', csr_AppID = ''a1'',
                                   csr_ReleaseID = ''r1'',
                                   csr_State = ScaleRequestStatePending,
                                   csr_NewProcesses = Some [(''web'', 3)],
                                   csr_NewTags = Some []\<rparr>" by simp
  have h8: "csr_State ?done = ScaleRequestStateComplete" by simp
  from createScale_returns_inserted_request [where subscribe = ex_subscribe
         and pid = ex_ParseIDFromName and req = ex_CreateScaleRequest
         and AddScaleRequest = ex_AddScaleRequest and ju = ex_jsonScaleRequest
         and conv = ex_ConvertScaleRequest and cerr = "\<lambda>err. err" and secs = "''600''"
         and rest = "[]",
         OF ex_createScale_subscribed h2 ex_createScale_inserted
            ex_createScale_pending_skipped h5 h6 h7 h8]
  show ?thesis using ex_createScale_subscribed h6 by blast
qed

text \<open>
  Claim C3 as stated says that the returned scale request has state complete. With a store
  that fills in the id and a converter that maps states one to one, the request returned
  after the complete event is still pending.
\<close>

theorem createScale_returns_pending_counterexample:
  "ex_jsonScaleRequest (ev_Data (ex_event 4 EventTypeScaleRequest ''cs1''))
     = Inr \<lparr>csr_ID = ''s1'', csr_AppID = ''a1'', csr_ReleaseID = ''r1'',
             csr_State = ScaleRequestStateComplete, csr_NewProcesses = None,
             csr_NewTags = None\<rparr>
   \<and> createScale ex_ParseIDFromName ex_subscribe ex_AddScaleRequest ex_jsonScaleRequest
        ex_ConvertScaleRequest (\<lambda>err. err) ''600'' ex_CreateScaleRequest
        [SelectRecv (Received (ex_event 4 EventTypeScaleRequest ''cs1''))]
       = Some (Inr \<lparr>sr_Name = ''apps/a1/releases/r1/scale/s1'', sr_State = SCALE_PENDING\<rparr>)"
  by (simp add: ex_createScale_defs)

section \<open>C4: how CreateScale fails\<close>

text \<open>
  Claim C4, as amended. With the subscription open, its error cell nil and the scale
  request inserted, \<^verbatim>\<open>createScale\<close> fails with the message
  \<open>scale request cancelled\<close> exactly when the first outcome that ends its wait loop is a
  scale-request event of the inserted id whose state is cancelled, and fails with the
  message \<open>timed out waiting for scale to complete (waited N seconds)\<close>, N being
  \<^verbatim>\<open>DefaultScaleTimeout\<close> in seconds, exactly when the first outcome that ends the loop
  is the expiry of the timeout.
\<close>

theorem createScale_failure_causes:
  assumes "subscribe [pid (csq_Parent req) ''apps''] [EventTypeScaleRequest] [] = Inr sub"
    and "sub_Err sub = None"
    and "AddScaleRequest
           \<lparr>csr_ID = [], csr_AppID = pid (csq_Parent req) ''apps'',
            csr_ReleaseID = pid (csq_Parent req) ''releases'',
            csr_State = ScaleRequestStatePending,
            csr_NewProcesses = Some (parseDeploymentProcesses (csq_Processes req)),
            csr_NewTags = Some (parseDeploymentTags (csq_Tags req))\<rparr> = Inr scaleReq"
  shows "(createScale pid subscribe AddScaleRequest ju conv cerr secs req outcomes
            = Some (Inl (PlainError ''scale request cancelled''))
          \<longleftrightarrow> (\<exists>pre event r rest.
                 outcomes = pre @ SelectRecv (Received event) # rest
                 \<and> (\<forall>p \<in> set pre. \<exists>e. p = SelectRecv (Received e)
                       \<and> \<not> (ev_ObjectType e = EventTypeScaleRequest
                            \<and> (\<exists>r. ju (ev_Data e) = Inr r \<and> csr_ID r = csr_ID scaleReq
                                   \<and> (csr_State r = ScaleRequestStateCancelled
                                        \<or> csr_State r = ScaleRequestStateComplete))))
                 \<and> ev_ObjectType event = EventTypeScaleRequest
                 \<and> ju (ev_Data event) = Inr r \<and> csr_ID r = csr_ID scaleReq
                 \<and> csr_State r = ScaleRequestStateCancelled))
       \<and> (createScale pid subscribe AddScaleRequest ju conv cerr secs req outcomes
            = Some (Inl (PlainError
                (''timed out waiting for scale to complete (waited '' @ secs
                   @ '' seconds)'')))
          \<longleftrightarrow> (\<exists>pre rest.
                 outcomes = pre @ SelectTimeout # rest
                 \<and> (\<forall>p \<in> set pre. \<exists>e. p = SelectRecv (Received e)
                       \<and> \<not> (ev_ObjectType e = EventTypeScaleRequest
                            \<and> (\<exists>r. ju (ev_Data e) = Inr r \<and> csr_ID r = csr_ID scaleReq
                                   \<and> (csr_State r = ScaleRequestStateCancelled
                                        \<or> csr_State r = ScaleRequestStateComplete))))))"
proof -
  note run = createScale_after_setup [where subscribe = subscribe and pid = pid
      and req = req and AddScaleRequest = AddScaleRequest and ju = ju and conv = conv
      and cerr = cerr and secs = secs and outcomes = outcomes, OF assms]
  let ?w = "createScale_wait ju secs (csr_ID scaleReq)"
  let ?C = "PlainError ''scale request cancelled''"
  let ?T = "PlainError (''timed out waiting for scale to complete (waited '' @ secs
                          @ '' seconds)'')"
  have c1: "createScale pid subscribe AddScaleRequest ju conv cerr secs req outcomes
              = Some (Inl ?C) \<longleftrightarrow> ?w outcomes = Some (ReturnError ?C)"
    unfolding run by (auto split: option.splits wait_end.splits)
  have t1: "createScale pid subscribe AddScaleRequest ju conv cerr secs req outcomes
              = Some (Inl ?T) \<longleftrightarrow> ?w outcomes = Some (ReturnError ?T)"
    unfolding run by (auto split: option.splits wait_end.splits)
  have c2: "?w outcomes = Some (ReturnError ?C)
      \<longleftrightarrow> (\<exists>pre event r rest.
                 outcomes = pre @ SelectRecv (Received event) # rest
                 \<and> (\<forall>p \<in> set pre. \<exists>e. p = SelectRecv (Received e)
                       \<and> \<not> (ev_ObjectType e = EventTypeScaleRequest
                            \<and> (\<exists>r. ju (ev_Data e) = Inr r \<and> csr_ID r = csr_ID scaleReq
                                   \<and> (csr_State r = ScaleRequestStateCancelled
                                        \<or> csr_State r = ScaleRequestStateComplete))))
                 \<and> ev_ObjectType event = EventTypeScaleRequest
                 \<and> ju (ev_Data event) = Inr r \<and> csr_ID r = csr_ID scaleReq
                 \<and> csr_State r = ScaleRequestStateCancelled)"
    unfolding createScale_wait_first_end [of ju secs "csr_ID scaleReq" outcomes]
    by (simp only: createScale_wait_continues createScale_wait_cancelled) blast
  have t2: "?w outcomes = Some (ReturnError ?T)
      \<longleftrightarrow> (\<exists>pre rest.
                 outcomes = pre @ SelectTimeout # rest
                 \<and> (\<forall>p \<in> set pre. \<exists>e. p = SelectRecv (Received e)
                       \<and> \<not> (ev_ObjectType e = EventTypeScaleRequest
                            \<and> (\<exists>r. ju (ev_Data e) = Inr r \<and> csr_ID r = csr_ID scaleReq
                                   \<and> (csr_State r = ScaleRequestStateCancelled
                                        \<or> csr_State r = ScaleRequestStateComplete)))))"
    unfolding createScale_wait_first_end [of ju secs "csr_ID scaleReq" outcomes]
    by (simp only: createScale_wait_continues createScale_wait_timed_out) blast
  from c1 c2 t1 t2 show ?thesis by simp
qed

theorem createScale_failure_causes_witness:
  "ex_subscribe [ex_ParseIDFromName (csq_Parent ex_CreateScaleRequest) ''apps'']
     [EventTypeScaleRequest] [] = Inr \<lparr>sub_Err = None\<rparr>
   \<and> createScale ex_ParseIDFromName ex_subscribe ex_AddScaleRequest ex_jsonScaleRequest
        ex_ConvertScaleRequest (\<lambda>err. err) ''600'' ex_CreateScaleRequest
        ([SelectRecv (Received (ex_event 3 EventTypeScaleRequest ''ps1''))]
           @ SelectRecv (Received (ex_event 4 EventTypeScaleRequest ''xs1'')) # [])
       = Some (Inl (PlainError ''scale request cancelled''))
   \<and> createScale ex_ParseIDFromName ex_subscribe ex_AddScaleRequest ex_jsonScaleRequest
        ex_ConvertScaleRequest (\<lambda>err. err) ''600'' ex_CreateScaleRequest
        ([SelectRecv (Received (ex_event 3 EventTypeScaleRequest ''ps1''))]
           @ SelectTimeout # [])
       = Some (Inl (PlainError
           (''timed out waiting for scale to complete (waited '' @ ''600'' @ '' seconds)'')))"
proof -
  let ?ins = "\<lparr>csr_ID = ''s1'', csr_AppID = ''a1'', csr_ReleaseID = ''r1'',
               csr_State = ScaleRequestStatePending,
               csr_NewProcesses = Some [(''web'', 3)], csr_NewTags = Some []\<rparr>"
  let ?x = "\<lparr>csr_ID = ''s1'', csr_AppID = ''a1'', csr_ReleaseID = ''r1'',
             csr_State = ScaleRequestStateCancelled, csr_NewProcesses = None,
             csr_NewTags = None\<rparr>"
  have h2: "sub_Err \<lparr>sub_Err = None\<rparr> = None" by simp
  note t = createScale_failure_causes [where subscribe = ex_subscribe
         and pid = ex_ParseIDFromName and req = ex_CreateScaleRequest
         and AddScaleRequest = ex_AddScaleRequest and ju = ex_jsonScaleRequest
         and conv = ex_ConvertScaleRequest and cerr = "\<lambda>err. err" and secs = "''600''",
         OF ex_createScale_subscribed h2 ex_createScale_inserted]
  have x5: "ev_ObjectType (ex_event 4 EventTypeScaleRequest ''xs1'') = EventTypeScaleRequest"
    by (simp add: ex_event_def)
  have x6: "ex_jsonScaleRequest (ev_Data (ex_event 4 EventTypeScaleRequest ''xs1'')) = Inr ?x"
    by (simp add: ex_jsonScaleRequest_def ex_event_def)
  have x7: "csr_ID ?x = csr_ID ?ins" by simp
  have x8: "csr_State ?x = ScaleRequestStateCancelled" by simp
  have cancelled: "createScale ex_ParseIDFromName ex_subscribe ex_AddScaleRequest
        ex_jsonScaleRequest ex_ConvertScaleRequest (\<lambda>err. err) ''600'' ex_CreateScaleRequest
        ([SelectRecv (Received (ex_event 3 EventTypeScaleRequest ''ps1''))]
           @ SelectRecv (Received (ex_event 4 EventTypeScaleRequest ''xs1'')) # [])
       = Some (Inl (PlainError ''scale request cancelled''))"
    using t [THEN conjunct1, THEN iffD2] ex_createScale_pending_skipped x5 x6 x7 x8
    by blast
  have timed_out: "createScale ex_ParseIDFromName ex_subscribe ex_AddScaleRequest
        ex_jsonScaleRequest ex_ConvertScaleRequest (\<lambda>err. err) ''600'' ex_CreateScaleRequest
        ([SelectRecv (Received (ex_event 3 EventTypeScaleRequest ''ps1''))]
           @ SelectTimeout # [])
       = Some (Inl (PlainError
           (''timed out waiting for scale to complete (waited '' @ ''600'' @ '' seconds)'')))"
    using t [THEN conjunct2, THEN iffD2] ex_createScale_pending_skipped
    by blast
  from ex_createScale_subscribed cancelled timed_out show ?thesis by blast
qed

text \<open>
  Claim C4 as stated gives the two failures the status codes precondition-failed and
  deadline-exceeded, and makes the timeout the outcome of every call in which no matching
  terminal event arrives. The error returned after a cancelled event is built by
  \<^verbatim>\<open>errors.New\<close> and carries no status code; and a call whose insert fails returns the
  insert's error at once, though no matching event arrives and the timeout is all that
  could still happen.
\<close>

theorem createScale_error_causes_counterexample:
  "createScale ex_ParseIDFromName ex_subscribe ex_AddScaleRequest ex_jsonScaleRequest
     ex_ConvertScaleRequest (\<lambda>err. err) ''600'' ex_CreateScaleRequest
     [SelectRecv (Received (ex_event 4 EventTypeScaleRequest ''xs1''))]
     = Some (Inl (PlainError ''scale request cancelled''))
   \<and> PlainError ''scale request cancelled''
       \<noteq> StatusError FailedPrecondition ''scale request cancelled''
   \<and> createScale ex_ParseIDFromName ex_subscribe ex_AddScaleRequest_fails
        ex_jsonScaleRequest ex_ConvertScaleRequest (\<lambda>err. err) ''600'' ex_CreateScaleRequest
        [SelectTimeout]
       = Some (Inl (PlainError ''insert failed''))"
  by (simp add: ex_createScale_defs)

section \<open>C5: prepending dedupes by name\<close>

text \<open>
  Claim C5. In the handlers that keep an in-memory list, prepending an item of name N
  leaves exactly one element of name N in the list, at index 0, and the elements of
  other names keep their relative order. For \<^verbatim>\<open>StreamScales\<close> this is every
  successful \<^const>\<open>prependScaleRequest\<close>; for \<^verbatim>\<open>StreamReleases\<close> it is
  \<^const>\<open>maybePrependRelease\<close> on an event that \<^const>\<open>maybeAcceptRelease\<close> accepts.
\<close>

theorem prepend_dedup_by_name:
  "(prependScaleRequest ju conv event srs = Inr srs' \<longrightarrow>
      (\<exists>req. unmarshalScaleRequest ju conv event = Inr req
         \<and> srs' \<noteq> [] \<and> srs' ! 0 = req
         \<and> (\<forall>i < length srs'. (sr_Name (srs' ! i) = sr_Name req) = (i = 0))
         \<and> filter (\<lambda>sr. sr_Name sr \<noteq> sr_Name req) srs'
             = filter (\<lambda>sr. sr_Name sr \<noteq> sr_Name req) srs))
   \<and> (maybeAcceptRelease jr convr m appIDs releaseIDs lf event = Inr (Some r) \<longrightarrow>
      (\<exists>rels'. maybePrependRelease jr convr m appIDs releaseIDs lf event rels = Inr rels'
         \<and> rels' \<noteq> [] \<and> rels' ! 0 = r
         \<and> (\<forall>i < length rels'. (rel_Name (rels' ! i) = rel_Name r) = (i = 0))
         \<and> filter (\<lambda>sr. rel_Name sr \<noteq> rel_Name r) rels'
             = filter (\<lambda>sr. rel_Name sr \<noteq> rel_Name r) rels))"
proof (intro conjI impI)
  assume "prependScaleRequest ju conv event srs = Inr srs'"
  then obtain req where u: "unmarshalScaleRequest ju conv event = Inr req"
    and s: "srs' = req # filter (\<lambda>sr. sr_Name sr \<noteq> sr_Name req) srs"
    using prependScaleRequest_Inr by blast
  have "\<forall>i < length srs'. (sr_Name (srs' ! i) = sr_Name req) = (i = 0)"
    unfolding s using dedup_index [where f = sr_Name and x = req and xs = srs] by blast
  with u s show "\<exists>req. unmarshalScaleRequest ju conv event = Inr req
         \<and> srs' \<noteq> [] \<and> srs' ! 0 = req
         \<and> (\<forall>i < length srs'. (sr_Name (srs' ! i) = sr_Name req) = (i = 0))
         \<and> filter (\<lambda>sr. sr_Name sr \<noteq> sr_Name req) srs'
             = filter (\<lambda>sr. sr_Name sr \<noteq> sr_Name req) srs"
    by simp
next
  assume a: "maybeAcceptRelease jr convr m appIDs releaseIDs lf event = Inr (Some r)"
  let ?rels = "r # filter (\<lambda>sr. rel_Name sr \<noteq> rel_Name r) rels"
  have p: "maybePrependRelease jr convr m appIDs releaseIDs lf event rels = Inr ?rels"
    using a by (rule maybePrependRelease_accepted)
  have "\<forall>i < length ?rels. (rel_Name (?rels ! i) = rel_Name r) = (i = 0)"
    using dedup_index [where f = rel_Name and x = r and xs = rels] by blast
  with p show "\<exists>rels'. maybePrependRelease jr convr m appIDs releaseIDs lf event rels = Inr rels'
         \<and> rels' \<noteq> [] \<and> rels' ! 0 = r
         \<and> (\<forall>i < length rels'. (rel_Name (rels' ! i) = rel_Name r) = (i = 0))
         \<and> filter (\<lambda>sr. rel_Name sr \<noteq> rel_Name r) rels'
             = filter (\<lambda>sr. rel_Name sr \<noteq> rel_Name r) rels"
    by simp
qed

theorem prepend_dedup_by_name_witness:
  "prependScaleRequest ex_jsonScaleRequest ex_ConvertScaleRequest
       (ex_event 7 EventTypeScaleRequest ''cs2'')
       [\<lparr>sr_Name = ''apps/a1/releases/r1/scale/s1'', sr_State = SCALE_PENDING\<rparr>,
        \<lparr>sr_Name = ''apps/a1/releases/r1/scale/s2'', sr_State = SCALE_PENDING\<rparr>,
        \<lparr>sr_Name = ''apps/a1/releases/r1/scale/s3'', sr_State = SCALE_PENDING\<rparr>]
     = Inr [\<lparr>sr_Name = ''apps/a1/releases/r1/scale/s2'', sr_State = SCALE_COMPLETE\<rparr>,
            \<lparr>sr_Name = ''apps/a1/releases/r1/scale/s1'', sr_State = SCALE_PENDING\<rparr>,
            \<lparr>sr_Name = ''apps/a1/releases/r1/scale/s3'', sr_State = SCALE_PENDING\<rparr>]
   \<and> (\<exists>req. unmarshalScaleRequest ex_jsonScaleRequest ex_ConvertScaleRequest
               (ex_event 7 EventTypeScaleRequest ''cs2'') = Inr req
          \<and> [\<lparr>sr_Name = ''apps/a1/releases/r1/scale/s2'', sr_State = SCALE_COMPLETE\<rparr>,
              \<lparr>sr_Name = ''apps/a1/releases/r1/scale/s1'', sr_State = SCALE_PENDING\<rparr>,
              \<lparr>sr_Name = ''apps/a1/releases/r1/scale/s3'', sr_State = SCALE_PENDING\<rparr>] ! 0
             = req)
   \<and> maybeAcceptRelease ex_jsonRelease ex_ConvertRelease ex_MatchLabelFilters [] [] ()
        (ex_event 7 EventTypeRelease ''r2'')
       = Inr (Some \<lparr>rel_Name = ''apps/a1/releases/r2'', rel_Labels = []\<rparr>)
   \<and> (\<exists>rels'. maybePrependRelease ex_jsonRelease ex_ConvertRelease ex_MatchLabelFilters
                 [] [] () (ex_event 7 EventTypeRelease ''r2'')
                 [\<lparr>rel_Name = ''apps/a1/releases/r1'', rel_Labels = []\<rparr>,
                  \<lparr>rel_Name = ''apps/a1/releases/r2'', rel_Labels = []\<rparr>] = Inr rels'
          \<and> rels' ! 0 = \<lparr>rel_Name = ''apps/a1/releases/r2'', rel_Labels = []\<rparr>
          \<and> filter (\<lambda>sr. rel_Name sr \<noteq> ''apps/a1/releases/r2'') rels'
              = [\<lparr>rel_Name = ''apps/a1/releases/r1'', rel_Labels = []\<rparr>])"
proof -
  have h1: "prependScaleRequest ex_jsonScaleRequest ex_ConvertScaleRequest
       (ex_event 7 EventTypeScaleRequest ''cs2'')
       [\<lparr>sr_Name = ''apps/a1/releases/r1/scale/s1'', sr_State = SCALE_PENDING\<rparr>,
        \<lparr>sr_Name = ''apps/a1/releases/r1/scale/s2'', sr_State = SCALE_PENDING\<rparr>,
        \<lparr>sr_Name = ''apps/a1/releases/r1/scale/s3'', sr_State = SCALE_PENDING\<rparr>]
     = Inr [\<lparr>sr_Name = ''apps/a1/releases/r1/scale/s2'', sr_State = SCALE_COMPLETE\<rparr>,
            \<lparr>sr_Name = ''apps/a1/releases/r1/scale/s1'', sr_State = SCALE_PENDING\<rparr>,
            \<lparr>sr_Name = ''apps/a1/releases/r1/scale/s3'', sr_State = SCALE_PENDING\<rparr>]"
    by (simp add: prependScaleRequest_def unmarshalScaleRequest_def ex_jsonScaleRequest_def
          ex_ConvertScaleRequest_def ex_event_def)
  have h2: "maybeAcceptRelease ex_jsonRelease ex_ConvertRelease ex_MatchLabelFilters [] [] ()
        (ex_event 7 EventTypeRelease ''r2'')
       = Inr (Some \<lparr>rel_Name = ''apps/a1/releases/r2'', rel_Labels = []\<rparr>)"
    by (simp add: maybeAcceptRelease_def unmarshalRelease_def ex_jsonRelease_def
          ex_ConvertRelease_def ex_event_def ex_MatchLabelFilters_def)
  have s: "\<exists>req. unmarshalScaleRequest ex_jsonScaleRequest ex_ConvertScaleRequest
               (ex_event 7 EventTypeScaleRequest ''cs2'') = Inr req
          \<and> [\<lparr>sr_Name = ''apps/a1/releases/r1/scale/s2'', sr_State = SCALE_COMPLETE\<rparr>,
              \<lparr>sr_Name = ''apps/a1/releases/r1/scale/s1'', sr_State = SCALE_PENDING\<rparr>,
              \<lparr>sr_Name = ''apps/a1/releases/r1/scale/s3'', sr_State = SCALE_PENDING\<rparr>] ! 0
             = req"
    using prepend_dedup_by_name [THEN conjunct1, rule_format, OF h1] by blast
  have r: "\<exists>rels'. maybePrependRelease ex_jsonRelease ex_ConvertRelease ex_MatchLabelFilters
                 [] [] () (ex_event 7 EventTypeRelease ''r2'')
                 [\<lparr>rel_Name = ''apps/a1/releases/r1'', rel_Labels = []\<rparr>,
                  \<lparr>rel_Name = ''apps/a1/releases/r2'', rel_Labels = []\<rparr>] = Inr rels'
          \<and> rels' ! 0 = \<lparr>rel_Name = ''apps/a1/releases/r2'', rel_Labels = []\<rparr>
          \<and> filter (\<lambda>sr. rel_Name sr \<noteq> ''apps/a1/releases/r2'') rels'
              = [\<lparr>rel_Name = ''apps/a1/releases/r1'', rel_Labels = []\<rparr>]"
    using prepend_dedup_by_name [THEN conjunct2, rule_format, OF h2,
            where rels = "[\<lparr>rel_Name = ''apps/a1/releases/r1'', rel_Labels = []\<rparr>,
                           \<lparr>rel_Name = ''apps/a1/releases/r2'', rel_Labels = []\<rparr>]"]
    by auto
  from h1 s h2 r show ?thesis by blast
qed

section \<open>C6: the next-page token of StreamReleases\<close>

lemma go_int_add_1: "- (2 ^ 63) \<le> p \<Longrightarrow> p < 2 ^ 63 - 1 \<Longrightarrow> go_int_add p 1 = p + 1"
  by (simp add: go_int_add_def)

lemma StreamReleases_listed_token:
  "rs_nextPageToken (StreamReleases_listed ju conv m appIDs releaseIDs lf st ev)
     = rs_nextPageToken st"
  by (simp add: StreamReleases_listed_def Let_def split: sum.splits)

lemma StreamReleases_listed_fold_token:
  "rs_nextPageToken (foldl (StreamReleases_listed ju conv m appIDs releaseIDs lf) st xs)
     = rs_nextPageToken st"
  by (induction xs arbitrary: st) (simp_all add: StreamReleases_listed_token)

lemma StreamReleases_window_full:
  assumes "0 < pageSize" and "pageSize < 2 ^ 63 - 1" and "int (length list) = pageSize + 1"
  shows "butlast list \<noteq> []"
    and "StreamReleases_window pageSize list
           = Inr (butlast list,
                  Some \<lparr>pt_BeforeID = Some (fmt_d (ev_ID (hd (butlast list)))),
                        pt_Size = pageSize\<rparr>)"
proof -
  from assms have len: "2 \<le> length list" by linarith
  then show ne: "butlast list \<noteq> []" by (cases list) auto
  from assms have "go_int_add pageSize 1 = pageSize + 1" by (simp add: go_int_add_1)
  with assms ne show "StreamReleases_window pageSize list
           = Inr (butlast list,
                  Some \<lparr>pt_BeforeID = Some (fmt_d (ev_ID (hd (butlast list)))),
                        pt_Size = pageSize\<rparr>)"
    by (cases "butlast list") (auto simp: StreamReleases_window_def)
qed

lemma StreamReleases_window_short:
  assumes "0 < pageSize" and "pageSize < 2 ^ 63 - 1" and "int (length list) \<noteq> pageSize + 1"
  shows "StreamReleases_window pageSize list = Inr (list, None)"
proof -
  from assms have "go_int_add pageSize 1 = pageSize + 1" by (simp add: go_int_add_1)
  with assms show ?thesis by (simp add: StreamReleases_window_def)
qed

lemma fmt_d_6: "fmt_d 6 = ''6''"
  by code_simp

lemma fmt_d_2: "fmt_d 2 = ''2''"
  by code_simp


lemma StreamReleases_listed_releases:
  "rs_releases (StreamReleases_listed ju conv m appIDs releaseIDs lf st ev)
     = (case maybeAcceptRelease ju conv m appIDs releaseIDs lf ev of
          Inr (Some r) \<Rightarrow> r # filter (\<lambda>sr. rel_Name sr \<noteq> rel_Name r) (rs_releases st)
        | _ \<Rightarrow> rs_releases st)"
  by (simp add: StreamReleases_listed_def maybePrependRelease_def Let_def
        split: sum.splits option.splits)

lemma StreamReleases_listed_fold_sent:
  "set (rs_releases (foldl (StreamReleases_listed ju conv m appIDs releaseIDs lf) st xs))
     \<subseteq> set (rs_releases st)
         \<union> {r. \<exists>e \<in> set xs. maybeAcceptRelease ju conv m appIDs releaseIDs lf e = Inr (Some r)}"
proof (induction xs arbitrary: st)
  case Nil
  then show ?case by simp
next
  case (Cons x xs)
  have step: "set (rs_releases (StreamReleases_listed ju conv m appIDs releaseIDs lf st x))
      \<subseteq> set (rs_releases st)
          \<union> {r. maybeAcceptRelease ju conv m appIDs releaseIDs lf x = Inr (Some r)}"
    by (auto simp: StreamReleases_listed_releases split: sum.splits option.splits)
  from Cons.IH [of "StreamReleases_listed ju conv m appIDs releaseIDs lf st x"] step
  show ?case by auto
qed

lemma StreamReleases_listed_fold_names:
  "rel_Name ` set (rs_releases
       (foldl (StreamReleases_listed ju conv m appIDs releaseIDs lf) st xs))
     = rel_Name ` set (rs_releases st)
         \<union> {rel_Name r | r. \<exists>e \<in> set xs.
               maybeAcceptRelease ju conv m appIDs releaseIDs lf e = Inr (Some r)}"
proof (induction xs arbitrary: st)
  case Nil
  then show ?case by simp
next
  case (Cons x xs)
  have step: "rel_Name ` set (rs_releases
                  (StreamReleases_listed ju conv m appIDs releaseIDs lf st x))
      = rel_Name ` set (rs_releases st)
          \<union> {rel_Name r | r.
                maybeAcceptRelease ju conv m appIDs releaseIDs lf x = Inr (Some r)}"
    by (auto simp: StreamReleases_listed_releases image_iff split: sum.splits option.splits)
  show ?case
    unfolding foldl_Cons
      Cons.IH [of "StreamReleases_listed ju conv m appIDs releaseIDs lf st x"] step
    by auto
qed

lemma StreamReleases_snapshot_walk:
  assumes "ListEvents eventAppIDs [EventTypeRelease] [] beforeID None
             (StreamReleases_count pageSize) = Inr list"
    and "StreamReleases_window pageSize list = Inr (window, tok)"
  shows "StreamReleases_snapshot ju conv m pts ListEvents eventAppIDs appIDs releaseIDs lf
           beforeID pageSize
         = Inr (foldl (StreamReleases_listed ju conv m appIDs releaseIDs lf)
                  \<lparr>rs_currID = (case beforeID of None \<Rightarrow> 0 | Some b \<Rightarrow> b),
                   rs_releases = [], rs_nextPageToken = tok\<rparr> (rev window),
                \<lparr>rr_Releases =
                   rs_releases
                     (foldl (StreamReleases_listed ju conv m appIDs releaseIDs lf)
                        \<lparr>rs_currID = (case beforeID of None \<Rightarrow> 0 | Some b \<Rightarrow> b),
                         rs_releases = [], rs_nextPageToken = tok\<rparr> (rev window)),
                 rr_NextPageToken = pts tok, rr_PageComplete = True\<rparr>)"
  using assms
  by (simp add: StreamReleases_snapshot_def Let_def StreamReleases_listed_fold_token)

text \<open>
  Claim C6, as amended. For a positive page size (below the largest \<^verbatim>\<open>int\<close>) the
  snapshot query of \<^verbatim>\<open>StreamReleases\<close> asks for \<open>pageSize + 1\<close> rows. Exactly when
  that many rows come back, the last row is dropped: the loop walks the rows before it
  only, oldest first, and the page sent holds releases accepted from those rows and no
  other, one for every name accepted there. The token sent with that page has
  \<^verbatim>\<open>beforeID\<close> equal to the id of the first element of the remaining window and size
  \<open>pageSize\<close>. Otherwise no row is dropped, all rows are walked, and the token is nil.
\<close>

theorem StreamReleases_next_page_token:
  assumes "0 < pageSize" and "pageSize < 2 ^ 63 - 1"
    and "ListEvents eventAppIDs [EventTypeRelease] [] beforeID None (pageSize + 1) = Inr list"
  shows "StreamReleases_count pageSize = pageSize + 1
       \<and> (\<exists>st response window.
             StreamReleases_snapshot ju conv m pts ListEvents eventAppIDs appIDs releaseIDs lf
               beforeID pageSize = Inr (st, response)
             \<and> rr_PageComplete response
             \<and> rr_NextPageToken response = pts (rs_nextPageToken st)
             \<and> rr_Releases response = rs_releases st
             \<and> st = foldl (StreamReleases_listed ju conv m appIDs releaseIDs lf)
                       \<lparr>rs_currID = (case beforeID of None \<Rightarrow> 0 | Some b \<Rightarrow> b),
                        rs_releases = [], rs_nextPageToken = rs_nextPageToken st\<rparr>
                       (rev window)
             \<and> (\<forall>r \<in> set (rr_Releases response). \<exists>e \<in> set window.
                    maybeAcceptRelease ju conv m appIDs releaseIDs lf e = Inr (Some r))
             \<and> (\<forall>e \<in> set window. \<forall>r.
                    maybeAcceptRelease ju conv m appIDs releaseIDs lf e = Inr (Some r)
                    \<longrightarrow> rel_Name r \<in> rel_Name ` set (rr_Releases response))
             \<and> (if int (length list) = pageSize + 1
                 then window = butlast list
                    \<and> butlast list \<noteq> []
                    \<and> StreamReleases_window pageSize list
                        = Inr (butlast list, rs_nextPageToken st)
                    \<and> rs_nextPageToken st
                        = Some \<lparr>pt_BeforeID = Some (fmt_d (ev_ID (hd (butlast list)))),
                                pt_Size = pageSize\<rparr>
                 else window = list
                    \<and> StreamReleases_window pageSize list = Inr (list, None)
                    \<and> rs_nextPageToken st = None))"
proof -
  have c: "StreamReleases_count pageSize = pageSize + 1"
    using assms(1,2) by (simp add: StreamReleases_count_def go_int_add_1)
  define window where
    "window = (if int (length list) = pageSize + 1 then butlast list else list)"
  define tok where
    "tok = (if int (length list) = pageSize + 1
            then Some \<lparr>pt_BeforeID = Some (fmt_d (ev_ID (hd (butlast list)))),
                       pt_Size = pageSize\<rparr>
            else None)"
  define st where
    "st = foldl (StreamReleases_listed ju conv m appIDs releaseIDs lf)
            \<lparr>rs_currID = (case beforeID of None \<Rightarrow> 0 | Some b \<Rightarrow> b),
             rs_releases = [], rs_nextPageToken = tok\<rparr> (rev window)"
  define response where
    "response = \<lparr>rr_Releases = rs_releases st, rr_NextPageToken = pts tok,
                 rr_PageComplete = True\<rparr>"
  have w: "StreamReleases_window pageSize list = Inr (window, tok)"
  proof (cases "int (length list) = pageSize + 1")
    case True
    with StreamReleases_window_full(2) [OF assms(1,2) True] show ?thesis
      by (simp add: window_def tok_def)
  next
    case False
    with StreamReleases_window_short [OF assms(1,2) False] show ?thesis
      by (simp add: window_def tok_def)
  qed
  have l: "ListEvents eventAppIDs [EventTypeRelease] [] beforeID None
             (StreamReleases_count pageSize) = Inr list"
    using assms(3) c by simp
  have snap: "StreamReleases_snapshot ju conv m pts ListEvents eventAppIDs appIDs releaseIDs
                lf beforeID pageSize = Inr (st, response)"
    unfolding st_def response_def
    by (rule StreamReleases_snapshot_walk [where ListEvents = ListEvents
          and eventAppIDs = eventAppIDs and beforeID = beforeID and pageSize = pageSize
          and list = list and window = window and tok = tok, OF l w])
  have t: "rs_nextPageToken st = tok"
    by (simp add: st_def StreamReleases_listed_fold_token)
  have sent: "\<forall>r \<in> set (rr_Releases response). \<exists>e \<in> set window.
                maybeAcceptRelease ju conv m appIDs releaseIDs lf e = Inr (Some r)"
    using StreamReleases_listed_fold_sent [of ju conv m appIDs releaseIDs lf
            "\<lparr>rs_currID = (case beforeID of None \<Rightarrow> 0 | Some b \<Rightarrow> b),
              rs_releases = [], rs_nextPageToken = tok\<rparr>" "rev window"]
    by (auto simp: response_def st_def)
  have kept: "\<forall>e \<in> set window. \<forall>r.
                maybeAcceptRelease ju conv m appIDs releaseIDs lf e = Inr (Some r)
                \<longrightarrow> rel_Name r \<in> rel_Name ` set (rr_Releases response)"
    using StreamReleases_listed_fold_names [of ju conv m appIDs releaseIDs lf
            "\<lparr>rs_currID = (case beforeID of None \<Rightarrow> 0 | Some b \<Rightarrow> b),
              rs_releases = [], rs_nextPageToken = tok\<rparr>" "rev window"]
    by (auto simp: response_def st_def)
  have walk: "st = foldl (StreamReleases_listed ju conv m appIDs releaseIDs lf)
                     \<lparr>rs_currID = (case beforeID of None \<Rightarrow> 0 | Some b \<Rightarrow> b),
                      rs_releases = [], rs_nextPageToken = rs_nextPageToken st\<rparr>
                     (rev window)"
    unfolding t by (simp add: st_def)
  have shape: "if int (length list) = pageSize + 1
                 then window = butlast list
                    \<and> butlast list \<noteq> []
                    \<and> StreamReleases_window pageSize list
                        = Inr (butlast list, rs_nextPageToken st)
                    \<and> rs_nextPageToken st
                        = Some \<lparr>pt_BeforeID = Some (fmt_d (ev_ID (hd (butlast list)))),
                                pt_Size = pageSize\<rparr>
                 else window = list
                    \<and> StreamReleases_window pageSize list = Inr (list, None)
                    \<and> rs_nextPageToken st = None"
  proof (cases "int (length list) = pageSize + 1")
    case True
    with StreamReleases_window_full [OF assms(1,2) True] t show ?thesis
      by (simp add: window_def tok_def)
  next
    case False
    with StreamReleases_window_short [OF assms(1,2) False] t show ?thesis
      by (simp add: window_def tok_def)
  qed
  have r: "rr_PageComplete response" "rr_NextPageToken response = pts (rs_nextPageToken st)"
    "rr_Releases response = rs_releases st"
    by (simp_all add: response_def t)
  from c snap r walk sent kept shape show ?thesis by blast
qed


lemma ex_release_walk:
  "rs_releases
     (foldl (StreamReleases_listed ex_jsonRelease ex_ConvertRelease ex_MatchLabelFilters
               [] [] ())
        \<lparr>rs_currID = 0, rs_releases = [], rs_nextPageToken = tok\<rparr>
        (rev (butlast ex_release_rows)))
   = [ex_ConvertRelease ''r3'', ex_ConvertRelease ''r2'']"
  by (simp add: ex_release_rows_def ex_event_def StreamReleases_listed_def
        maybePrependRelease_def maybeAcceptRelease_def unmarshalRelease_def
        ex_jsonRelease_def ex_ConvertRelease_def ex_MatchLabelFilters_def Let_def)

theorem StreamReleases_next_page_token_witness:
  "(0::int) < 2 \<and> (2::int) < 2 ^ 63 - 1
   \<and> ex_ListEvents ex_release_rows [] [EventTypeRelease] [] None None (2 + 1)
       = Inr ex_release_rows
   \<and> StreamReleases_count 2 = 2 + 1
   \<and> (\<exists>st response.
         StreamReleases_snapshot ex_jsonRelease ex_ConvertRelease ex_MatchLabelFilters
           ex_PageTokenString (ex_ListEvents ex_release_rows) [] [] [] () None 2
           = Inr (st, response)
         \<and> rr_NextPageToken response = ''6:2''
         \<and> rs_nextPageToken st = Some \<lparr>pt_BeforeID = Some ''6'', pt_Size = 2\<rparr>
         \<and> rr_Releases response = [ex_ConvertRelease ''r3'', ex_ConvertRelease ''r2''])"
proof -
  have h1: "(0::int) < 2" by simp
  have h2: "(2::int) < 2 ^ 63 - 1" by simp
  have h3: "ex_ListEvents ex_release_rows [] [EventTypeRelease] [] None None (2 + 1)
              = Inr ex_release_rows"
    by (simp add: ex_ListEvents_def ex_release_rows_def ex_event_def)
  have len: "int (length ex_release_rows) = 2 + 1" by (simp add: ex_release_rows_def)
  have hd: "fmt_d (ev_ID (hd (butlast ex_release_rows))) = ''6''"
    by (simp add: ex_release_rows_def ex_event_def fmt_d_6)
  note run = StreamReleases_next_page_token [where ju = ex_jsonRelease
         and conv = ex_ConvertRelease and m = ex_MatchLabelFilters
         and pts = ex_PageTokenString and appIDs = "[]" and releaseIDs = "[]" and lf = "()"
         and ListEvents = "ex_ListEvents ex_release_rows" and eventAppIDs = "[]"
         and beforeID = None and pageSize = 2 and list = ex_release_rows, OF h1 h2 h3]
  from run [THEN conjunct2] obtain st response window where
    snap: "StreamReleases_snapshot ex_jsonRelease ex_ConvertRelease ex_MatchLabelFilters
             ex_PageTokenString (ex_ListEvents ex_release_rows) [] [] [] () None 2
           = Inr (st, response)"
    and tk: "rr_NextPageToken response = ex_PageTokenString (rs_nextPageToken st)"
    and sent: "rr_Releases response = rs_releases st"
    and walk: "st = foldl (StreamReleases_listed ex_jsonRelease ex_ConvertRelease
                             ex_MatchLabelFilters [] [] ())
                      \<lparr>rs_currID = (case None of None \<Rightarrow> 0 | Some b \<Rightarrow> b),
                       rs_releases = [], rs_nextPageToken = rs_nextPageToken st\<rparr>
                      (rev window)"
    and shape: "if int (length ex_release_rows) = 2 + 1
                 then window = butlast ex_release_rows
                    \<and> butlast ex_release_rows \<noteq> []
                    \<and> StreamReleases_window 2 ex_release_rows
                        = Inr (butlast ex_release_rows, rs_nextPageToken st)
                    \<and> rs_nextPageToken st
                        = Some \<lparr>pt_BeforeID = Some (fmt_d (ev_ID (hd (butlast ex_release_rows)))),
                                pt_Size = 2\<rparr>
                 else window = ex_release_rows
                    \<and> StreamReleases_window 2 ex_release_rows = Inr (ex_release_rows, None)
                    \<and> rs_nextPageToken st = None"
    by blast
  from shape len hd have w: "window = butlast ex_release_rows"
    and t: "rs_nextPageToken st = Some \<lparr>pt_BeforeID = Some ''6'', pt_Size = 2\<rparr>"
    by simp_all
  have "rs_releases st = [ex_ConvertRelease ''r3'', ex_ConvertRelease ''r2'']"
    by (subst walk) (simp add: w ex_release_walk)
  with sent have r: "rr_Releases response
                       = [ex_ConvertRelease ''r3'', ex_ConvertRelease ''r2'']"
    by simp
  from tk t have k: "rr_NextPageToken response = ''6:2''"
    by (simp add: ex_PageTokenString_def fmt_d_2)
  from run [THEN conjunct1] h1 h2 h3 snap k t r show ?thesis by blast
qed

text \<open>
  Claim C6 as stated covers every page size. With page size 0 the count passed to the
  query is 0, not \<open>pageSize + 1 = 1\<close>; and of three rows returned, which is not
  \<open>pageSize + 1\<close> rows, the last is dropped and a token is set.
\<close>

theorem StreamReleases_page_size_zero_counterexample:
  "StreamReleases_count 0 = 0
   \<and> ex_ListEvents ex_release_rows [] [EventTypeRelease] [] None None (StreamReleases_count 0)
       = Inr ex_release_rows
   \<and> int (length ex_release_rows) \<noteq> 0 + 1
   \<and> StreamReleases_window 0 ex_release_rows
       = Inr ([ex_event 6 EventTypeRelease ''r3'', ex_event 4 EventTypeRelease ''r2''],
              Some \<lparr>pt_BeforeID = Some ''6'', pt_Size = 0\<rparr>)"
  by (simp add: StreamReleases_count_def ex_ListEvents_def ex_release_rows_def ex_event_def
        StreamReleases_window_def go_int_add_def fmt_d_6)

section \<open>C7: events whose payload does not parse\<close>

lemma unmarshalScaleRequest_fails:
  "ju (ev_Data ev) = Inl err \<Longrightarrow> prependScaleRequest ju conv ev srs = Inl err"
  by (simp add: prependScaleRequest_def unmarshalScaleRequest_def)

lemma maybeAcceptRelease_fails:
  "ju (ev_Data ev) = Inl err \<Longrightarrow>
     maybeAcceptRelease ju conv m appIDs releaseIDs lf ev = Inl err
     \<or> maybeAcceptRelease ju conv m appIDs releaseIDs lf ev = Inr None"
  by (simp add: maybeAcceptRelease_def unmarshalRelease_def)

lemma StreamApps_live_append:
  "StreamApps_live ju conv m req (xs @ ys)
     = StreamApps_live ju conv m req xs @ StreamApps_live ju conv m req ys"
  by (simp add: StreamApps_live_def)

lemma StreamDeployments_live_append:
  "StreamDeployments_live ju ge conv tm (xs @ ys)
     = (case StreamDeployments_live ju ge conv tm xs of
          (sent, Some err) \<Rightarrow> (sent, Some err)
        | (sent, None) \<Rightarrow>
            (sent @ fst (StreamDeployments_live ju ge conv tm ys),
             snd (StreamDeployments_live ju ge conv tm ys)))"
  by (induction xs) (simp_all add: case_prod_beta split: sum.splits option.splits)

lemma StreamDeployments_live_skip:
  "StreamDeployments_event ju ge conv tm ev = Inr []
     \<Longrightarrow> StreamDeployments_live ju ge conv tm (xs @ ev # ys)
           = StreamDeployments_live ju ge conv tm (xs @ ys)"
  by (simp add: StreamDeployments_live_append [of ju ge conv tm xs] case_prod_beta)

text \<open>
  Claim C7, as amended. In \<^verbatim>\<open>StreamApps\<close>, \<^verbatim>\<open>StreamScales\<close>,
  \<^verbatim>\<open>StreamReleases\<close> and \<^verbatim>\<open>StreamDeployments\<close>, an event whose payload fails to
  unmarshal is skipped: the loop body sends nothing for it, leaves the handler's list as it
  was, and the loop goes on with the events that follow; \<^verbatim>\<open>StreamDeployments\<close> runs
  as it does on the same events without that one. In \<^verbatim>\<open>StreamScales\<close> and
  \<^verbatim>\<open>StreamReleases\<close> the only trace it leaves in the state is \<^verbatim>\<open>currID\<close>, raised
  to its id. (What \<^verbatim>\<open>StreamScales\<close> does at the top of the next iteration is not part
  of this statement.)
\<close>

theorem unparsable_event_is_skipped:
  "(ja (ev_Data event) = Inl err \<longrightarrow>
      StreamApps_event ja ca m req event = []
      \<and> StreamApps_live ja ca m req (before @ event # after)
          = StreamApps_live ja ca m req before @ StreamApps_live ja ca m req after)
   \<and> (js (ev_Data event) = Inl err \<longrightarrow>
      ss_scaleRequests (StreamScales_listed js cs st event) = ss_scaleRequests st
      \<and> StreamScales_event js cs st event = st\<lparr>ss_currID := max (ss_currID st) (ev_ID event)\<rparr>
      \<and> StreamScales_live js cs st (ScalesEvent event # inputs)
          = StreamScales_live js cs
              (sendResponseWithDelay (st\<lparr>ss_currID := max (ss_currID st) (ev_ID event)\<rparr>))
              inputs)
   \<and> (jr (ev_Data event) = Inl err \<longrightarrow>
      rs_releases (StreamReleases_listed jr cr mr appIDs releaseIDs lf rst event)
        = rs_releases rst
      \<and> StreamReleases_event jr cr mr appIDs releaseIDs lf rst event
          = (rst\<lparr>rs_currID := max (rs_currID rst) (ev_ID event)\<rparr>, [])
      \<and> StreamReleases_live jr cr mr appIDs releaseIDs lf rst (event # events)
          = StreamReleases_live jr cr mr appIDs releaseIDs lf
              (rst\<lparr>rs_currID := max (rs_currID rst) (ev_ID event)\<rparr>) events)
   \<and> (jd (ev_Data event) = Inl err \<longrightarrow>
      StreamDeployments_event jd ge cd tm event = Inr []
      \<and> StreamDeployments_live jd ge cd tm (before @ event # after)
          = StreamDeployments_live jd ge cd tm (before @ after)
      \<and> (snd (StreamDeployments_live jd ge cd tm before) = None \<longrightarrow>
           StreamDeployments_live jd ge cd tm (before @ event # after)
             = (fst (StreamDeployments_live jd ge cd tm before)
                  @ fst (StreamDeployments_live jd ge cd tm after),
                snd (StreamDeployments_live jd ge cd tm after))))"
proof (intro conjI impI)
  assume a: "ja (ev_Data event) = Inl err"
  then show e: "StreamApps_event ja ca m req event = []"
    by (simp add: StreamApps_event_def Let_def split: EventType.splits sum.splits)
  then show "StreamApps_live ja ca m req (before @ event # after)
          = StreamApps_live ja ca m req before @ StreamApps_live ja ca m req after"
    by (simp add: StreamApps_live_def)
next
  assume a: "js (ev_Data event) = Inl err"
  then show "ss_scaleRequests (StreamScales_listed js cs st event) = ss_scaleRequests st"
    by (simp add: StreamScales_listed_def unmarshalScaleRequest_fails)
  from a show e: "StreamScales_event js cs st event
                    = st\<lparr>ss_currID := max (ss_currID st) (ev_ID event)\<rparr>"
    by (simp add: StreamScales_event_def unmarshalScaleRequest_fails max_def)
  then show "StreamScales_live js cs st (ScalesEvent event # inputs)
          = StreamScales_live js cs
              (sendResponseWithDelay (st\<lparr>ss_currID := max (ss_currID st) (ev_ID event)\<rparr>))
              inputs"
    by simp
next
  assume a: "jr (ev_Data event) = Inl err"
  from maybeAcceptRelease_fails [where ju = jr and ev = event and err = err and conv = cr
         and m = mr and appIDs = appIDs and releaseIDs = releaseIDs and lf = lf, OF a]
  show "rs_releases (StreamReleases_listed jr cr mr appIDs releaseIDs lf rst event)
          = rs_releases rst"
    by (auto simp: StreamReleases_listed_def maybePrependRelease_def)
  from maybeAcceptRelease_fails [where ju = jr and ev = event and err = err and conv = cr
         and m = mr and appIDs = appIDs and releaseIDs = releaseIDs and lf = lf, OF a]
  show e: "StreamReleases_event jr cr mr appIDs releaseIDs lf rst event
          = (rst\<lparr>rs_currID := max (rs_currID rst) (ev_ID event)\<rparr>, [])"
    by (auto simp: StreamReleases_event_def max_def)
  then show "StreamReleases_live jr cr mr appIDs releaseIDs lf rst (event # events)
          = StreamReleases_live jr cr mr appIDs releaseIDs lf
              (rst\<lparr>rs_currID := max (rs_currID rst) (ev_ID event)\<rparr>) events"
    by simp
next
  assume a: "jd (ev_Data event) = Inl err"
  then show e: "StreamDeployments_event jd ge cd tm event = Inr []"
    by (simp add: StreamDeployments_event_def)
  then show s: "StreamDeployments_live jd ge cd tm (before @ event # after)
          = StreamDeployments_live jd ge cd tm (before @ after)"
    by (rule StreamDeployments_live_skip)
  assume b: "snd (StreamDeployments_live jd ge cd tm before) = None"
  then show "StreamDeployments_live jd ge cd tm (before @ event # after)
             = (fst (StreamDeployments_live jd ge cd tm before)
                  @ fst (StreamDeployments_live jd ge cd tm after),
                snd (StreamDeployments_live jd ge cd tm after))"
    unfolding s
    by (simp add: StreamDeployments_live_append [of jd ge cd tm before] case_prod_beta)
qed

theorem unparsable_event_is_skipped_witness:
  "ex_jsonApp (ev_Data (ex_event 9 EventTypeApp [])) = Inl (PlainError ''unexpected end of JSON input'')
   \<and> StreamApps_live ex_jsonApp ex_ConvertApp ex_MatchLabelFilters ex_StreamAppsRequest
        ([ex_event 8 EventTypeApp ''a1''] @ ex_event 9 EventTypeApp [] # [ex_event 10 EventTypeApp ''a2''])
       = StreamApps_live ex_jsonApp ex_ConvertApp ex_MatchLabelFilters ex_StreamAppsRequest
           [ex_event 8 EventTypeApp ''a1'']
         @ StreamApps_live ex_jsonApp ex_ConvertApp ex_MatchLabelFilters ex_StreamAppsRequest
             [ex_event 10 EventTypeApp ''a2'']
   \<and> ex_jsonScaleRequest (ev_Data (ex_event 9 EventTypeApp []))
       = Inl (PlainError ''unexpected end of JSON input'')
   \<and> StreamScales_event ex_jsonScaleRequest ex_ConvertScaleRequest
        \<lparr>ss_currID = 5, ss_scaleRequests = [], ss_timerArmed = True\<rparr> (ex_event 9 EventTypeApp [])
       = \<lparr>ss_currID = 9, ss_scaleRequests = [], ss_timerArmed = True\<rparr>
   \<and> ex_jsonRelease (ev_Data (ex_event 9 EventTypeApp []))
       = Inl (PlainError ''unexpected end of JSON input'')
   \<and> StreamReleases_event ex_jsonRelease ex_ConvertRelease ex_MatchLabelFilters [] [] ()
        \<lparr>rs_currID = 5, rs_releases = [], rs_nextPageToken = None\<rparr> (ex_event 9 EventTypeApp [])
       = (\<lparr>rs_currID = 9, rs_releases = [], rs_nextPageToken = None\<rparr>, [])
   \<and> ex_jsonDeploymentEvent (ev_Data (ex_event 9 EventTypeApp []))
       = Inl (PlainError ''unexpected end of JSON input'')
   \<and> StreamDeployments_event ex_jsonDeploymentEvent ex_GetExpanded ex_ConvertExpandedDeployment
        (\<lambda>t. True) (ex_event 9 EventTypeApp []) = Inr []
   \<and> StreamDeployments_live ex_jsonDeploymentEvent ex_GetExpanded ex_ConvertExpandedDeployment
        (\<lambda>t. True)
        ([ex_event 8 EventTypeDeployment ''running''] @ ex_event 9 EventTypeApp []
           # [ex_event 10 EventTypeDeployment ''complete''])
       = ([[\<lparr>ped_Name = ''apps/a1/deployments/running'', ped_Type = 0,
              ped_Status = ''running''\<rparr>],
           [\<lparr>ped_Name = ''apps/a1/deployments/complete'', ped_Type = 0,
              ped_Status = ''complete''\<rparr>]], None)"
proof -
  let ?bad = "ex_event 9 EventTypeApp []"
  let ?err = "PlainError ''unexpected end of JSON input''"
  have h1: "ex_jsonApp (ev_Data ?bad) = Inl ?err" by (simp add: ex_jsonApp_def ex_event_def)
  have h2: "ex_jsonScaleRequest (ev_Data ?bad) = Inl ?err"
    by (simp add: ex_jsonScaleRequest_def ex_event_def)
  have h3: "ex_jsonRelease (ev_Data ?bad) = Inl ?err"
    by (simp add: ex_jsonRelease_def ex_event_def)
  have h4: "ex_jsonDeploymentEvent (ev_Data ?bad) = Inl ?err"
    by (simp add: ex_jsonDeploymentEvent_def ex_event_def)
  note t = unparsable_event_is_skipped [where event = ?bad and err = ?err
      and ja = ex_jsonApp and ca = ex_ConvertApp and m = ex_MatchLabelFilters
      and req = ex_StreamAppsRequest and before = "[ex_event 8 EventTypeApp ''a1'']"
      and after = "[ex_event 10 EventTypeApp ''a2'']"
      and js = ex_jsonScaleRequest and cs = ex_ConvertScaleRequest
      and st = "\<lparr>ss_currID = 5, ss_scaleRequests = [], ss_timerArmed = True\<rparr>"
      and jr = ex_jsonRelease and cr = ex_ConvertRelease and mr = ex_MatchLabelFilters
      and appIDs = "[]" and releaseIDs = "[]" and lf = "()"
      and rst = "\<lparr>rs_currID = 5, rs_releases = [], rs_nextPageToken = None\<rparr>"
      and jd = ex_jsonDeploymentEvent and ge = ex_GetExpanded
      and cd = ex_ConvertExpandedDeployment and tm = "\<lambda>t. True"]
  note d = unparsable_event_is_skipped [where event = ?bad and err = ?err
      and jd = ex_jsonDeploymentEvent and ge = ex_GetExpanded
      and cd = ex_ConvertExpandedDeployment and tm = "\<lambda>t. True"
      and before = "[ex_event 8 EventTypeDeployment ''running'']"
      and after = "[ex_event 10 EventTypeDeployment ''complete'']",
      THEN conjunct2, THEN conjunct2, THEN conjunct2, THEN mp, OF h4]
  have live: "StreamDeployments_live ex_jsonDeploymentEvent ex_GetExpanded
                ex_ConvertExpandedDeployment (\<lambda>t. True)
                ([ex_event 8 EventTypeDeployment ''running'']
                   @ [ex_event 10 EventTypeDeployment ''complete''])
       = ([[\<lparr>ped_Name = ''apps/a1/deployments/running'', ped_Type = 0,
              ped_Status = ''running''\<rparr>],
           [\<lparr>ped_Name = ''apps/a1/deployments/complete'', ped_Type = 0,
              ped_Status = ''complete''\<rparr>]], None)"
    by (simp add: StreamDeployments_event_def ex_jsonDeploymentEvent_def ex_GetExpanded_def
          ex_ConvertExpandedDeployment_def ex_event_def Let_def)
  have ev9: "ev_ID ?bad = 9" by (simp add: ex_event_def)
  from t h1 h2 h3 h4 d [THEN conjunct2, THEN conjunct1] live show ?thesis
    by (simp add: ev9)
qed

text \<open>
  Claim C7 as stated says that such an event produces no response. In
  \<^verbatim>\<open>StreamScales\<close> every iteration, also the one after a \<^verbatim>\<open>continue\<close>, begins with
  \<^verbatim>\<open>sendResponseWithDelay()\<close>: the unparsable event re-arms the timer, and its
  expiry sends the unchanged list once more. With the event the stream carries three
  responses, without it two.
\<close>

theorem StreamScales_unparsable_event_resends_counterexample:
  "ex_jsonScaleRequest (ev_Data (ex_event 9 EventTypeScaleRequest []))
     = Inl (PlainError ''unexpected end of JSON input'')
   \<and> StreamScales ex_jsonScaleRequest ex_ConvertScaleRequest ex_subscribeOK
        (ex_ListEvents ex_scale_rows) [] [TimerFires, TimerFires]
       = Inr [[\<lparr>sr_Name = ''apps/a1/releases/r1/scale/s2'', sr_State = SCALE_PENDING\<rparr>,
               \<lparr>sr_Name = ''apps/a1/releases/r1/scale/s1'', sr_State = SCALE_PENDING\<rparr>],
              [\<lparr>sr_Name = ''apps/a1/releases/r1/scale/s2'', sr_State = SCALE_PENDING\<rparr>,
               \<lparr>sr_Name = ''apps/a1/releases/r1/scale/s1'', sr_State = SCALE_PENDING\<rparr>]]
   \<and> StreamScales ex_jsonScaleRequest ex_ConvertScaleRequest ex_subscribeOK
        (ex_ListEvents ex_scale_rows) []
        [TimerFires, ScalesEvent (ex_event 9 EventTypeScaleRequest []), TimerFires]
       = Inr [[\<lparr>sr_Name = ''apps/a1/releases/r1/scale/s2'', sr_State = SCALE_PENDING\<rparr>,
               \<lparr>sr_Name = ''apps/a1/releases/r1/scale/s1'', sr_State = SCALE_PENDING\<rparr>],
              [\<lparr>sr_Name = ''apps/a1/releases/r1/scale/s2'', sr_State = SCALE_PENDING\<rparr>,
               \<lparr>sr_Name = ''apps/a1/releases/r1/scale/s1'', sr_State = SCALE_PENDING\<rparr>],
              [\<lparr>sr_Name = ''apps/a1/releases/r1/scale/s2'', sr_State = SCALE_PENDING\<rparr>,
               \<lparr>sr_Name = ''apps/a1/releases/r1/scale/s1'', sr_State = SCALE_PENDING\<rparr>]]"
  by (simp add: StreamScales_def StreamScales_snapshot_def StreamScales_listed_def
        StreamScales_event_def sendResponseWithDelay_def prependScaleRequest_def
        unmarshalScaleRequest_def ex_jsonScaleRequest_def ex_ConvertScaleRequest_def
        ex_subscribeOK_def ex_ListEvents_def ex_scale_rows_def ex_event_def Let_def)

section \<open>C8: the arguments of refreshFormation in StreamFormations\<close>

lemma StreamFormations_refresh_actions:
  "filter is_RefreshFormation (fst (StreamFormations_refresh refresh refreshError st))
     = [RefreshFormation [] []]"
  by (simp add: StreamFormations_refresh_def StreamFormations_sendResponse_def Let_def
        split: sum.splits)

lemma StreamFormations_refresh_ok:
  "\<forall>fs. \<exists>fs'. refresh [] [] fs = Inr fs' \<Longrightarrow>
     \<exists>st1. snd (StreamFormations_refresh refresh refreshError st) = Inr st1"
proof -
  assume "\<forall>fs. \<exists>fs'. refresh [] [] fs = Inr fs'"
  then obtain fs' where "refresh [] [] (sf_formations st) = Inr fs'" by blast
  then show ?thesis by (simp add: StreamFormations_refresh_def Let_def)
qed

lemma StreamFormations_loop_refreshes:
  "\<exists>k>0. filter is_RefreshFormation
            (fst (StreamFormations_loop refresh refreshError subErr st inputs))
          = replicate k (RefreshFormation [] [])"
proof (induction refresh refreshError subErr st inputs rule: StreamFormations_loop.induct)
  case (1 refresh refreshError subErr st)
  have "filter is_RefreshFormation
          (fst (StreamFormations_loop refresh refreshError subErr st []))
        = replicate 1 (RefreshFormation [] [])"
    using StreamFormations_refresh_actions [of refresh refreshError st]
    by (cases "StreamFormations_refresh refresh refreshError st")
       (auto split: sum.splits)
  then show ?case by blast
next
  case (2 refresh refreshError subErr st inputs)
  have "filter is_RefreshFormation
          (fst (StreamFormations_loop refresh refreshError subErr st (Closed # inputs)))
        = replicate 1 (RefreshFormation [] [])"
    using StreamFormations_refresh_actions [of refresh refreshError st]
    by (cases "StreamFormations_refresh refresh refreshError st")
       (auto split: sum.splits)
  then show ?case by blast
next
  case (3 refresh refreshError subErr st event inputs)
  obtain acts r where ar: "StreamFormations_refresh refresh refreshError st = (acts, r)"
    by (cases "StreamFormations_refresh refresh refreshError st")
  with StreamFormations_refresh_actions [of refresh refreshError st]
  have f: "filter is_RefreshFormation acts = [RefreshFormation [] []]" by simp
  show ?case
  proof (cases r)
    case (Inl err)
    with ar f have "filter is_RefreshFormation
          (fst (StreamFormations_loop refresh refreshError subErr st (Received event # inputs)))
        = replicate 1 (RefreshFormation [] [])" by simp
    then show ?thesis by blast
  next
    case (Inr st1)
    from 3 [OF ar [symmetric] Inr] obtain k where
      k: "filter is_RefreshFormation
            (fst (StreamFormations_loop refresh refreshError subErr
                    (StreamFormations_received st1 event) inputs))
          = replicate k (RefreshFormation [] [])" by blast
    with ar f Inr have "filter is_RefreshFormation
          (fst (StreamFormations_loop refresh refreshError subErr st (Received event # inputs)))
        = replicate (Suc k) (RefreshFormation [] [])"
      by (simp add: case_prod_beta)
    then show ?thesis by blast
  qed
qed

lemma StreamFormations_loop_every_iteration:
  assumes "\<forall>fs. \<exists>fs'. refresh [] [] fs = Inr fs'"
  shows "filter is_RefreshFormation
           (fst (StreamFormations_loop refresh refreshError subErr st (map Received events)))
         = replicate (Suc (length events)) (RefreshFormation [] [])"
proof (induction events arbitrary: st)
  case Nil
  obtain acts r where ar: "StreamFormations_refresh refresh refreshError st = (acts, r)"
    by (cases "StreamFormations_refresh refresh refreshError st")
  with StreamFormations_refresh_actions [of refresh refreshError st]
  have f: "filter is_RefreshFormation acts = [RefreshFormation [] []]" by simp
  with ar show ?case by (auto split: sum.splits)
next
  case (Cons event events)
  obtain acts r where ar: "StreamFormations_refresh refresh refreshError st = (acts, r)"
    by (cases "StreamFormations_refresh refresh refreshError st")
  with StreamFormations_refresh_actions [of refresh refreshError st]
  have f: "filter is_RefreshFormation acts = [RefreshFormation [] []]" by simp
  from StreamFormations_refresh_ok [where refresh = refresh and refreshError = refreshError
         and st = st, OF assms] ar
  obtain st1 where r: "r = Inr st1" by auto
  from ar f r Cons.IH [of "StreamFormations_received st1 event"] show ?case
    by (simp add: case_prod_beta)
qed

text \<open>
  Claim C8. Every iteration of the event loop of \<^verbatim>\<open>StreamFormations\<close> calls
  \<^verbatim>\<open>refreshFormation\<close> with the empty string for both \<^verbatim>\<open>appID\<close> and
  \<^verbatim>\<open>releaseID\<close>: the calls in the loop's trace are one or more copies of
  \<open>RefreshFormation [] []\<close> and nothing else, and while the refresh succeeds there is
  one such call per received event plus the first, whatever app id and release id the
  events carried.
\<close>

theorem StreamFormations_refresh_ids_always_empty:
  "(\<exists>k>0. filter is_RefreshFormation
             (fst (StreamFormations_loop refresh refreshError subErr st inputs))
           = replicate k (RefreshFormation [] []))
   \<and> ((\<forall>fs. \<exists>fs'. refresh [] [] fs = Inr fs') \<longrightarrow>
        filter is_RefreshFormation
          (fst (StreamFormations_loop refresh refreshError subErr st (map Received events)))
        = replicate (Suc (length events)) (RefreshFormation [] []))"
  using StreamFormations_loop_refreshes StreamFormations_loop_every_iteration by blast

theorem StreamFormations_refresh_ids_always_empty_witness:
  "(\<forall>fs. \<exists>fs'. ex_refresh [] [] fs = Inr fs')
   \<and> ev_AppID (ex_event 7 EventTypeAppRelease ''r2'') = ''a1''
   \<and> filter is_RefreshFormation
        (fst (StreamFormations_loop ex_refresh ex_refreshError None
                \<lparr>sf_releaseIDs = [(''a1'', ''r1'')], sf_formations = []\<rparr>
                (map Received [ex_event 7 EventTypeAppRelease ''r2''])))
       = [RefreshFormation [] [], RefreshFormation [] []]"
proof -
  have h: "\<forall>fs. \<exists>fs'. ex_refresh [] [] fs = Inr fs'"
    by (simp add: ex_refresh_def refreshFormation_def ex_FormationGet_def
          ex_FormationGetExpanded_def ex_QueryScaleRequestID_def Let_def)
  have a: "ev_AppID (ex_event 7 EventTypeAppRelease ''r2'') = ''a1''"
    by (simp add: ex_event_def)
  from StreamFormations_refresh_ids_always_empty [where refresh = ex_refresh
         and events = "[ex_event 7 EventTypeAppRelease ''r2'']", THEN conjunct2, THEN mp,
         OF h]
  have "filter is_RefreshFormation
        (fst (StreamFormations_loop ex_refresh ex_refreshError None
                \<lparr>sf_releaseIDs = [(''a1'', ''r1'')], sf_formations = []\<rparr>
                (map Received [ex_event 7 EventTypeAppRelease ''r2''])))
       = replicate (Suc (length [ex_event 7 EventTypeAppRelease ''r2'']))
           (RefreshFormation [] [])" .
  with h a show ?thesis by simp
qed

section \<open>C9: listApps fills a short page from the next one\<close>

lemma listApps_loop_count:
  "snd (listApps_loop conv m appIDs lf pageSize ctApps apps n)
     = n + int (length (fst (listApps_loop conv m appIDs lf pageSize ctApps apps n)))
         - int (length apps)"
  by (induction conv m appIDs lf pageSize ctApps apps n rule: listApps_loop.induct) auto

text \<open>
  Before it filters, \<^verbatim>\<open>listApps\<close> allocates the page with capacity \<open>pageSize\<close>.
  A page size that is negative or beyond the allocation limit panics there: nothing is
  filtered and nothing is returned.
\<close>

lemma listApps_make_panics:
  assumes "ParsePageToken (sar_PageToken req) = Inr parsed"
    and "pageToken = (if sar_PageSize req > 0 then parsed\<lparr>pt_Size := sar_PageSize req\<rparr>
                      else parsed)"
    and "ListPage pageToken = Inr (ctApps, nextPageToken)"
    and "pageSize = (if sar_PageSize req > 0 then sar_PageSize req
                     else if pt_Size parsed = 0 then int (length ctApps) else pt_Size parsed)"
    and "pageSize < 0 \<or> capLimit < pageSize"
  shows "listApps (Suc fuel) capLimit ParsePageToken PageTokenString ListPage
           ParseAppIDsFromNameFilters ConvertApp MatchLabelFilters req
         = Some (Inl (Panic ''makeslice: cap out of range''))"
proof (cases "sar_PageSize req > 0")
  case True
  with assms show ?thesis by (simp add: Let_def)
next
  case False
  with assms show ?thesis by (simp add: Let_def)
qed

text \<open>A panic in the recursive call is not an error it returns: it unwinds.\<close>

lemma listApps_panic_unwinds:
  assumes "ParsePageToken (sar_PageToken req) = Inr parsed"
    and "pageToken = (if sar_PageSize req > 0 then parsed\<lparr>pt_Size := sar_PageSize req\<rparr>
                      else parsed)"
    and "ListPage pageToken = Inr (ctApps, Some nextPageToken)"
    and "pageSize = (if sar_PageSize req > 0 then sar_PageSize req
                     else if pt_Size parsed = 0 then int (length ctApps) else pt_Size parsed)"
    and "pageSize \<le> capLimit"
    and "apps = fst (listApps_loop ConvertApp MatchLabelFilters
                       (ParseAppIDsFromNameFilters (sar_NameFilters req))
                       (sar_LabelFilters req) pageSize ctApps [] 0)"
    and "int (length apps) < pageSize"
    and "listApps fuel capLimit ParsePageToken PageTokenString ListPage
           ParseAppIDsFromNameFilters ConvertApp MatchLabelFilters
           (req\<lparr>sar_PageToken := PageTokenString (Some nextPageToken)\<rparr>)
         = Some (Inl (Panic msg))"
  shows "listApps (Suc fuel) capLimit ParsePageToken PageTokenString ListPage
           ParseAppIDsFromNameFilters ConvertApp MatchLabelFilters req
         = Some (Inl (Panic msg))"
proof -
  have n: "snd (listApps_loop ConvertApp MatchLabelFilters
                       (ParseAppIDsFromNameFilters (sar_NameFilters req))
                       (sar_LabelFilters req) pageSize ctApps [] 0) = int (length apps)"
    using listApps_loop_count [of ConvertApp MatchLabelFilters
            "ParseAppIDsFromNameFilters (sar_NameFilters req)" "sar_LabelFilters req"
            pageSize ctApps "[]" 0]
    by (simp add: assms(6))
  have p: "\<not> (pageSize < 0 \<or> capLimit < pageSize)" using assms(5,7) by simp
  show ?thesis
  proof (cases "sar_PageSize req > 0")
    case True
    with assms n p show ?thesis by (simp add: Let_def)
  next
    case False
    with assms n p show ?thesis by (simp add: Let_def)
  qed
qed

text \<open>
  Claim C9. In \<^verbatim>\<open>listApps\<close>, when the token parses, the store returns a page with a
  further page token, the page size is one the page can be allocated with, and fewer
  than \<open>pageSize\<close> apps are left after the handler's own filtering, the handler calls
  itself with the same request and the next page's token. If that call returns apps and a
  token, the result is those apps followed by the current ones, with that token; if it
  returns an error, the result is the current apps and the current next-page token, with
  no error.
\<close>

theorem listApps_fills_page_from_next:
  assumes "ParsePageToken (sar_PageToken req) = Inr parsed"
    and "pageToken = (if sar_PageSize req > 0 then parsed\<lparr>pt_Size := sar_PageSize req\<rparr>
                      else parsed)"
    and "ListPage pageToken = Inr (ctApps, Some nextPageToken)"
    and "pageSize = (if sar_PageSize req > 0 then sar_PageSize req
                     else if pt_Size parsed = 0 then int (length ctApps) else pt_Size parsed)"
    and "apps = fst (listApps_loop ConvertApp MatchLabelFilters
                       (ParseAppIDsFromNameFilters (sar_NameFilters req))
                       (sar_LabelFilters req) pageSize ctApps [] 0)"
    and "int (length apps) < pageSize"
    and "pageSize \<le> capLimit"
    and "next = listApps fuel capLimit ParsePageToken PageTokenString ListPage
                  ParseAppIDsFromNameFilters ConvertApp MatchLabelFilters
                  (req\<lparr>sar_PageToken := PageTokenString (Some nextPageToken)\<rparr>)"
  shows "(\<forall>nextApps npt. next = Some (Inr (nextApps, npt)) \<longrightarrow>
            listApps (Suc fuel) capLimit ParsePageToken PageTokenString ListPage
              ParseAppIDsFromNameFilters ConvertApp MatchLabelFilters req
              = Some (Inr (nextApps @ apps, npt)))
       \<and> (\<forall>err. next = Some (Inl err) \<and> (\<forall>msg. err \<noteq> Panic msg) \<longrightarrow>
            listApps (Suc fuel) capLimit ParsePageToken PageTokenString ListPage
              ParseAppIDsFromNameFilters ConvertApp MatchLabelFilters req
              = Some (Inr (apps, Some nextPageToken)))"
proof -
  have n: "snd (listApps_loop ConvertApp MatchLabelFilters
                       (ParseAppIDsFromNameFilters (sar_NameFilters req))
                       (sar_LabelFilters req) pageSize ctApps [] 0) = int (length apps)"
    using listApps_loop_count [of ConvertApp MatchLabelFilters
            "ParseAppIDsFromNameFilters (sar_NameFilters req)" "sar_LabelFilters req"
            pageSize ctApps "[]" 0]
    by (simp add: assms(5))
  have p: "\<not> (pageSize < 0 \<or> capLimit < pageSize)" using assms(6,7) by simp
  show ?thesis
  proof (cases "sar_PageSize req > 0")
    case True
    with assms n p show ?thesis by (auto simp: Let_def split: error.splits)
  next
    case False
    with assms n p show ?thesis by (auto simp: Let_def split: error.splits)
  qed
qed

lemmas ex_listApps_defs =
  ex_ParsePageToken_def ex_PageTokenString_def ex_ListPage_def ex_ListPage_bad_token_def
  ex_ParseAppIDsFromNameFilters_def ex_ConvertApp_def ex_MatchLabelFilters_def
  ex_listApps_request_def ex_apps_def

theorem listApps_fills_page_from_next_witness:
  "ex_ParsePageToken (sar_PageToken ex_listApps_request)
     = Inr \<lparr>pt_BeforeID = None, pt_Size = 0\<rparr>
   \<and> (2::int) \<le> 2 ^ 45
   \<and> ex_ListPage \<lparr>pt_BeforeID = None, pt_Size = 2\<rparr>
       = Inr (take 2 ex_apps, Some \<lparr>pt_BeforeID = Some ''2'', pt_Size = 2\<rparr>)
   \<and> listApps (Suc (Suc 0)) (2 ^ 45) ex_ParsePageToken ex_PageTokenString ex_ListPage
        ex_ParseAppIDsFromNameFilters ex_ConvertApp ex_MatchLabelFilters
        (ex_listApps_request\<lparr>sar_PageToken :=
           ex_PageTokenString (Some \<lparr>pt_BeforeID = Some ''2'', pt_Size = 2\<rparr>)\<rparr>)
       = Some (Inr ([\<lparr>app_Name = ''apps/a2'', app_DisplayName = ''two'', app_Labels = []\<rparr>],
                    None))
   \<and> listApps (Suc (Suc (Suc 0))) (2 ^ 45) ex_ParsePageToken ex_PageTokenString ex_ListPage
        ex_ParseAppIDsFromNameFilters ex_ConvertApp ex_MatchLabelFilters ex_listApps_request
       = Some (Inr ([\<lparr>app_Name = ''apps/a2'', app_DisplayName = ''two'', app_Labels = []\<rparr>,
                     \<lparr>app_Name = ''apps/a3'', app_DisplayName = ''three'', app_Labels = []\<rparr>],
                    None))
   \<and> ex_ListPage_bad_token \<lparr>pt_BeforeID = None, pt_Size = 2\<rparr>
       = Inr (take 2 ex_apps, Some \<lparr>pt_BeforeID = Some ''x'', pt_Size = 2\<rparr>)
   \<and> listApps (Suc (Suc 0)) (2 ^ 45) ex_ParsePageToken ex_PageTokenString ex_ListPage_bad_token
        ex_ParseAppIDsFromNameFilters ex_ConvertApp ex_MatchLabelFilters
        (ex_listApps_request\<lparr>sar_PageToken :=
           ex_PageTokenString (Some \<lparr>pt_BeforeID = Some ''x'', pt_Size = 2\<rparr>)\<rparr>)
       = Some (Inl (PlainError ''invalid page token''))
   \<and> listApps (Suc (Suc (Suc 0))) (2 ^ 45) ex_ParsePageToken ex_PageTokenString ex_ListPage_bad_token
        ex_ParseAppIDsFromNameFilters ex_ConvertApp ex_MatchLabelFilters ex_listApps_request
       = Some (Inr ([\<lparr>app_Name = ''apps/a3'', app_DisplayName = ''three'', app_Labels = []\<rparr>],
                    Some \<lparr>pt_BeforeID = Some ''x'', pt_Size = 2\<rparr>))"
proof -
  let ?a2 = "\<lparr>app_Name = ''apps/a2'', app_DisplayName = ''two'', app_Labels = []\<rparr>"
  let ?a3 = "\<lparr>app_Name = ''apps/a3'', app_DisplayName = ''three'', app_Labels = []\<rparr>"
  let ?t2 = "\<lparr>pt_BeforeID = Some ''2'', pt_Size = 2\<rparr>"
  let ?tx = "\<lparr>pt_BeforeID = Some ''x'', pt_Size = 2\<rparr>"
  have f2: "fmt_d 2 = ''2''" by code_simp
  have h1: "ex_ParsePageToken (sar_PageToken ex_listApps_request)
              = Inr \<lparr>pt_BeforeID = None, pt_Size = 0\<rparr>"
    by (simp add: ex_listApps_defs)
  have h2: "\<lparr>pt_BeforeID = None, pt_Size = 2\<rparr>
              = (if sar_PageSize ex_listApps_request > 0
                 then \<lparr>pt_BeforeID = None, pt_Size = 0\<rparr>
                        \<lparr>pt_Size := sar_PageSize ex_listApps_request\<rparr>
                 else \<lparr>pt_BeforeID = None, pt_Size = 0\<rparr>)"
    by (simp add: ex_listApps_defs)
  have h3: "ex_ListPage \<lparr>pt_BeforeID = None, pt_Size = 2\<rparr> = Inr (take 2 ex_apps, Some ?t2)"
    by (simp add: ex_listApps_defs)
  have h3x: "ex_ListPage_bad_token \<lparr>pt_BeforeID = None, pt_Size = 2\<rparr>
               = Inr (take 2 ex_apps, Some ?tx)"
    by (simp add: ex_listApps_defs)
  have h4: "(2::int) = (if sar_PageSize ex_listApps_request > 0
                        then sar_PageSize ex_listApps_request
                        else if pt_Size \<lparr>pt_BeforeID = None, pt_Size = 0\<rparr> = 0
                             then int (length (take 2 ex_apps))
                             else pt_Size \<lparr>pt_BeforeID = None, pt_Size = 0\<rparr>)"
    by (simp add: ex_listApps_defs)
  have h5: "[?a3] = fst (listApps_loop ex_ConvertApp ex_MatchLabelFilters
                       (ex_ParseAppIDsFromNameFilters (sar_NameFilters ex_listApps_request))
                       (sar_LabelFilters ex_listApps_request) 2 (take 2 ex_apps) [] 0)"
    by (simp add: ex_listApps_defs)
  have h6: "int (length [?a3]) < 2" by simp
  have hc: "(2::int) \<le> 2 ^ 45" by simp
  have h7: "Some (Inr ([?a2], None))
              = listApps (Suc (Suc 0)) (2 ^ 45) ex_ParsePageToken ex_PageTokenString ex_ListPage
                  ex_ParseAppIDsFromNameFilters ex_ConvertApp ex_MatchLabelFilters
                  (ex_listApps_request\<lparr>sar_PageToken := ex_PageTokenString (Some ?t2)\<rparr>)"
    by (simp add: ex_listApps_defs f2 Let_def)
  have h7x: "Some (Inl (PlainError ''invalid page token''))
              = listApps (Suc (Suc 0)) (2 ^ 45) ex_ParsePageToken ex_PageTokenString
                  ex_ListPage_bad_token
                  ex_ParseAppIDsFromNameFilters ex_ConvertApp ex_MatchLabelFilters
                  (ex_listApps_request\<lparr>sar_PageToken := ex_PageTokenString (Some ?tx)\<rparr>)"
    by (simp add: ex_listApps_defs f2 Let_def)
  have ok: "listApps (Suc (Suc (Suc 0))) (2 ^ 45) ex_ParsePageToken ex_PageTokenString ex_ListPage
              ex_ParseAppIDsFromNameFilters ex_ConvertApp ex_MatchLabelFilters
              ex_listApps_request
            = Some (Inr ([?a2] @ [?a3], None))"
    using listApps_fills_page_from_next [where ParsePageToken = ex_ParsePageToken
            and ListPage = ex_ListPage and PageTokenString = ex_PageTokenString
            and fuel = "Suc (Suc 0)" and capLimit = "2 ^ 45",
            OF h1 h2 h3 h4 h5 h6 hc h7, THEN conjunct1]
    by blast
  have bad: "listApps (Suc (Suc (Suc 0))) (2 ^ 45) ex_ParsePageToken ex_PageTokenString
               ex_ListPage_bad_token
               ex_ParseAppIDsFromNameFilters ex_ConvertApp ex_MatchLabelFilters
               ex_listApps_request
            = Some (Inr ([?a3], Some ?tx))"
    using listApps_fills_page_from_next [where ParsePageToken = ex_ParsePageToken
            and ListPage = ex_ListPage_bad_token and PageTokenString = ex_PageTokenString
            and fuel = "Suc (Suc 0)" and capLimit = "2 ^ 45",
            OF h1 h2 h3x h4 h5 h6 hc h7x, THEN conjunct2]
    by blast
  from h1 hc h3 h3x h7 [symmetric] h7x [symmetric] ok bad show ?thesis by simp
qed

section \<open>C10: CreateDeployment discards the internal scale\<close>

lemma CreateDeployment_scale_discards:
  "(CreateDeployment_scale cs req d :: ('d, 'j, 't) cd_action list)
     = CreateDeployment_scale cs' req d"
  by (simp add: CreateDeployment_scale_def Let_def split: option.splits)

lemma CreateDeployment_loop_discards:
  "CreateDeployment_loop cs ju Get cd cj tp ef subErr req inputs
     = CreateDeployment_loop cs' ju Get cd cj tp ef subErr req inputs"
proof (induction inputs)
  case Nil
  then show ?case by simp
next
  case (Cons i inputs)
  show ?case
  proof (cases i)
    case (Received ctEvent)
    have s: "\<And>d. (CreateDeployment_scale cs req d :: ('a, 'b, 'c) cd_action list)
                   = CreateDeployment_scale cs' req d"
      by (rule CreateDeployment_scale_discards)
    from Received Cons.IH show ?thesis
      by (simp add: s Let_def split: sum.splits option.splits)
  next
    case Closed
    then show ?thesis by simp
  qed
qed

lemma CreateDeployment_loop_append_waiting:
  "snd (CreateDeployment_loop cs ju Get cd cj tp ef subErr req pre) = Waiting
     \<Longrightarrow> CreateDeployment_loop cs ju Get cd cj tp ef subErr req (pre @ rest)
           = (fst (CreateDeployment_loop cs ju Get cd cj tp ef subErr req pre)
                @ fst (CreateDeployment_loop cs ju Get cd cj tp ef subErr req rest),
              snd (CreateDeployment_loop cs ju Get cd cj tp ef subErr req rest))"
proof (induction pre)
  case Nil
  then show ?case by simp
next
  case (Cons i pre)
  show ?case
  proof (cases i)
    case (Received ctEvent)
    with Cons.prems Cons.IH show ?thesis
      by (simp add: Let_def case_prod_beta split: sum.splits option.splits if_splits)
  next
    case Closed
    with Cons.prems show ?thesis by simp
  qed
qed

lemma CreateDeployment_loop_append:
  "CreateDeployment_loop cs ju Get cd cj tp ef subErr req pre = (acts, Waiting)
     \<Longrightarrow> CreateDeployment_loop cs ju Get cd cj tp ef subErr req (pre @ rest)
           = (acts @ fst (CreateDeployment_loop cs ju Get cd cj tp ef subErr req rest),
              snd (CreateDeployment_loop cs ju Get cd cj tp ef subErr req rest))"
  using CreateDeployment_loop_append_waiting [of cs ju Get cd cj tp ef subErr req pre rest]
  by simp

lemma CreateDeployment_loop_complete:
  assumes "ev_ObjectType ctEvent = EventTypeDeployment"
    and "ju (ev_Data ctEvent) = Inr parsed"
    and "Get (ev_ObjectID ctEvent) = Inr d"
    and "dep_Status d = ''complete''"
    and "cdr_ScaleRequest req = Some sr"
  shows "CreateDeployment_loop cs ju Get cd cj tp ef subErr req (Received ctEvent # rest)
         = (case parsed of
              Some de \<Rightarrow>
                ([CallCreateScale
                    \<lparr>csq_Parent = ''apps/'' @ dep_AppID d @ ''/releases/'' @ dep_NewReleaseID d,
                     csq_Processes = csq_Processes sr, csq_Tags = csq_Tags sr\<rparr>,
                  SendDeploymentEvent
                    \<lparr>pde_Deployment = cd d, pde_JobType = de_JobType de,
                     pde_JobState = cj (de_JobState de), pde_Error = de_Error de,
                     pde_CreateTime = tp (ev_CreatedAt ctEvent)\<rparr>],
                 Returned subErr)
            | None \<Rightarrow>
                ([CallCreateScale
                    \<lparr>csq_Parent = ''apps/'' @ dep_AppID d @ ''/releases/'' @ dep_NewReleaseID d,
                     csq_Processes = csq_Processes sr, csq_Tags = csq_Tags sr\<rparr>],
                 Returned (Some (Panic ''nil pointer dereference''))))"
  using assms by (simp add: CreateDeployment_scale_def Let_def split: option.splits)

text \<open>
  Claim C10. In \<^verbatim>\<open>CreateDeployment\<close>, take an event received while the handler
  waits: a deployment event whose payload unmarshals without error and whose record is
  fetched with status \<open>complete\<close>, under a request that carries a scale request. The
  internal \<^verbatim>\<open>createScale\<close> is called for \<open>apps/<app>/releases/<new release>\<close>
  before anything is sent for the event. When the payload held an event, the deployment
  event is sent next and the handler returns the subscription's error cell; when the
  payload was \<^verbatim>\<open>null\<close>, the handler panics where it reads the job type, after the
  call and before any send. Neither result of the call is used: the handler's actions and
  return value are the same for any two behaviours of \<^verbatim>\<open>createScale\<close>, a failing
  one included.
\<close>

theorem CreateDeployment_discards_internal_scale:
  "CreateDeployment pid add sub cs ju Get cd cj tp ef req inputs
     = CreateDeployment pid add sub cs' ju Get cd cj tp ef req inputs
   \<and> (add (pid (cdr_Parent req) ''apps'') (pid (cdr_Release req) ''releases'') = Inr added
        \<and> sub [pid (cdr_Parent req) ''apps''] [EventTypeDeployment] (dep_ID added) = Inr s
        \<and> CreateDeployment pid add sub cs ju Get cd cj tp ef req pre = (acts, Waiting)
        \<and> ev_ObjectType ctEvent = EventTypeDeployment \<and> ju (ev_Data ctEvent) = Inr parsed
        \<and> Get (ev_ObjectID ctEvent) = Inr d \<and> dep_Status d = ''complete''
        \<and> cdr_ScaleRequest req = Some sr
      \<longrightarrow> CreateDeployment pid add sub cs ju Get cd cj tp ef req
            (pre @ Received ctEvent # rest)
          = (case parsed of
               Some de \<Rightarrow>
                 (acts @
                  [CallCreateScale
                     \<lparr>csq_Parent = ''apps/'' @ dep_AppID d @ ''/releases/'' @ dep_NewReleaseID d,
                      csq_Processes = csq_Processes sr, csq_Tags = csq_Tags sr\<rparr>,
                   SendDeploymentEvent
                     \<lparr>pde_Deployment = cd d, pde_JobType = de_JobType de,
                      pde_JobState = cj (de_JobState de), pde_Error = de_Error de,
                      pde_CreateTime = tp (ev_CreatedAt ctEvent)\<rparr>],
                  Returned (sub_Err s))
             | None \<Rightarrow>
                 (acts @
                  [CallCreateScale
                     \<lparr>csq_Parent = ''apps/'' @ dep_AppID d @ ''/releases/'' @ dep_NewReleaseID d,
                      csq_Processes = csq_Processes sr, csq_Tags = csq_Tags sr\<rparr>],
                  Returned (Some (Panic ''nil pointer dereference'')))))"
proof (intro conjI impI)
  show "CreateDeployment pid add sub cs ju Get cd cj tp ef req inputs
          = CreateDeployment pid add sub cs' ju Get cd cj tp ef req inputs"
    using CreateDeployment_loop_discards [of cs ju Get cd cj tp ef _ req inputs cs']
    by (simp add: CreateDeployment_def Let_def split: sum.splits)
next
  assume a: "add (pid (cdr_Parent req) ''apps'') (pid (cdr_Release req) ''releases'') = Inr added
        \<and> sub [pid (cdr_Parent req) ''apps''] [EventTypeDeployment] (dep_ID added) = Inr s
        \<and> CreateDeployment pid add sub cs ju Get cd cj tp ef req pre = (acts, Waiting)
        \<and> ev_ObjectType ctEvent = EventTypeDeployment \<and> ju (ev_Data ctEvent) = Inr parsed
        \<and> Get (ev_ObjectID ctEvent) = Inr d \<and> dep_Status d = ''complete''
        \<and> cdr_ScaleRequest req = Some sr"
  then have run: "\<And>xs. CreateDeployment pid add sub cs ju Get cd cj tp ef req xs
                    = CreateDeployment_loop cs ju Get cd cj tp ef (sub_Err s) req xs"
    by (simp add: CreateDeployment_def Let_def)
  from a have pre: "CreateDeployment_loop cs ju Get cd cj tp ef (sub_Err s) req pre
                      = (acts, Waiting)"
    by (simp add: run)
  from a have ev: "CreateDeployment_loop cs ju Get cd cj tp ef (sub_Err s) req
                     (Received ctEvent # rest)
         = (case parsed of
              Some de \<Rightarrow>
                ([CallCreateScale
                    \<lparr>csq_Parent = ''apps/'' @ dep_AppID d @ ''/releases/'' @ dep_NewReleaseID d,
                     csq_Processes = csq_Processes sr, csq_Tags = csq_Tags sr\<rparr>,
                  SendDeploymentEvent
                    \<lparr>pde_Deployment = cd d, pde_JobType = de_JobType de,
                     pde_JobState = cj (de_JobState de), pde_Error = de_Error de,
                     pde_CreateTime = tp (ev_CreatedAt ctEvent)\<rparr>],
                 Returned (sub_Err s))
            | None \<Rightarrow>
                ([CallCreateScale
                    \<lparr>csq_Parent = ''apps/'' @ dep_AppID d @ ''/releases/'' @ dep_NewReleaseID d,
                     csq_Processes = csq_Processes sr, csq_Tags = csq_Tags sr\<rparr>],
                 Returned (Some (Panic ''nil pointer dereference''))))"
    by (intro CreateDeployment_loop_complete) simp_all
  show "CreateDeployment pid add sub cs ju Get cd cj tp ef req
            (pre @ Received ctEvent # rest)
          = (case parsed of
               Some de \<Rightarrow>
                 (acts @
                  [CallCreateScale
                     \<lparr>csq_Parent = ''apps/'' @ dep_AppID d @ ''/releases/'' @ dep_NewReleaseID d,
                      csq_Processes = csq_Processes sr, csq_Tags = csq_Tags sr\<rparr>,
                   SendDeploymentEvent
                     \<lparr>pde_Deployment = cd d, pde_JobType = de_JobType de,
                      pde_JobState = cj (de_JobState de), pde_Error = de_Error de,
                      pde_CreateTime = tp (ev_CreatedAt ctEvent)\<rparr>],
                  Returned (sub_Err s))
             | None \<Rightarrow>
                 (acts @
                  [CallCreateScale
                     \<lparr>csq_Parent = ''apps/'' @ dep_AppID d @ ''/releases/'' @ dep_NewReleaseID d,
                      csq_Processes = csq_Processes sr, csq_Tags = csq_Tags sr\<rparr>],
                  Returned (Some (Panic ''nil pointer dereference''))))"
    unfolding run CreateDeployment_loop_append [OF pre] ev
    by (simp split: option.splits)
qed


lemma ex_CreateDeployment_app:
  "ex_ParseIDFromName (cdr_Parent ex_CreateDeploymentRequest) ''apps'' = ''a1''"
  by (simp add: ex_ParseIDFromName_def ex_CreateDeploymentRequest_def)

lemma ex_CreateDeployment_release:
  "ex_ParseIDFromName (cdr_Release ex_CreateDeploymentRequest) ''releases'' = ''r2''"
  by (simp add: ex_ParseIDFromName_def ex_CreateDeploymentRequest_def)

theorem CreateDeployment_discards_internal_scale_witness:
  "ex_DeploymentAdd (ex_ParseIDFromName (cdr_Parent ex_CreateDeploymentRequest) ''apps'')
      (ex_ParseIDFromName (cdr_Release ex_CreateDeploymentRequest) ''releases'')
     = Inr \<lparr>dep_ID = ''d1'', dep_AppID = ''a1'', dep_NewReleaseID = ''r2'',
             dep_Status = ''pending''\<rparr>
   \<and> ex_subscribe [ex_ParseIDFromName (cdr_Parent ex_CreateDeploymentRequest) ''apps'']
        [EventTypeDeployment] ''d1'' = Inr \<lparr>sub_Err = None\<rparr>
   \<and> ex_jsonDeploymentEvent (ev_Data (ex_event 4 EventTypeDeployment ''complete''))
       = Inr (Some \<lparr>de_Status = ''complete'', de_JobType = ''web'', de_JobState = ''up'',
                     de_Error = []\<rparr>)
   \<and> ex_jsonDeploymentEvent (ev_Data (ex_event 5 EventTypeDeployment ''null'')) = Inr None
   \<and> ex_DeploymentGet (ev_ObjectID (ex_event 4 EventTypeDeployment ''complete''))
       = Inr \<lparr>dep_ID = ''d1'', dep_AppID = ''a1'', dep_NewReleaseID = ''r2'',
               dep_Status = ''complete''\<rparr>
   \<and> cdr_ScaleRequest ex_CreateDeploymentRequest
       = Some \<lparr>csq_Parent = [], csq_Processes = [(''web'', 2)], csq_Tags = []\<rparr>
   \<and> ex_createScale_fails
        \<lparr>csq_Parent = ''apps/a1/releases/r2'', csq_Processes = [(''web'', 2)], csq_Tags = []\<rparr>
       = Inl (PlainError ''scale request cancelled'')
   \<and> CreateDeployment ex_ParseIDFromName ex_DeploymentAdd ex_subscribe ex_createScale_fails
        ex_jsonDeploymentEvent ex_DeploymentGet (\<lambda>d. d) (\<lambda>s. s) (\<lambda>t. t) PlainError
        ex_CreateDeploymentRequest
        [Received (ex_event 3 EventTypeDeployment ''running'')]
       = ([SendDeploymentEvent
             \<lparr>pde_Deployment = \<lparr>dep_ID = ''d1'', dep_AppID = ''a1'',
                                 dep_NewReleaseID = ''r2'', dep_Status = ''running''\<rparr>,
              pde_JobType = ''web'', pde_JobState = ''up'', pde_Error = [],
              pde_CreateTime = 0\<rparr>],
          Waiting)
   \<and> CreateDeployment ex_ParseIDFromName ex_DeploymentAdd ex_subscribe ex_createScale_fails
        ex_jsonDeploymentEvent ex_DeploymentGet (\<lambda>d. d) (\<lambda>s. s) (\<lambda>t. t) PlainError
        ex_CreateDeploymentRequest
        [Received (ex_event 3 EventTypeDeployment ''running''),
         Received (ex_event 4 EventTypeDeployment ''complete'')]
       = ([SendDeploymentEvent
             \<lparr>pde_Deployment = \<lparr>dep_ID = ''d1'', dep_AppID = ''a1'',
                                 dep_NewReleaseID = ''r2'', dep_Status = ''running''\<rparr>,
              pde_JobType = ''web'', pde_JobState = ''up'', pde_Error = [],
              pde_CreateTime = 0\<rparr>,
           CallCreateScale
             \<lparr>csq_Parent = ''apps/a1/releases/r2'', csq_Processes = [(''web'', 2)],
              csq_Tags = []\<rparr>,
           SendDeploymentEvent
             \<lparr>pde_Deployment = \<lparr>dep_ID = ''d1'', dep_AppID = ''a1'',
                                 dep_NewReleaseID = ''r2'', dep_Status = ''complete''\<rparr>,
              pde_JobType = ''web'', pde_JobState = ''up'', pde_Error = [],
              pde_CreateTime = 0\<rparr>],
          Returned None)
   \<and> CreateDeployment ex_ParseIDFromName ex_DeploymentAdd ex_subscribe ex_createScale_fails
        ex_jsonDeploymentEvent ex_DeploymentGet (\<lambda>d. d) (\<lambda>s. s) (\<lambda>t. t) PlainError
        ex_CreateDeploymentRequest
        [Received (ex_event 3 EventTypeDeployment ''running''),
         Received (ex_event 5 EventTypeDeployment ''null'')]
       = ([SendDeploymentEvent
             \<lparr>pde_Deployment = \<lparr>dep_ID = ''d1'', dep_AppID = ''a1'',
                                 dep_NewReleaseID = ''r2'', dep_Status = ''running''\<rparr>,
              pde_JobType = ''web'', pde_JobState = ''up'', pde_Error = [],
              pde_CreateTime = 0\<rparr>,
           CallCreateScale
             \<lparr>csq_Parent = ''apps/a1/releases/r2'', csq_Processes = [(''web'', 2)],
              csq_Tags = []\<rparr>],
          Returned (Some (Panic ''nil pointer dereference'')))
   \<and> CreateDeployment ex_ParseIDFromName ex_DeploymentAdd ex_subscribe ex_createScale_fails
        ex_jsonDeploymentEvent ex_DeploymentGet (\<lambda>d. d) (\<lambda>s. s) (\<lambda>t. t) PlainError
        ex_CreateDeploymentRequest
        [Received (ex_event 3 EventTypeDeployment ''running''),
         Received (ex_event 4 EventTypeDeployment ''complete'')]
       = CreateDeployment ex_ParseIDFromName ex_DeploymentAdd ex_subscribe ex_createScale_ok
           ex_jsonDeploymentEvent ex_DeploymentGet (\<lambda>d. d) (\<lambda>s. s) (\<lambda>t. t) PlainError
           ex_CreateDeploymentRequest
           [Received (ex_event 3 EventTypeDeployment ''running''),
            Received (ex_event 4 EventTypeDeployment ''complete'')]"
proof -
  let ?r = "ex_event 3 EventTypeDeployment ''running''"
  let ?e = "ex_event 4 EventTypeDeployment ''complete''"
  let ?n = "ex_event 5 EventTypeDeployment ''null''"
  let ?de = "\<lparr>de_Status = ''complete'', de_JobType = ''web'', de_JobState = ''up'',
               de_Error = []\<rparr>"
  let ?added = "\<lparr>dep_ID = ''d1'', dep_AppID = ''a1'', dep_NewReleaseID = ''r2'',
              dep_Status = ''pending''\<rparr>"
  let ?d = "\<lparr>dep_ID = ''d1'', dep_AppID = ''a1'', dep_NewReleaseID = ''r2'',
             dep_Status = ''complete''\<rparr>"
  let ?sr = "\<lparr>csq_Parent = [], csq_Processes = [(''web'', 2)], csq_Tags = []\<rparr>"
  let ?sent = "SendDeploymentEvent
             \<lparr>pde_Deployment = \<lparr>dep_ID = ''d1'', dep_AppID = ''a1'',
                                 dep_NewReleaseID = ''r2'', dep_Status = ''running''\<rparr>,
              pde_JobType = ''web'', pde_JobState = ''up'', pde_Error = [],
              pde_CreateTime = (0::int)\<rparr>"
  have g1: "ex_DeploymentAdd (ex_ParseIDFromName (cdr_Parent ex_CreateDeploymentRequest) ''apps'')
              (ex_ParseIDFromName (cdr_Release ex_CreateDeploymentRequest) ''releases'')
            = Inr ?added"
    by (simp add: ex_CreateDeployment_app ex_CreateDeployment_release ex_DeploymentAdd_def)
  have g2: "ex_subscribe [ex_ParseIDFromName (cdr_Parent ex_CreateDeploymentRequest) ''apps'']
              [EventTypeDeployment] (dep_ID ?added) = Inr \<lparr>sub_Err = None\<rparr>"
    by (simp add: ex_subscribe_def)
  have g3: "CreateDeployment ex_ParseIDFromName ex_DeploymentAdd ex_subscribe
              ex_createScale_fails ex_jsonDeploymentEvent ex_DeploymentGet
              (\<lambda>d. d) (\<lambda>s. s) (\<lambda>t. t) PlainError ex_CreateDeploymentRequest [Received ?r]
            = ([?sent], Waiting)"
    by (simp add: CreateDeployment_def CreateDeployment_scale_def g1 ex_subscribe_def
          ex_jsonDeploymentEvent_def ex_DeploymentGet_def ex_event_def Let_def)
  have h1: "ev_ObjectType ?e = EventTypeDeployment" by (simp add: ex_event_def)
  have h2: "ex_jsonDeploymentEvent (ev_Data ?e) = Inr (Some ?de)"
    by (simp add: ex_jsonDeploymentEvent_def ex_event_def)
  have h3: "ex_DeploymentGet (ev_ObjectID ?e) = Inr ?d"
    by (simp add: ex_DeploymentGet_def ex_event_def)
  have n1: "ev_ObjectType ?n = EventTypeDeployment" by (simp add: ex_event_def)
  have n2: "ex_jsonDeploymentEvent (ev_Data ?n) = Inr None"
    by (simp add: ex_jsonDeploymentEvent_def ex_event_def)
  have n3: "ex_DeploymentGet (ev_ObjectID ?n) = Inr ?d"
    by (simp add: ex_DeploymentGet_def ex_event_def)
  have h4: "dep_Status ?d = ''complete''" by simp
  have h5: "cdr_ScaleRequest ex_CreateDeploymentRequest = Some ?sr"
    by (simp add: ex_CreateDeploymentRequest_def)
  have h6: "ex_createScale_fails
              \<lparr>csq_Parent = ''apps/a1/releases/r2'', csq_Processes = [(''web'', 2)],
               csq_Tags = []\<rparr>
            = Inl (PlainError ''scale request cancelled'')"
    by (simp add: ex_createScale_fails_def)
  have e0: "ev_CreatedAt ?e = 0" by (simp add: ex_event_def)
  from CreateDeployment_discards_internal_scale [where pid = ex_ParseIDFromName
         and add = ex_DeploymentAdd and sub = ex_subscribe and added = ?added
         and s = "\<lparr>sub_Err = None\<rparr>" and pre = "[Received ?r]" and acts = "[?sent]"
         and ctEvent = ?e and ju = ex_jsonDeploymentEvent
         and Get = ex_DeploymentGet and parsed = "Some ?de" and d = ?d and sr = ?sr
         and req = ex_CreateDeploymentRequest and cs = ex_createScale_fails
         and cd = "\<lambda>d. d" and cj = "\<lambda>s. s" and tp = "\<lambda>t. t" and ef = PlainError
         and rest = "[]", THEN conjunct2, THEN mp,
         OF conjI [OF g1 conjI [OF g2 conjI [OF g3
              conjI [OF h1 conjI [OF h2 conjI [OF h3 conjI [OF h4 h5]]]]]]]]
  have ok: "CreateDeployment ex_ParseIDFromName ex_DeploymentAdd ex_subscribe
              ex_createScale_fails ex_jsonDeploymentEvent ex_DeploymentGet
              (\<lambda>d. d) (\<lambda>s. s) (\<lambda>t. t) PlainError ex_CreateDeploymentRequest
              [Received ?r, Received ?e]
       = ([?sent,
           CallCreateScale
             \<lparr>csq_Parent = ''apps/a1/releases/r2'', csq_Processes = [(''web'', 2)],
              csq_Tags = []\<rparr>,
           SendDeploymentEvent
             \<lparr>pde_Deployment = ?d, pde_JobType = ''web'', pde_JobState = ''up'',
              pde_Error = [], pde_CreateTime = 0\<rparr>],
          Returned None)"
    by (simp add: e0)
  from CreateDeployment_discards_internal_scale [where pid = ex_ParseIDFromName
         and add = ex_DeploymentAdd and sub = ex_subscribe and added = ?added
         and s = "\<lparr>sub_Err = None\<rparr>" and pre = "[Received ?r]" and acts = "[?sent]"
         and ctEvent = ?n and ju = ex_jsonDeploymentEvent
         and Get = ex_DeploymentGet and parsed = None and d = ?d and sr = ?sr
         and req = ex_CreateDeploymentRequest and cs = ex_createScale_fails
         and cd = "\<lambda>d. d" and cj = "\<lambda>s. s" and tp = "\<lambda>t. t" and ef = PlainError
         and rest = "[]", THEN conjunct2, THEN mp,
         OF conjI [OF g1 conjI [OF g2 conjI [OF g3
              conjI [OF n1 conjI [OF n2 conjI [OF n3 conjI [OF h4 h5]]]]]]]]
  have null: "CreateDeployment ex_ParseIDFromName ex_DeploymentAdd ex_subscribe
              ex_createScale_fails ex_jsonDeploymentEvent ex_DeploymentGet
              (\<lambda>d. d) (\<lambda>s. s) (\<lambda>t. t) PlainError ex_CreateDeploymentRequest
              [Received ?r, Received ?n]
       = ([?sent,
           CallCreateScale
             \<lparr>csq_Parent = ''apps/a1/releases/r2'', csq_Processes = [(''web'', 2)],
              csq_Tags = []\<rparr>],
          Returned (Some (Panic ''nil pointer dereference'')))"
    by simp
  from CreateDeployment_discards_internal_scale [where cs = ex_createScale_fails
         and cs' = ex_createScale_ok, THEN conjunct1]
  have same: "CreateDeployment ex_ParseIDFromName ex_DeploymentAdd ex_subscribe
        ex_createScale_fails
        ex_jsonDeploymentEvent ex_DeploymentGet (\<lambda>d. d) (\<lambda>s. s) (\<lambda>t. t) PlainError
        ex_CreateDeploymentRequest [Received ?r, Received ?e]
       = CreateDeployment ex_ParseIDFromName ex_DeploymentAdd ex_subscribe ex_createScale_ok
           ex_jsonDeploymentEvent ex_DeploymentGet (\<lambda>d. d) (\<lambda>s. s) (\<lambda>t. t) PlainError
           ex_CreateDeploymentRequest [Received ?r, Received ?e]" .
  from g1 g2 h2 n2 h3 h5 h6 g3 ok null same show ?thesis by simp
qed


end
